theory Spec2Isabelle
  imports Complex_Main "HOL-Library.Log_Nat"
begin

section \<open>Conventions of the embedding\<close>

text \<open>
  The engine (\<^verbatim>\<open>engine/calculations.py\<close>, \<^verbatim>\<open>engine/feasibility.py\<close>) and the
  staffing allocation of \<^verbatim>\<open>app.py\<close> compute with Python \<^verbatim>\<open>float\<close>s. The code is embedded
  twice. In the first embedding a float is a \<^typ>\<open>real\<close> and \<open>+\<close>, \<open>-\<close>, \<open>*\<close>, \<open>/\<close> are
  exact: it serves the properties that are tests, case distinctions and single operations,
  which rounding leaves as they are. In the second embedding, which carries the suffix
  \<open>_fl\<close>, every operation is followed by a rounding: it serves the properties that chain
  operations, where an equation of exact arithmetic need not hold on the machine. Overflow
  to infinity and NaN are modelled in neither. Every division of the source is by a non-zero
  constant or is guarded by a test that its divisor is positive, so no
  \<^verbatim>\<open>ZeroDivisionError\<close> can be raised and the functions are total. A value that may be
  \<^verbatim>\<open>None\<close> is an \<open>option\<close>. A Python \<^verbatim>\<open>str\<close> is a \<^typ>\<open>string\<close> of bytes: ASCII text stands for
  itself and a character beyond ASCII for its UTF-8 bytes. The mode strings are taken to be
  ASCII: \<^verbatim>\<open>str.lower\<close> is modelled on ASCII letters only. A time string is a list of Unicode
  code points, since \<^verbatim>\<open>len\<close>, \<^verbatim>\<open>str.strip\<close> and \<^verbatim>\<open>int\<close> count and read code points.
\<close>

section \<open>The Python built-ins the code calls\<close>

text \<open>\<^verbatim>\<open>str.lower\<close> on ASCII letters; every other byte is kept.\<close>

definition lower_char :: "char \<Rightarrow> char" where
  "lower_char c =
     (case map_of (zip ''ABCDEFGHIJKLMNOPQRSTUVWXYZ'' ''abcdefghijklmnopqrstuvwxyz'') c of
        Some d \<Rightarrow> d
      | None \<Rightarrow> c)"

definition lower :: "string \<Rightarrow> string" where
  "lower s = map lower_char s"

text \<open>The code points of an ASCII literal.\<close>

definition codes :: "string \<Rightarrow> nat list" where
  "codes s = map of_char s"

text \<open>\<^verbatim>\<open>str.isspace\<close> of a code point, which \<^verbatim>\<open>str.strip\<close> uses: the ASCII tab, line feed,
  vertical tab, form feed, carriage return, the separators \<^verbatim>\<open>0x1c\<close> to \<^verbatim>\<open>0x1f\<close> and the
  space, and beyond ASCII \<^verbatim>\<open>0x85\<close>, \<^verbatim>\<open>0xa0\<close>, \<^verbatim>\<open>0x1680\<close>, \<^verbatim>\<open>0x2000\<close> to \<^verbatim>\<open>0x200a\<close>,
  \<^verbatim>\<open>0x2028\<close>, \<^verbatim>\<open>0x2029\<close>, \<^verbatim>\<open>0x202f\<close>, \<^verbatim>\<open>0x205f\<close> and \<^verbatim>\<open>0x3000\<close>.\<close>

definition isspace :: "nat \<Rightarrow> bool" where
  "isspace c =
     (c \<in> set [0x09, 0x0A, 0x0B, 0x0C, 0x0D, 0x1C, 0x1D, 0x1E, 0x1F, 0x20, 0x85, 0xA0,
                0x1680, 0x2028, 0x2029, 0x202F, 0x205F, 0x3000]
      \<or> (0x2000 \<le> c \<and> c \<le> 0x200A))"

definition strip :: "nat list \<Rightarrow> nat list" where
  "strip s = rev (dropWhile isspace (rev (dropWhile isspace s)))"

text \<open>The decimal digits of the Unicode database (version 14.0, that of Python 3.11) come
  in blocks of ten consecutive code points with the values 0 to 9: the code point of the
  zero of each block, and the value of a code point as a decimal digit.\<close>

definition decimal_blocks :: "nat list" where
  "decimal_blocks =
     [48, 1632, 1776, 1984, 2406, 2534, 2662, 2790, 2918, 3046, 3174, 3302, 3430, 3558,
      3664, 3792, 3872, 4160, 4240, 6112, 6160, 6470, 6608, 6784, 6800, 6992, 7088, 7232,
      7248, 42528, 43216, 43264, 43472, 43504, 43600, 44016, 65296, 66720, 68912, 69734,
      69872, 69942, 70096, 70384, 70736, 70864, 71248, 71360, 71472, 71904, 72016, 72784,
      73040, 73120, 92768, 92864, 93008, 120782, 120792, 120802, 120812, 120822, 123200,
      123632, 125264, 130032]"

definition todecimal :: "nat \<Rightarrow> nat option" where
  "todecimal c =
     (case find (\<lambda>b. b \<le> c \<and> c < b + 10) decimal_blocks of
        None \<Rightarrow> None
      | Some b \<Rightarrow> Some (c - b))"

text \<open>\<^verbatim>\<open>int(s)\<close> first turns the string into ASCII: a code point below 127 is kept, a
  whitespace beyond ASCII becomes a space, a decimal digit becomes its ASCII digit, and any
  other code point makes the literal invalid.\<close>

definition ascii_of :: "nat \<Rightarrow> nat option" where
  "ascii_of c =
     (if c < 127 then Some c
      else if isspace c then Some 0x20
      else (case todecimal c of None \<Rightarrow> None | Some d \<Rightarrow> Some (48 + d)))"

fun to_ascii :: "nat list \<Rightarrow> nat list option" where
  "to_ascii [] = Some []"
| "to_ascii (c # cs) =
     (case ascii_of c of
        None \<Rightarrow> None
      | Some a \<Rightarrow> (case to_ascii cs of None \<Rightarrow> None | Some as \<Rightarrow> Some (a # as)))"

text \<open>The whitespace the integer parser skips on both sides of the ASCII literal: tab, line
  feed, vertical tab, form feed, carriage return and space.\<close>

definition c_isspace :: "nat \<Rightarrow> bool" where
  "c_isspace c = (c \<in> set [0x09, 0x0A, 0x0B, 0x0C, 0x0D, 0x20])"

definition digit_val :: "nat \<Rightarrow> nat option" where
  "digit_val c = (if 48 \<le> c \<and> c \<le> 57 then Some (c - 48) else None)"

text \<open>The digits of a decimal literal, most significant first. Python allows one
  underscore (code point 95) between two digits, and nowhere else.\<close>

fun digits_val :: "nat \<Rightarrow> nat list \<Rightarrow> nat option" where
  "digits_val acc [] = Some acc"
| "digits_val acc (c # cs) =
     (if c = 95 then
        (case cs of
           [] \<Rightarrow> None
         | d # ds \<Rightarrow>
             (case digit_val d of None \<Rightarrow> None | Some v \<Rightarrow> digits_val (10 * acc + v) ds))
      else (case digit_val c of None \<Rightarrow> None | Some v \<Rightarrow> digits_val (10 * acc + v) cs))"

text \<open>\<^verbatim>\<open>int(s)\<close> for a string, in base 10: the literal is turned into ASCII, the
  whitespace on both sides is dropped, one sign (\<open>-\<close> is 45, \<open>+\<close> is 43) is allowed, and at
  least one digit must follow. \<open>None\<close> stands for \<^verbatim>\<open>ValueError\<close>.\<close>

definition py_int :: "nat list \<Rightarrow> int option" where
  "py_int s =
     (case to_ascii s of
        None \<Rightarrow> None
      | Some a \<Rightarrow>
          let t = rev (dropWhile c_isspace (rev (dropWhile c_isspace a)));
              neg = (t \<noteq> [] \<and> hd t = 45);
              body = (if t \<noteq> [] \<and> (hd t = 45 \<or> hd t = 43) then tl t else t)
          in case body of
               [] \<Rightarrow> None
             | c # cs \<Rightarrow>
                 (case digit_val c of
                    None \<Rightarrow> None
                  | Some v \<Rightarrow>
                      (case digits_val v cs of
                         None \<Rightarrow> None
                       | Some n \<Rightarrow> Some (if neg then - int n else int n))))"

text \<open>\<^verbatim>\<open>d.get(k, default)\<close> on a dictionary.\<close>

definition dict_get :: "('k \<rightharpoonup> 'v) \<Rightarrow> 'k \<Rightarrow> 'v \<Rightarrow> 'v" where
  "dict_get d k dflt = (case d k of None \<Rightarrow> dflt | Some v \<Rightarrow> v)"

section \<open>The feasibility classifier (\<^verbatim>\<open>engine/feasibility.py\<close>)\<close>

record feasibility_result =
  status :: string
  reasons :: "string list"

text \<open>The ten reason strings of the source. \<^verbatim>\<open>0xC3 0xA0\<close> is the letter a with a grave
  accent, \<^verbatim>\<open>0xE2 0x89 0xA5\<close> the sign greater-or-equal and \<^verbatim>\<open>0xE2 0x89 0xA4\<close> the sign
  less-or-equal.\<close>

definition reason_ebitda_lt_8 :: string where
  "reason_ebitda_lt_8 =
     ''EBITDA annuo (run-rate) < 8%: struttura economica fortemente sotto pressione.''"

definition reason_ebitda_8_12 :: string where
  "reason_ebitda_8_12 =
     ''EBITDA annuo (run-rate) tra 8% e 12%: marginalit'' @ [CHR 0xC3, CHR 0xA0]
       @ '' borderline, necessaria ottimizzazione.''"

definition reason_ebitda_12_18 :: string where
  "reason_ebitda_12_18 =
     ''EBITDA annuo (run-rate) tra 12% e 18%: livello sostenibile per molti format.''"

definition reason_ebitda_ge_18 :: string where
  "reason_ebitda_ge_18 =
     ''EBITDA annuo (run-rate) '' @ [CHR 0xE2, CHR 0x89, CHR 0xA5] @ '' 18%: marginalit''
       @ [CHR 0xC3, CHR 0xA0] @ '' robusta.''"

definition reason_prime_le_55 :: string where
  "reason_prime_le_55 =
     ''Prime Cost '' @ [CHR 0xE2, CHR 0x89, CHR 0xA4]
       @ '' 55%: struttura operativa molto efficiente.''"

definition reason_prime_55_65 :: string where
  "reason_prime_55_65 = ''Prime Cost tra 55% e 65%: livello gestibile ma da monitorare.''"

definition reason_prime_gt_65 :: string where
  "reason_prime_gt_65 =
     ''Prime Cost > 65%: rischio su food cost o produttivit'' @ [CHR 0xC3, CHR 0xA0]
       @ '' del personale.''"

definition reason_occupancy_le_10 :: string where
  "reason_occupancy_le_10 =
     ''Occupancy '' @ [CHR 0xE2, CHR 0x89, CHR 0xA4]
       @ '' 10%: incidenza affitto molto sostenibile.''"

definition reason_occupancy_10_14 :: string where
  "reason_occupancy_10_14 = ''Occupancy tra 10% e 14%: livello accettabile.''"

definition reason_occupancy_gt_14 :: string where
  "reason_occupancy_gt_14 = ''Occupancy > 14%: pressione elevata su affitto/oneri.''"

text \<open>\<^verbatim>\<open>evaluate_feasibility(results)\<close>. The dictionary is read at three keys, each with
  the default \<^verbatim>\<open>0.0\<close>; the values under them are floats (they are never \<^verbatim>\<open>None\<close> in what
  \<^verbatim>\<open>calculate_financials\<close> returns).\<close>

definition evaluate_feasibility :: "(string \<rightharpoonup> real) \<Rightarrow> feasibility_result" where
  "evaluate_feasibility results =
     (let reasons = [];
          ebitda_pct = dict_get results ''ebitda_pct_annual_runrate'' 0.0;
          prime_cost = dict_get results ''prime_cost_pct'' 0.0;
          occupancy = dict_get results ''occupancy_pct'' 0.0;
          reasons = reasons @
            [if ebitda_pct < 0.08 then reason_ebitda_lt_8
             else if ebitda_pct < 0.12 then reason_ebitda_8_12
             else if ebitda_pct < 0.18 then reason_ebitda_12_18
             else reason_ebitda_ge_18];
          reasons = reasons @
            [if prime_cost \<le> 0.55 then reason_prime_le_55
             else if prime_cost \<le> 0.65 then reason_prime_55_65
             else reason_prime_gt_65];
          reasons = reasons @
            [if occupancy \<le> 0.10 then reason_occupancy_le_10
             else if occupancy \<le> 0.14 then reason_occupancy_10_14
             else reason_occupancy_gt_14];
          status =
            (if ebitda_pct \<ge> 0.15 \<and> prime_cost \<le> 0.60 \<and> occupancy \<le> 0.12 then ''GO''
             else if ebitda_pct \<ge> 0.10 then ''REVIEW''
             else ''NO_GO'')
      in \<lparr>status = status, reasons = reasons\<rparr>)"

text \<open>The reason strings each criterion can emit.\<close>

definition ebitda_reasons :: "string list" where
  "ebitda_reasons =
     [reason_ebitda_lt_8, reason_ebitda_8_12, reason_ebitda_12_18, reason_ebitda_ge_18]"

definition prime_cost_reasons :: "string list" where
  "prime_cost_reasons = [reason_prime_le_55, reason_prime_55_65, reason_prime_gt_65]"

definition occupancy_reasons :: "string list" where
  "occupancy_reasons =
     [reason_occupancy_le_10, reason_occupancy_10_14, reason_occupancy_gt_14]"

section \<open>The calculation engine (\<^verbatim>\<open>engine/calculations.py\<close>)\<close>

record DaypartInput =
  key :: string
  label :: string
  orders_per_day :: real
  ticket_avg :: real
  start_time :: "nat list option"
  end_time :: "nat list option"

text \<open>Truth of an optional string (\<^verbatim>\<open>if s\<close>) and of an optional float (\<^verbatim>\<open>if x\<close>);
  \<^verbatim>\<open>mode or "pct"\<close> and \<^verbatim>\<open>x or 0.0\<close>.\<close>

definition truthy_str :: "'a list option \<Rightarrow> bool" where
  "truthy_str s = (case s of None \<Rightarrow> False | Some t \<Rightarrow> t \<noteq> [])"

definition truthy_float :: "real option \<Rightarrow> bool" where
  "truthy_float x = (case x of None \<Rightarrow> False | Some v \<Rightarrow> v \<noteq> 0)"

definition str_or :: "'a list option \<Rightarrow> 'a list \<Rightarrow> 'a list" where
  "str_or s d = (case s of None \<Rightarrow> d | Some t \<Rightarrow> if t = [] then d else t)"

definition float_or :: "real option \<Rightarrow> real \<Rightarrow> real" where
  "float_or x d = (case x of None \<Rightarrow> d | Some v \<Rightarrow> if v = 0 then d else v)"

text \<open>\<^verbatim>\<open>_parse_hhmm(s)\<close>: a failing \<^verbatim>\<open>int(...)\<close> is caught and gives \<^verbatim>\<open>None\<close>. The colon is
  the code point 58.\<close>

definition parse_hhmm :: "nat list \<Rightarrow> (int \<times> int) option" where
  "parse_hhmm s0 =
     (if s0 = [] then None
      else
        let s = strip s0 in
        if length s \<noteq> 5 \<or> s ! 2 \<noteq> 58 then None
        else
          (case py_int (take 2 s) of
             None \<Rightarrow> None
           | Some hh \<Rightarrow>
               (case py_int (drop 3 s) of
                  None \<Rightarrow> None
                | Some mm \<Rightarrow>
                    if 0 \<le> hh \<and> hh \<le> 23 \<and> 0 \<le> mm \<and> mm \<le> 59 then Some (hh, mm)
                    else None)))"

text \<open>\<^verbatim>\<open>_hours_between(start, end)\<close>.\<close>

definition hours_between :: "nat list option \<Rightarrow> nat list option \<Rightarrow> real option" where
  "hours_between start en =
     (let ps = (if truthy_str start then parse_hhmm (the start) else None);
          pe = (if truthy_str en then parse_hhmm (the en) else None)
      in case ps of
           None \<Rightarrow> None
         | Some (sh, sm) \<Rightarrow>
             (case pe of
                None \<Rightarrow> None
              | Some (eh, em) \<Rightarrow>
                  let smin = sh * 60 + sm;
                      emin = eh * 60 + em
                  in if emin = smin then None
                     else
                       let emin = (if emin < smin then emin + 24 * 60 else emin)
                       in Some (real_of_int (emin - smin) / 60.0)))"

text \<open>\<^verbatim>\<open>_cost_amount(revenue_month, mode, pct, eur_month)\<close>.\<close>

definition cost_amount :: "real \<Rightarrow> string option \<Rightarrow> real \<Rightarrow> real \<Rightarrow> real" where
  "cost_amount revenue_month mode pct eur_month =
     (let mode = lower (str_or mode ''pct'')
      in if mode = ''eur'' then eur_month else revenue_month * pct)"

text \<open>The nested \<^verbatim>\<open>_annual_cost_y1(mode, pct, eur_month, y1_revenue)\<close>.\<close>

definition annual_cost_y1 :: "string option \<Rightarrow> real \<Rightarrow> real \<Rightarrow> real \<Rightarrow> real" where
  "annual_cost_y1 mode pct eur_month y1_revenue =
     (if lower (str_or mode ''pct'') = ''pct'' then max 0.0 pct * max 0.0 y1_revenue
      else max 0.0 eur_month * 12.0)"

text \<open>One round of the loop of the hourly analytics, on the pair
  \<open>(total_hours, hours_by_daypart)\<close>.\<close>

definition hours_step ::
  "DaypartInput \<Rightarrow> real \<times> (string \<rightharpoonup> real) \<Rightarrow> real \<times> (string \<rightharpoonup> real)" where
  "hours_step dp st =
     (let h = (if truthy_str (start_time dp) \<and> truthy_str (end_time dp)
               then hours_between (start_time dp) (end_time dp) else None)
      in case h of
           None \<Rightarrow> st
         | Some hv \<Rightarrow> if hv > 0 then (fst st + hv, (snd st)(key dp \<mapsto> hv)) else st)"

text \<open>One round of the loop of the break-even classification, on the pair
  \<open>(variable_rate, fixed_month_extra)\<close>.\<close>

definition be_step :: "string option \<times> real \<times> real \<Rightarrow> real \<times> real \<Rightarrow> real \<times> real" where
  "be_step line st =
     (case line of (mode, pct, eur) \<Rightarrow>
        if lower (str_or mode ''pct'') = ''pct'' then (fst st + pct, snd st)
        else (fst st, snd st + eur))"

text \<open>The loop that writes the ramp factors of the months \<open>0 \<dots> ramp_up_months - 1\<close>.\<close>

definition ramp_step :: "int \<Rightarrow> real \<Rightarrow> nat \<Rightarrow> real list \<Rightarrow> real list" where
  "ramp_step ramp_up_months ramp_up_floor m factors =
     (if ramp_up_months = 1 then factors[m := 1.0]
      else factors[m := ramp_up_floor
             + (1.0 - ramp_up_floor) * (real m / real_of_int (ramp_up_months - 1))])"

definition ramp_factors :: "int \<Rightarrow> real \<Rightarrow> real list" where
  "ramp_factors ramp_up_months ramp_up_floor =
     (let factors = replicate 12 1.0
      in if ramp_up_months > 0
         then fold (ramp_step ramp_up_months ramp_up_floor) [0..<nat ramp_up_months] factors
         else factors)"

definition month_weights_of :: "real list option \<Rightarrow> real list" where
  "month_weights_of quarter_weights =
     (if (case quarter_weights of None \<Rightarrow> False
          | Some ws \<Rightarrow> ws \<noteq> [] \<and> length ws = 4 \<and> sum_list ws > 0)
      then
        let qw = the quarter_weights;
            s = sum_list qw;
            qw = map (\<lambda>q. q / s) qw
        in concat (map (\<lambda>q. replicate 3 (q / 3.0)) qw)
      else replicate 12 (1.0 / 12.0))"

text \<open>The keyword arguments of \<^verbatim>\<open>calculate_financials\<close>. A mode may be \<^verbatim>\<open>None\<close>
  (the source reads it as \<^verbatim>\<open>mode or "pct"\<close>).\<close>

record financial_args =
  dayparts :: "DaypartInput list"
  open_days_per_month :: int
  cogs_mode :: "string option"
  labor_mode :: "string option"
  opex_mode :: "string option"
  marketing_mode :: "string option"
  fee_mode :: "string option"
  cogs_pct :: real
  labor_pct :: real
  opex_pct :: real
  marketing_pct :: real
  fee_pct :: real
  cogs_eur :: real
  labor_eur :: real
  opex_eur :: real
  marketing_eur :: real
  fee_eur :: real
  rent_fixed_month :: real
  service_charges_month :: real
  capex :: real
  deposits :: real
  immobilizations :: real
  guarantees :: real
  quarter_weights :: "real list option"
  ramp_up_months :: int
  ramp_up_floor :: real

text \<open>The dictionary under the key \<^verbatim>\<open>break_even_curve\<close>; its keys carry the prefix
  \<open>curve_\<close> here.\<close>

record be_curve =
  curve_revenue_annual :: "real list"
  curve_total_costs_annual :: "real list"
  curve_ebitda_annual :: "real list"
  curve_break_even_revenue_annual :: "real option"
  curve_fixed_costs_annual :: real
  curve_variable_rate :: real
  curve_contribution_margin :: real

text \<open>The dictionary \<^verbatim>\<open>calculate_financials\<close> returns, one field per key. The seven keys
  that repeat an argument's name carry the suffix \<open>_out\<close> here.\<close>

record financial_results =
  orders_day :: real
  revenue_day :: real
  revenue_month :: real
  revenue_annual_runrate :: real
  cogs_month :: real
  labor_month :: real
  opex_month :: real
  marketing_month :: real
  fee_month :: real
  occupancy_month :: real
  cogs_annual_runrate :: real
  labor_annual_runrate :: real
  opex_annual_runrate :: real
  marketing_annual_runrate :: real
  fee_annual_runrate :: real
  occupancy_annual_runrate :: real
  ebitda_month :: real
  ebitda_pct_month :: real
  ebitda_annual_runrate :: real
  ebitda_pct_annual_runrate :: real
  prime_cost_pct :: real
  occupancy_pct :: real
  controllable_costs_pct :: real
  cash_invested :: real
  capex_out :: real
  deposits_out :: real
  immobilizations_out :: real
  guarantees_out :: real
  payback_months :: "real option"
  roi_annual :: "real option"
  break_even_revenue_month :: "real option"
  break_even_revenue_annual :: "real option"
  break_even_orders_day :: "real option"
  break_even_curve :: "be_curve option"
  fixed_costs_month :: real
  variable_rate :: "real option"
  contribution_margin :: real
  quarter_weights_out :: "real list option"
  ramp_up_months_out :: int
  ramp_up_floor_out :: real
  revenue_annual_y1 :: real
  cogs_annual_y1 :: real
  labor_annual_y1 :: real
  opex_annual_y1 :: real
  marketing_annual_y1 :: real
  fee_annual_y1 :: real
  occupancy_annual_y1 :: real
  ebitda_annual_y1 :: real
  ebitda_pct_annual_y1 :: real
  roi_annual_y1 :: "real option"
  payback_months_y1 :: "real option"
  hours_day_total :: "real option"
  orders_per_hour :: "real option"
  revenue_per_hour :: "real option"
  hours_by_daypart :: "string \<rightharpoonup> real"

text \<open>\<^verbatim>\<open>calculate_financials(...)\<close>, statement by statement.\<close>

definition calculate_financials :: "financial_args \<Rightarrow> financial_results" where
  "calculate_financials a =
     (let open_days_per_month = open_days_per_month a;
          orders_day = (\<Sum>dp\<leftarrow>dayparts a. max 0.0 (orders_per_day dp));
          revenue_day =
            (\<Sum>dp\<leftarrow>dayparts a. max 0.0 (orders_per_day dp) * max 0.0 (ticket_avg dp));
          revenue_month = revenue_day * real_of_int open_days_per_month;
          revenue_annual_runrate = revenue_month * 12;

          hours_state = fold hours_step (dayparts a) (0.0, Map.empty);
          total_hours = fst hours_state;
          hours_by_daypart = snd hours_state;
          hours_day_total = (if total_hours > 0 then Some total_hours else None);
          orders_per_hour =
            (if truthy_float hours_day_total then Some (orders_day / the hours_day_total)
             else None);
          revenue_per_hour =
            (if truthy_float hours_day_total then Some (revenue_day / the hours_day_total)
             else None);

          cogs_month = cost_amount revenue_month (cogs_mode a) (cogs_pct a) (cogs_eur a);
          labor_month = cost_amount revenue_month (labor_mode a) (labor_pct a) (labor_eur a);
          opex_month = cost_amount revenue_month (opex_mode a) (opex_pct a) (opex_eur a);
          marketing_month =
            cost_amount revenue_month (marketing_mode a) (marketing_pct a) (marketing_eur a);
          fee_month = cost_amount revenue_month (fee_mode a) (fee_pct a) (fee_eur a);

          occupancy_month = rent_fixed_month a + service_charges_month a;

          ebitda_month =
            revenue_month
              - (cogs_month + labor_month + opex_month + marketing_month + fee_month
                  + occupancy_month);
          ebitda_pct_month = (if revenue_month > 0 then ebitda_month / revenue_month else 0.0);

          cogs_annual = cogs_month * 12;
          labor_annual = labor_month * 12;
          opex_annual = opex_month * 12;
          marketing_annual = marketing_month * 12;
          fee_annual = fee_month * 12;
          occupancy_annual = occupancy_month * 12;

          ebitda_annual = ebitda_month * 12;
          ebitda_pct_annual =
            (if revenue_annual_runrate > 0 then ebitda_annual / revenue_annual_runrate
             else 0.0);

          prime_cost_pct =
            (if revenue_annual_runrate > 0
             then (cogs_annual + labor_annual) / revenue_annual_runrate else 0.0);
          occupancy_pct =
            (if revenue_annual_runrate > 0 then occupancy_annual / revenue_annual_runrate
             else 0.0);
          controllable_costs_pct =
            (if revenue_annual_runrate > 0
             then (cogs_annual + labor_annual + opex_annual + marketing_annual + fee_annual)
                    / revenue_annual_runrate
             else 0.0);

          cash_invested = capex a + deposits a + immobilizations a + guarantees a;
          roi_annual = (if cash_invested > 0 then Some (ebitda_annual / cash_invested) else None);
          payback_months =
            (if cash_invested > 0 \<and> ebitda_month > 0 then Some (cash_invested / ebitda_month)
             else None);

          be_state =
            fold be_step
              [(cogs_mode a, cogs_pct a, cogs_eur a),
               (labor_mode a, labor_pct a, labor_eur a),
               (opex_mode a, opex_pct a, opex_eur a),
               (marketing_mode a, marketing_pct a, marketing_eur a),
               (fee_mode a, fee_pct a, fee_eur a)]
              (0.0, 0.0);
          variable_rate = fst be_state;
          fixed_month_extra = snd be_state;

          fixed_costs_month = occupancy_month + fixed_month_extra;
          contribution_margin = 1.0 - variable_rate;

          break_even_revenue_month =
            (if contribution_margin > 0 \<and> fixed_costs_month > 0
             then Some (fixed_costs_month / contribution_margin) else None);
          break_even_revenue_annual =
            (if contribution_margin > 0 \<and> fixed_costs_month > 0
             then Some (the break_even_revenue_month * 12) else None);

          blended_ticket = (if orders_day > 0 then Some (revenue_day / orders_day) else None);
          break_even_orders_day =
            (if break_even_revenue_month \<noteq> None
                \<and> truthy_float blended_ticket
                \<and> the blended_ticket > 0
                \<and> open_days_per_month > 0
             then Some (the break_even_revenue_month
                          / (the blended_ticket * real_of_int open_days_per_month))
             else None);

          be_curve =
            (if contribution_margin > 0 \<and> fixed_costs_month > 0
             then
               let fixed_costs_annual = fixed_costs_month * 12;
                   x_max = max (revenue_annual_runrate * 1.4)
                             (max (float_or break_even_revenue_annual 0.0 * 1.6) 150000.0);
                   xs = map (\<lambda>i. real i * (x_max / 60.0)) [0..<61];
                   total_costs =
                     map (\<lambda>x. fixed_costs_annual + (1.0 - contribution_margin) * x) xs;
                   ebitdas = map (\<lambda>(x, tc). x - tc) (zip xs total_costs)
               in Some \<lparr>curve_revenue_annual = xs,
                        curve_total_costs_annual = total_costs,
                        curve_ebitda_annual = ebitdas,
                        curve_break_even_revenue_annual = break_even_revenue_annual,
                        curve_fixed_costs_annual = fixed_costs_annual,
                        curve_variable_rate = 1.0 - contribution_margin,
                        curve_contribution_margin = contribution_margin\<rparr>
             else None);

          ramp_up_months = max 0 (min 12 (ramp_up_months a));
          ramp_up_floor = max 0.0 (min 1.0 (ramp_up_floor a));

          month_weights = month_weights_of (quarter_weights a);
          factors = ramp_factors ramp_up_months ramp_up_floor;

          mw_no_renorm = map (\<lambda>i. month_weights ! i * factors ! i) [0..<12];
          revenue_annual_y1 = revenue_annual_runrate * sum_list mw_no_renorm;

          cogs_annual_y1 = annual_cost_y1 (cogs_mode a) (cogs_pct a) (cogs_eur a) revenue_annual_y1;
          labor_annual_y1 =
            annual_cost_y1 (labor_mode a) (labor_pct a) (labor_eur a) revenue_annual_y1;
          opex_annual_y1 = annual_cost_y1 (opex_mode a) (opex_pct a) (opex_eur a) revenue_annual_y1;
          marketing_annual_y1 =
            annual_cost_y1 (marketing_mode a) (marketing_pct a) (marketing_eur a)
              revenue_annual_y1;
          fee_annual_y1 = annual_cost_y1 (fee_mode a) (fee_pct a) (fee_eur a) revenue_annual_y1;
          occupancy_annual_y1 = occupancy_month * 12.0;

          total_costs_annual_y1 =
            cogs_annual_y1 + labor_annual_y1 + opex_annual_y1 + marketing_annual_y1
              + fee_annual_y1 + occupancy_annual_y1;
          ebitda_annual_y1 = revenue_annual_y1 - total_costs_annual_y1;
          ebitda_pct_annual_y1 =
            (if revenue_annual_y1 > 0 then ebitda_annual_y1 / revenue_annual_y1 else 0.0);

          roi_annual_y1 =
            (if cash_invested > 0 then Some (ebitda_annual_y1 / cash_invested) else None);
          payback_months_y1 =
            (if cash_invested > 0 \<and> ebitda_annual_y1 > 0
             then Some (cash_invested / (ebitda_annual_y1 / 12.0)) else None)
      in \<lparr>orders_day = orders_day,
          revenue_day = revenue_day,
          revenue_month = revenue_month,
          revenue_annual_runrate = revenue_annual_runrate,
          cogs_month = cogs_month,
          labor_month = labor_month,
          opex_month = opex_month,
          marketing_month = marketing_month,
          fee_month = fee_month,
          occupancy_month = occupancy_month,
          cogs_annual_runrate = cogs_annual,
          labor_annual_runrate = labor_annual,
          opex_annual_runrate = opex_annual,
          marketing_annual_runrate = marketing_annual,
          fee_annual_runrate = fee_annual,
          occupancy_annual_runrate = occupancy_annual,
          ebitda_month = ebitda_month,
          ebitda_pct_month = ebitda_pct_month,
          ebitda_annual_runrate = ebitda_annual,
          ebitda_pct_annual_runrate = ebitda_pct_annual,
          prime_cost_pct = prime_cost_pct,
          occupancy_pct = occupancy_pct,
          controllable_costs_pct = controllable_costs_pct,
          cash_invested = cash_invested,
          capex_out = capex a,
          deposits_out = deposits a,
          immobilizations_out = immobilizations a,
          guarantees_out = guarantees a,
          payback_months = payback_months,
          roi_annual = roi_annual,
          break_even_revenue_month = break_even_revenue_month,
          break_even_revenue_annual = break_even_revenue_annual,
          break_even_orders_day = break_even_orders_day,
          break_even_curve = be_curve,
          fixed_costs_month = fixed_costs_month,
          variable_rate = Some (1.0 - contribution_margin),
          contribution_margin = contribution_margin,
          quarter_weights_out = quarter_weights a,
          ramp_up_months_out = ramp_up_months,
          ramp_up_floor_out = ramp_up_floor,
          revenue_annual_y1 = revenue_annual_y1,
          cogs_annual_y1 = cogs_annual_y1,
          labor_annual_y1 = labor_annual_y1,
          opex_annual_y1 = opex_annual_y1,
          marketing_annual_y1 = marketing_annual_y1,
          fee_annual_y1 = fee_annual_y1,
          occupancy_annual_y1 = occupancy_annual_y1,
          ebitda_annual_y1 = ebitda_annual_y1,
          ebitda_pct_annual_y1 = ebitda_pct_annual_y1,
          roi_annual_y1 = roi_annual_y1,
          payback_months_y1 = payback_months_y1,
          hours_day_total = hours_day_total,
          orders_per_hour = orders_per_hour,
          revenue_per_hour = revenue_per_hour,
          hours_by_daypart = hours_by_daypart\<rparr>)"

text \<open>The five cost lines, as the break-even loop lists them, and the two tests on a
  line's mode: the one of \<^verbatim>\<open>_cost_amount\<close> (fixed when the mode lowercases to \<open>eur\<close>) and
  the one of the break-even loop and of \<^verbatim>\<open>_annual_cost_y1\<close> (variable when it lowercases
  to \<open>pct\<close>).\<close>

definition cost_lines :: "financial_args \<Rightarrow> (string option \<times> real \<times> real) list" where
  "cost_lines a =
     [(cogs_mode a, cogs_pct a, cogs_eur a),
      (labor_mode a, labor_pct a, labor_eur a),
      (opex_mode a, opex_pct a, opex_eur a),
      (marketing_mode a, marketing_pct a, marketing_eur a),
      (fee_mode a, fee_pct a, fee_eur a)]"

definition resolver_fixed :: "string option \<Rightarrow> bool" where
  "resolver_fixed mode = (lower (str_or mode ''pct'') = ''eur'')"

definition be_variable :: "string option \<Rightarrow> bool" where
  "be_variable mode = (lower (str_or mode ''pct'') = ''pct'')"

text \<open>The sum of the percent values of the lines the break-even loop takes as variable,
  and the sum of the fixed monthly values of the lines it takes as fixed.\<close>

definition variable_pct_sum :: "(string option \<times> real \<times> real) list \<Rightarrow> real" where
  "variable_pct_sum ls = (\<Sum>l\<leftarrow>filter (\<lambda>l. be_variable (fst l)) ls. fst (snd l))"

definition fixed_eur_sum :: "(string option \<times> real \<times> real) list \<Rightarrow> real" where
  "fixed_eur_sum ls = (\<Sum>l\<leftarrow>filter (\<lambda>l. \<not> be_variable (fst l)) ls. snd (snd l))"

text \<open>The hours of one segment, as the loop of the hourly analytics computes them.\<close>

definition daypart_hours :: "DaypartInput \<Rightarrow> real option" where
  "daypart_hours dp =
     (if truthy_str (start_time dp) \<and> truthy_str (end_time dp)
      then hours_between (start_time dp) (end_time dp) else None)"

text \<open>A time of the form \<open>HH:MM\<close>: two ASCII digits, a colon and two ASCII digits, with
  the hours at most 23 and the minutes at most 59; its hours and its minutes.\<close>

definition hhmm_hours :: "nat list \<Rightarrow> nat" where
  "hhmm_hours s = 10 * (s ! 0 - 48) + (s ! 1 - 48)"

definition hhmm_minutes :: "nat list \<Rightarrow> nat" where
  "hhmm_minutes s = 10 * (s ! 3 - 48) + (s ! 4 - 48)"

definition is_hhmm :: "nat list \<Rightarrow> bool" where
  "is_hhmm s =
     (length s = 5
      \<and> 48 \<le> s ! 0 \<and> s ! 0 \<le> 57 \<and> 48 \<le> s ! 1 \<and> s ! 1 \<le> 57
      \<and> s ! 2 = 58
      \<and> 48 \<le> s ! 3 \<and> s ! 3 \<le> 57 \<and> 48 \<le> s ! 4 \<and> s ! 4 \<le> 57
      \<and> hhmm_hours s \<le> 23 \<and> hhmm_minutes s \<le> 59)"

text \<open>The minutes since midnight of such a time.\<close>

definition hhmm_minute_of_day :: "nat list \<Rightarrow> int" where
  "hhmm_minute_of_day s = int (hhmm_hours s) * 60 + int (hhmm_minutes s)"

section \<open>The staffing allocation (\<^verbatim>\<open>app.py\<close>)\<close>

text \<open>\<^verbatim>\<open>_num(x, default)\<close> on a value that is a float or \<^verbatim>\<open>None\<close>.\<close>

definition num :: "real option \<Rightarrow> real \<Rightarrow> real" where
  "num x dflt = (case x of None \<Rightarrow> dflt | Some v \<Rightarrow> v)"


text \<open>The base of the allocation: the labour cost of the chosen view (method \<open>m1\<close>) or
  the target share of the revenue of the chosen view (method \<open>m2\<close>).\<close>

definition fte_labor_base_annual ::
  "string \<Rightarrow> bool \<Rightarrow> bool \<Rightarrow> real \<Rightarrow> financial_results \<Rightarrow> real" where
  "fte_labor_base_annual fte_method fte_use_y1 seasonality_enabled fte_target_inc results =
     (let y1_rev = num (Some (revenue_annual_y1 results)) 0.0;
          fte_revenue_base =
            (if fte_use_y1 \<and> seasonality_enabled then y1_rev
             else num (Some (revenue_annual_runrate results)) 0.0);
          fte_labor_base_annual_m1 =
            (if fte_use_y1 \<and> seasonality_enabled
             then num (Some (labor_annual_y1 results)) 0.0
             else num (Some (labor_annual_runrate results)) 0.0)
      in if fte_method = ''m2'' then max 0.0 (fte_revenue_base * fte_target_inc)
         else max 0.0 fte_labor_base_annual_m1)"

text \<open>A row of \<^verbatim>\<open>tmp_rows\<close> and a row of \<^verbatim>\<open>fte_daypart_rows\<close>. The label of a segment
  comes from the configuration and the language: \<open>label_of\<close> gives it for a key.\<close>

record tmp_row =
  tmp_label :: string
  rev_month :: real
  hours_day :: "real option"

record fte_row =
  fte_label :: string
  share :: real
  cost_annual :: real
  hours_annual :: real
  fte :: real
  avg_on_shift :: "real option"






section \<open>A worked scenario\<close>

text \<open>One segment of 100 orders a day at a ticket of 10, 30 open days; COGS 30%, labour
  30%, OPEX 12%, marketing 3%, fee 0%, all of revenue; rent 3000 and service charges 500 a
  month; 40000 invested.\<close>

definition scenario_daypart :: DaypartInput where
  "scenario_daypart =
     \<lparr>key = ''lunch'', label = ''Lunch'', orders_per_day = 100, ticket_avg = 10,
      start_time = Some (codes ''12:00''), end_time = Some (codes ''15:30'')\<rparr>"

definition scenario_args :: financial_args where
  "scenario_args =
     \<lparr>dayparts = [scenario_daypart], open_days_per_month = 30,
      cogs_mode = Some ''pct'', labor_mode = Some ''pct'', opex_mode = Some ''pct'',
      marketing_mode = Some ''pct'', fee_mode = Some ''pct'',
      cogs_pct = 0.30, labor_pct = 0.30, opex_pct = 0.12, marketing_pct = 0.03, fee_pct = 0,
      cogs_eur = 0, labor_eur = 0, opex_eur = 0, marketing_eur = 0, fee_eur = 0,
      rent_fixed_month = 3000, service_charges_month = 500,
      capex = 40000, deposits = 0, immobilizations = 0, guarantees = 0,
      quarter_weights = None, ramp_up_months = 0, ramp_up_floor = 0.65\<rparr>"


definition scenario_negative_fixed :: financial_args where
  "scenario_negative_fixed = scenario_args\<lparr>cogs_mode := Some ''eur'', cogs_eur := - 100\<rparr>"


text \<open>The scenario with a seasonality profile: quarter weights 20, 30, 30, 20, a ramp-up
  of three months from one half of the run-rate.\<close>

definition scenario_ramp :: financial_args where
  "scenario_ramp =
     scenario_args\<lparr>quarter_weights := Some [20, 30, 30, 20], ramp_up_months := 3,
       ramp_up_floor := 0.5\<rparr>"

text \<open>Two more variants: COGS as a fixed 9000 a month; the fee line under the mode string
  \<open>fixed\<close> with no cost at all.\<close>

definition scenario_cogs_fixed :: financial_args where
  "scenario_cogs_fixed = scenario_args\<lparr>cogs_mode := Some ''eur'', cogs_eur := 9000\<rparr>"


text \<open>Three segments: the lunch of the scenario, a night segment that ends after
  midnight, and a segment with no times.\<close>

definition night_daypart :: DaypartInput where
  "night_daypart =
     \<lparr>key = ''night'', label = ''Night'', orders_per_day = 20, ticket_avg = 15,
      start_time = Some (codes ''22:00''), end_time = Some (codes ''02:00'')\<rparr>"

definition untimed_daypart :: DaypartInput where
  "untimed_daypart =
     \<lparr>key = ''delivery'', label = ''Delivery'', orders_per_day = 30, ticket_avg = 5,
      start_time = None, end_time = None\<rparr>"

definition scenario_hours :: financial_args where
  "scenario_hours =
     scenario_args\<lparr>dayparts := [scenario_daypart, night_daypart, untimed_daypart]\<rparr>"

text \<open>A segment with no orders.\<close>

definition idle_daypart :: DaypartInput where
  "idle_daypart =
     \<lparr>key = ''idle'', label = ''Idle'', orders_per_day = 0, ticket_avg = 12,
      start_time = None, end_time = None\<rparr>"




text \<open>Three dictionaries of ratios, and the first of them with one more key.\<close>

definition ratios_go :: "string \<rightharpoonup> real" where
  "ratios_go =
     [''ebitda_pct_annual_runrate'' \<mapsto> 0.20, ''prime_cost_pct'' \<mapsto> 0.55,
      ''occupancy_pct'' \<mapsto> 0.10]"

definition ratios_go_more :: "string \<rightharpoonup> real" where
  "ratios_go_more = ratios_go(''revenue_month'' \<mapsto> 30000)"

definition ratios_review :: "string \<rightharpoonup> real" where
  "ratios_review =
     [''ebitda_pct_annual_runrate'' \<mapsto> 0.11, ''prime_cost_pct'' \<mapsto> 0.55,
      ''occupancy_pct'' \<mapsto> 0.10]"

definition ratios_no_go :: "string \<rightharpoonup> real" where
  "ratios_no_go =
     [''ebitda_pct_annual_runrate'' \<mapsto> 0.05, ''prime_cost_pct'' \<mapsto> 0.55,
      ''occupancy_pct'' \<mapsto> 0.10]"

section \<open>Binary floating point\<close>

text \<open>
  The definitions above compute in exact arithmetic. What follows is the same code with its
  roundings: a float is still a \<^typ>\<open>real\<close>, and every arithmetic operation of the source is
  the exact operation followed by a rounding \<open>rd\<close>. The rounding is a parameter, so that a
  statement proved for every \<open>rd\<close> holds for the arithmetic of the machine and, with the
  identity for \<open>rd\<close>, for exact arithmetic. The built-in \<^verbatim>\<open>sum\<close> is a parameter \<open>su\<close> as well:
  up to Python 3.11 it adds from left to right with one rounding per addition, from 3.12 on
  it adds floats with a compensated summation.

  The rounding of binary64 is \<open>round_double\<close>: to the nearest number with a significand of
  53 bits, a tie going to the even significand. The exponent is not bounded, so overflow to
  infinity, subnormal numbers and NaN are not modelled: \<open>round_double\<close> is the rounding of
  the machine for every result that is zero or whose magnitude lies between \<open>2 powi (- 1022)\<close> and
  \<open>2 powi 1024\<close>. Signed zeros are one zero. A decimal literal of the source that is not an
  integer, such as \<^verbatim>\<open>1.4\<close>, is the rounding of the decimal; an integer literal, and an
  integer of the program converted to a float, is itself up to \<open>2 ^ 53\<close> and is rounded
  beyond.
\<close>

text \<open>The exponent of the leading bit of a positive real: \<open>2 powi (ilog2 x) \<le> x <
  2 powi (ilog2 x + 1)\<close>.\<close>

definition ilog2 :: "real \<Rightarrow> int" where
  "ilog2 x = (if 1 \<le> x then bitlen \<lfloor>x\<rfloor> - 1 else - bitlen (\<lceil>1 / x\<rceil> - 1))"

text \<open>The nearest integer, a tie going to the even one.\<close>

definition round_half_even :: "real \<Rightarrow> int" where
  "round_half_even y =
     (let f = \<lfloor>y\<rfloor>;
          d = y - of_int f
      in if d < 1 / 2 then f
         else if d > 1 / 2 then f + 1
         else if even f then f
         else f + 1)"

text \<open>The nearest binary64 number: the real is scaled so that its leading bit is bit 52,
  rounded to an integer, and scaled back.\<close>

definition round_double :: "real \<Rightarrow> real" where
  "round_double x =
     (if x = 0 then 0
      else
        let e = ilog2 \<bar>x\<bar> - 52
        in of_int (round_half_even (x / 2 powi e)) * 2 powi e)"

text \<open>The unit roundoff of binary64, and the standard model of a rounding with unit
  roundoff \<open>u\<close>: the relative error of one operation is at most \<open>u\<close>.\<close>

definition unit_roundoff :: real where
  "unit_roundoff = 1 / 2 ^ 53"

definition standard_model :: "(real \<Rightarrow> real) \<Rightarrow> real \<Rightarrow> bool" where
  "standard_model rd u = (\<forall>x. \<bar>rd x - x\<bar> \<le> u * \<bar>x\<bar>)"

text \<open>A sum from left to right, starting from zero, with one rounding per addition: the
  loops of the source that accumulate with \<^verbatim>\<open>+=\<close>, and \<^verbatim>\<open>sum\<close> up to Python 3.11.\<close>

definition add_sum :: "(real \<Rightarrow> real) \<Rightarrow> real list \<Rightarrow> real" where
  "add_sum rd xs = foldl (\<lambda>s x. rd (s + x)) 0 xs"

section \<open>The calculation engine in floating point\<close>

text \<open>\<^verbatim>\<open>_hours_between(start, end)\<close>: the division of the minutes by \<^verbatim>\<open>60.0\<close> is
  rounded.\<close>

definition hours_between_fl ::
  "(real \<Rightarrow> real) \<Rightarrow> nat list option \<Rightarrow> nat list option \<Rightarrow> real option" where
  "hours_between_fl rd start en =
     (let ps = (if truthy_str start then parse_hhmm (the start) else None);
          pe = (if truthy_str en then parse_hhmm (the en) else None)
      in case ps of
           None \<Rightarrow> None
         | Some (sh, sm) \<Rightarrow>
             (case pe of
                None \<Rightarrow> None
              | Some (eh, em) \<Rightarrow>
                  let smin = sh * 60 + sm;
                      emin = eh * 60 + em
                  in if emin = smin then None
                     else
                       let emin = (if emin < smin then emin + 24 * 60 else emin)
                       in Some (rd (real_of_int (emin - smin) / 60.0))))"

text \<open>\<^verbatim>\<open>_cost_amount(revenue_month, mode, pct, eur_month)\<close>.\<close>

definition cost_amount_fl ::
  "(real \<Rightarrow> real) \<Rightarrow> real \<Rightarrow> string option \<Rightarrow> real \<Rightarrow> real \<Rightarrow> real" where
  "cost_amount_fl rd revenue mode pct eur_month =
     (let mode = lower (str_or mode ''pct'')
      in if mode = ''eur'' then eur_month else rd (revenue * pct))"

text \<open>The nested \<^verbatim>\<open>_annual_cost_y1(mode, pct, eur_month, y1_revenue)\<close>.\<close>

definition annual_cost_y1_fl ::
  "(real \<Rightarrow> real) \<Rightarrow> string option \<Rightarrow> real \<Rightarrow> real \<Rightarrow> real \<Rightarrow> real" where
  "annual_cost_y1_fl rd mode pct eur_month y1_revenue =
     (if lower (str_or mode ''pct'') = ''pct'' then rd (max 0.0 pct * max 0.0 y1_revenue)
      else rd (max 0.0 eur_month * 12.0))"

text \<open>One round of the loop of the hourly analytics.\<close>

definition hours_step_fl ::
  "(real \<Rightarrow> real) \<Rightarrow> DaypartInput \<Rightarrow> real \<times> (string \<rightharpoonup> real) \<Rightarrow> real \<times> (string \<rightharpoonup> real)"
  where
  "hours_step_fl rd dp st =
     (let h = (if truthy_str (start_time dp) \<and> truthy_str (end_time dp)
               then hours_between_fl rd (start_time dp) (end_time dp) else None)
      in case h of
           None \<Rightarrow> st
         | Some hv \<Rightarrow> if hv > 0 then (rd (fst st + hv), (snd st)(key dp \<mapsto> hv)) else st)"

text \<open>One round of the loop of the break-even classification.\<close>

definition be_step_fl ::
  "(real \<Rightarrow> real) \<Rightarrow> string option \<times> real \<times> real \<Rightarrow> real \<times> real \<Rightarrow> real \<times> real" where
  "be_step_fl rd line st =
     (case line of (mode, pct, eur) \<Rightarrow>
        if lower (str_or mode ''pct'') = ''pct'' then (rd (fst st + pct), snd st)
        else (fst st, rd (snd st + eur)))"

text \<open>The loop that writes the ramp factors: \<^verbatim>\<open>m / (ramp_up_months - 1)\<close> is a division
  of two integers, rounded once.\<close>

definition ramp_step_fl :: "(real \<Rightarrow> real) \<Rightarrow> int \<Rightarrow> real \<Rightarrow> nat \<Rightarrow> real list \<Rightarrow> real list" where
  "ramp_step_fl rd months floor_v m factors =
     (if months = 1 then factors[m := 1.0]
      else factors[m := rd (floor_v
             + rd (rd (1.0 - floor_v) * rd (real m / real_of_int (months - 1))))])"

definition ramp_factors_fl :: "(real \<Rightarrow> real) \<Rightarrow> int \<Rightarrow> real \<Rightarrow> real list" where
  "ramp_factors_fl rd months floor_v =
     (let factors = replicate 12 1.0
      in if months > 0
         then fold (ramp_step_fl rd months floor_v) [0..<nat months] factors
         else factors)"

definition month_weights_of_fl ::
  "(real \<Rightarrow> real) \<Rightarrow> (real list \<Rightarrow> real) \<Rightarrow> real list option \<Rightarrow> real list" where
  "month_weights_of_fl rd su weights =
     (if (case weights of None \<Rightarrow> False
          | Some ws \<Rightarrow> ws \<noteq> [] \<and> length ws = 4 \<and> su ws > 0)
      then
        let qw = the weights;
            s = su qw;
            qw = map (\<lambda>q. rd (q / s)) qw
        in concat (map (\<lambda>q. replicate 3 (rd (q / 3.0))) qw)
      else replicate 12 (rd (1.0 / 12.0)))"

text \<open>\<^verbatim>\<open>calculate_financials(...)\<close>, statement by statement, with the rounding of every
  operation. A product or a quotient of a float and an integer converts the integer first.\<close>

definition calculate_financials_fl ::
  "(real \<Rightarrow> real) \<Rightarrow> (real list \<Rightarrow> real) \<Rightarrow> financial_args \<Rightarrow> financial_results" where
  "calculate_financials_fl rd su a =
     (let open_days_per_month = open_days_per_month a;
          orders_day = su (map (\<lambda>dp. max 0.0 (orders_per_day dp)) (dayparts a));
          revenue_day = su (map (\<lambda>dp. rd (max 0.0 (orders_per_day dp) * max 0.0
              (ticket_avg dp))) (dayparts a));
          revenue_month = rd (revenue_day * rd (real_of_int open_days_per_month));
          revenue_annual_runrate = rd (revenue_month * 12);
          hours_state = fold (hours_step_fl rd) (dayparts a) (0.0, Map.empty);
          total_hours = fst hours_state;
          hours_by_daypart = snd hours_state;
          hours_day_total = (if total_hours > 0 then Some total_hours else None);
          orders_per_hour = (if truthy_float hours_day_total then Some (rd (orders_day / the
              hours_day_total)) else None);
          revenue_per_hour = (if truthy_float hours_day_total then Some (rd (revenue_day / the
              hours_day_total)) else None);
          cogs_month = cost_amount_fl rd revenue_month (cogs_mode a) (cogs_pct a) (cogs_eur a);
          labor_month = cost_amount_fl rd revenue_month (labor_mode a) (labor_pct a)
              (labor_eur a);
          opex_month = cost_amount_fl rd revenue_month (opex_mode a) (opex_pct a) (opex_eur a);
          marketing_month = cost_amount_fl rd revenue_month (marketing_mode a) (marketing_pct
              a) (marketing_eur a);
          fee_month = cost_amount_fl rd revenue_month (fee_mode a) (fee_pct a) (fee_eur a);
          occupancy_month = rd (rent_fixed_month a + service_charges_month a);
          ebitda_month = rd (revenue_month - rd (rd (rd (rd (rd (cogs_month + labor_month) +
              opex_month) + marketing_month) + fee_month) + occupancy_month));
          ebitda_pct_month = (if revenue_month > 0 then rd (ebitda_month / revenue_month) else
              0.0);
          cogs_annual = rd (cogs_month * 12);
          labor_annual = rd (labor_month * 12);
          opex_annual = rd (opex_month * 12);
          marketing_annual = rd (marketing_month * 12);
          fee_annual = rd (fee_month * 12);
          occupancy_annual = rd (occupancy_month * 12);
          ebitda_annual = rd (ebitda_month * 12);
          ebitda_pct_annual = (if revenue_annual_runrate > 0 then rd (ebitda_annual /
              revenue_annual_runrate) else 0.0);
          prime_cost_pct = (if revenue_annual_runrate > 0 then rd (rd (cogs_annual +
              labor_annual) / revenue_annual_runrate) else 0.0);
          occupancy_pct = (if revenue_annual_runrate > 0 then rd (occupancy_annual /
              revenue_annual_runrate) else 0.0);
          controllable_costs_pct = (if revenue_annual_runrate > 0 then rd (rd (rd (rd (rd
              (cogs_annual + labor_annual) + opex_annual) + marketing_annual) + fee_annual) /
              revenue_annual_runrate) else 0.0);
          cash_invested = rd (rd (rd (capex a + deposits a) + immobilizations a) + guarantees
              a);
          roi_annual = (if cash_invested > 0 then Some (rd (ebitda_annual / cash_invested))
              else None);
          payback_months = (if cash_invested > 0 \<and> ebitda_month > 0 then Some (rd
              (cash_invested / ebitda_month)) else None);
          be_state = fold (be_step_fl rd) [(cogs_mode a, cogs_pct a, cogs_eur a), (labor_mode
              a, labor_pct a, labor_eur a), (opex_mode a, opex_pct a, opex_eur a), (marketing_mode
              a, marketing_pct a, marketing_eur a), (fee_mode a, fee_pct a, fee_eur a)] (0.0, 0.0);
          variable_rate = fst be_state;
          fixed_month_extra = snd be_state;
          fixed_costs_month = rd (occupancy_month + fixed_month_extra);
          contribution_margin = rd (1.0 - variable_rate);
          break_even_revenue_month = (if contribution_margin > 0 \<and> fixed_costs_month > 0
              then Some (rd (fixed_costs_month / contribution_margin)) else None);
          break_even_revenue_annual = (if contribution_margin > 0 \<and> fixed_costs_month > 0
              then Some (rd (the break_even_revenue_month * 12)) else None);
          blended_ticket = (if orders_day > 0 then Some (rd (revenue_day / orders_day)) else
              None);
          break_even_orders_day = (if break_even_revenue_month \<noteq> None \<and>
              truthy_float blended_ticket \<and> the blended_ticket > 0 \<and> open_days_per_month
              > 0 then Some (rd (the break_even_revenue_month / rd (the blended_ticket * rd
              (real_of_int open_days_per_month)))) else None);
          be_curve = (if contribution_margin > 0 \<and> fixed_costs_month > 0 then (let
              fixed_costs_annual = rd (fixed_costs_month * 12); x_max = max (rd
              (revenue_annual_runrate * rd 1.4)) (max (rd (float_or break_even_revenue_annual 0.0
              * rd 1.6)) 150000.0); xs = map (\<lambda>i. rd (real i * rd (x_max / 60.0)))
              [0..<61]; total_costs = map (\<lambda>x. rd (fixed_costs_annual + rd (rd (1.0 -
              contribution_margin) * x))) xs; ebitdas = map (\<lambda>(x, tc). rd (x - tc)) (zip
              xs total_costs) in Some \<lparr>curve_revenue_annual = xs, curve_total_costs_annual
              = total_costs, curve_ebitda_annual = ebitdas, curve_break_even_revenue_annual =
              break_even_revenue_annual, curve_fixed_costs_annual = fixed_costs_annual,
              curve_variable_rate = rd (1.0 - contribution_margin), curve_contribution_margin =
              contribution_margin\<rparr>) else None);
          ramp_up_months = max 0 (min 12 (ramp_up_months a));
          ramp_up_floor = max 0.0 (min 1.0 (ramp_up_floor a));
          month_weights = month_weights_of_fl rd su (quarter_weights a);
          factors = ramp_factors_fl rd ramp_up_months ramp_up_floor;
          mw_no_renorm = map (\<lambda>i. rd (month_weights ! i * factors ! i)) [0..<12];
          revenue_annual_y1 = rd (revenue_annual_runrate * su mw_no_renorm);
          cogs_annual_y1 = annual_cost_y1_fl rd (cogs_mode a) (cogs_pct a) (cogs_eur a)
              revenue_annual_y1;
          labor_annual_y1 = annual_cost_y1_fl rd (labor_mode a) (labor_pct a) (labor_eur a)
              revenue_annual_y1;
          opex_annual_y1 = annual_cost_y1_fl rd (opex_mode a) (opex_pct a) (opex_eur a)
              revenue_annual_y1;
          marketing_annual_y1 = annual_cost_y1_fl rd (marketing_mode a) (marketing_pct a)
              (marketing_eur a) revenue_annual_y1;
          fee_annual_y1 = annual_cost_y1_fl rd (fee_mode a) (fee_pct a) (fee_eur a)
              revenue_annual_y1;
          occupancy_annual_y1 = rd (occupancy_month * 12.0);
          total_costs_annual_y1 = rd (rd (rd (rd (rd (cogs_annual_y1 + labor_annual_y1) +
              opex_annual_y1) + marketing_annual_y1) + fee_annual_y1) + occupancy_annual_y1);
          ebitda_annual_y1 = rd (revenue_annual_y1 - total_costs_annual_y1);
          ebitda_pct_annual_y1 = (if revenue_annual_y1 > 0 then rd (ebitda_annual_y1 /
              revenue_annual_y1) else 0.0);
          roi_annual_y1 = (if cash_invested > 0 then Some (rd (ebitda_annual_y1 /
              cash_invested)) else None);
          payback_months_y1 = (if cash_invested > 0 \<and> ebitda_annual_y1 > 0 then Some (rd
              (cash_invested / rd (ebitda_annual_y1 / 12.0))) else None)
      in \<lparr>orders_day = orders_day,
          revenue_day = revenue_day,
          revenue_month = revenue_month,
          revenue_annual_runrate = revenue_annual_runrate,
          cogs_month = cogs_month,
          labor_month = labor_month,
          opex_month = opex_month,
          marketing_month = marketing_month,
          fee_month = fee_month,
          occupancy_month = occupancy_month,
          cogs_annual_runrate = cogs_annual,
          labor_annual_runrate = labor_annual,
          opex_annual_runrate = opex_annual,
          marketing_annual_runrate = marketing_annual,
          fee_annual_runrate = fee_annual,
          occupancy_annual_runrate = occupancy_annual,
          ebitda_month = ebitda_month,
          ebitda_pct_month = ebitda_pct_month,
          ebitda_annual_runrate = ebitda_annual,
          ebitda_pct_annual_runrate = ebitda_pct_annual,
          prime_cost_pct = prime_cost_pct,
          occupancy_pct = occupancy_pct,
          controllable_costs_pct = controllable_costs_pct,
          cash_invested = cash_invested,
          capex_out = capex a,
          deposits_out = deposits a,
          immobilizations_out = immobilizations a,
          guarantees_out = guarantees a,
          payback_months = payback_months,
          roi_annual = roi_annual,
          break_even_revenue_month = break_even_revenue_month,
          break_even_revenue_annual = break_even_revenue_annual,
          break_even_orders_day = break_even_orders_day,
          break_even_curve = be_curve,
          fixed_costs_month = fixed_costs_month,
          variable_rate = Some (rd (1.0 - contribution_margin)),
          contribution_margin = contribution_margin,
          quarter_weights_out = quarter_weights a,
          ramp_up_months_out = ramp_up_months,
          ramp_up_floor_out = ramp_up_floor,
          revenue_annual_y1 = revenue_annual_y1,
          cogs_annual_y1 = cogs_annual_y1,
          labor_annual_y1 = labor_annual_y1,
          opex_annual_y1 = opex_annual_y1,
          marketing_annual_y1 = marketing_annual_y1,
          fee_annual_y1 = fee_annual_y1,
          occupancy_annual_y1 = occupancy_annual_y1,
          ebitda_annual_y1 = ebitda_annual_y1,
          ebitda_pct_annual_y1 = ebitda_pct_annual_y1,
          roi_annual_y1 = roi_annual_y1,
          payback_months_y1 = payback_months_y1,
          hours_day_total = hours_day_total,
          orders_per_hour = orders_per_hour,
          revenue_per_hour = revenue_per_hour,
          hours_by_daypart = hours_by_daypart\<rparr>)"

section \<open>The staffing allocation in floating point\<close>

text \<open>\<^verbatim>\<open>_hours_between_local(start_s, end_s)\<close>.\<close>

definition hours_between_local_fl ::
  "(real \<Rightarrow> real) \<Rightarrow> nat list option \<Rightarrow> nat list option \<Rightarrow> real option" where
  "hours_between_local_fl rd start_s end_s =
     (let s = strip (str_or start_s []);
          e = strip (str_or end_s [])
      in if length s \<noteq> 5 \<or> length e \<noteq> 5 \<or> s ! 2 \<noteq> 58 \<or> e ! 2 \<noteq> 58
         then None
         else
           (case (py_int (take 2 s), py_int (drop 3 s), py_int (take 2 e), py_int (drop 3 e)) of
              (Some sh, Some sm, Some eh, Some em) \<Rightarrow>
                if \<not> (0 \<le> sh \<and> sh \<le> 23 \<and> 0 \<le> eh \<and> eh \<le> 23
                       \<and> 0 \<le> sm \<and> sm \<le> 59 \<and> 0 \<le> em \<and> em \<le> 59)
                then None
                else
                  let smin = sh * 60 + sm;
                      emin = eh * 60 + em;
                      emin = (if emin < smin then emin + 24 * 60 else emin)
                  in if emin = smin then None
                     else Some (rd (real_of_int (emin - smin) / 60.0))
            | _ \<Rightarrow> None))"

text \<open>The row of \<^verbatim>\<open>tmp_rows\<close> for a segment: the product of the orders, the ticket and
  \<^verbatim>\<open>float(open_days_val)\<close>, from left to right.\<close>

definition tmp_row_of_fl ::
  "(real \<Rightarrow> real) \<Rightarrow> (string \<Rightarrow> string) \<Rightarrow> int \<Rightarrow> DaypartInput \<Rightarrow> tmp_row" where
  "tmp_row_of_fl rd label_of open_days_val dp =
     (let dp_label = label_of (key dp);
          dp_month_rev =
            rd (rd (num (Some (orders_per_day dp)) 0.0 * num (Some (ticket_avg dp)) 0.0)
                  * rd (real_of_int open_days_val));
          dp_hours_day = hours_between_local_fl rd (start_time dp) (end_time dp)
      in \<lparr>tmp_label = dp_label, rev_month = max 0.0 dp_month_rev, hours_day = dp_hours_day\<rparr>)"

definition tmp_rows_fl ::
  "(real \<Rightarrow> real) \<Rightarrow> (string \<Rightarrow> string) \<Rightarrow> int \<Rightarrow> DaypartInput list \<Rightarrow> tmp_row list" where
  "tmp_rows_fl rd label_of open_days_val daypart_inputs =
     map (tmp_row_of_fl rd label_of open_days_val) daypart_inputs"

text \<open>The body of the allocation loop for one row. In \<^verbatim>\<open>1.0 / row_count\<close> the integer is
  converted to a float.\<close>

definition fte_row_of_fl ::
  "(real \<Rightarrow> real) \<Rightarrow> real \<Rightarrow> real \<Rightarrow> real \<Rightarrow> int \<Rightarrow> real \<Rightarrow> nat \<Rightarrow> tmp_row \<Rightarrow> fte_row" where
  "fte_row_of_fl rd labor_base fte_hourly_cost fte_hours_per_fte open_days_val tot_month_rev
      row_count r =
     (let share = (if tot_month_rev > 0 then rd (rev_month r / tot_month_rev)
                   else rd (1.0 / rd (real row_count)));
          labor_cost_annual_alloc = rd (labor_base * share);
          labor_hours_annual_alloc =
            (if fte_hourly_cost > 0 then rd (labor_cost_annual_alloc / fte_hourly_cost)
             else 0.0);
          fte_alloc =
            (if fte_hours_per_fte > 0 then rd (labor_hours_annual_alloc / fte_hours_per_fte)
             else 0.0);
          avg_on_shift =
            (if truthy_float (hours_day r) \<and> open_days_val > 0
             then
               let annual_slot_hours =
                     rd (rd (the (hours_day r) * rd (real_of_int open_days_val)) * 12.0)
               in if annual_slot_hours > 0
                  then Some (rd (labor_hours_annual_alloc / annual_slot_hours)) else None
             else None)
      in \<lparr>fte_label = tmp_label r,
          share = share,
          cost_annual = labor_cost_annual_alloc,
          hours_annual = labor_hours_annual_alloc,
          fte = fte_alloc,
          avg_on_shift = avg_on_shift\<rparr>)"

text \<open>The allocation loop, with its \<^verbatim>\<open>break\<close> when there is no row.\<close>

fun fte_rows_loop_fl ::
  "(real \<Rightarrow> real) \<Rightarrow> real \<Rightarrow> real \<Rightarrow> real \<Rightarrow> int \<Rightarrow> real \<Rightarrow> nat \<Rightarrow> tmp_row list \<Rightarrow> fte_row list
     \<Rightarrow> fte_row list"
  where
  "fte_rows_loop_fl rd labor_base hc hpf od tot row_count [] acc = acc"
| "fte_rows_loop_fl rd labor_base hc hpf od tot row_count (r # rs) acc =
     (if row_count \<le> 0 then acc
      else fte_rows_loop_fl rd labor_base hc hpf od tot row_count rs
             (acc @ [fte_row_of_fl rd labor_base hc hpf od tot row_count r]))"

definition fte_daypart_rows_fl ::
  "(real \<Rightarrow> real) \<Rightarrow> (real list \<Rightarrow> real) \<Rightarrow> real \<Rightarrow> real \<Rightarrow> real \<Rightarrow> int \<Rightarrow> tmp_row list
     \<Rightarrow> fte_row list" where
  "fte_daypart_rows_fl rd su labor_base fte_hourly_cost fte_hours_per_fte open_days_val rows =
     (let tot_month_rev = su (map rev_month rows);
          row_count = length rows
      in fte_rows_loop_fl rd labor_base fte_hourly_cost fte_hours_per_fte open_days_val
           tot_month_rev row_count rows [])"

section \<open>What the break-even loop adds\<close>

text \<open>The percent values of the lines the break-even loop takes as variable, and the fixed
  monthly values of the lines it takes as fixed, in the order of the loop.\<close>

definition variable_pcts :: "(string option \<times> real \<times> real) list \<Rightarrow> real list" where
  "variable_pcts ls = map (\<lambda>l. fst (snd l)) (filter (\<lambda>l. be_variable (fst l)) ls)"

definition fixed_eurs :: "(string option \<times> real \<times> real) list \<Rightarrow> real list" where
  "fixed_eurs ls = map (\<lambda>l. snd (snd l)) (filter (\<lambda>l. \<not> be_variable (fst l)) ls)"

section \<open>Scenarios in binary64\<close>

text \<open>The worked scenario as the engine receives it: each percent value is the binary64
  number nearest to the decimal, and so is the ramp-up floor.\<close>

definition scenario_double :: financial_args where
  "scenario_double =
     scenario_args\<lparr>cogs_pct := round_double 0.30, labor_pct := round_double 0.30,
       opex_pct := round_double 0.12, marketing_pct := round_double 0.03,
       ramp_up_floor := round_double 0.65\<rparr>"

text \<open>Variants of it: no segment at all; no rent and no service charges.\<close>

definition scenario_double_no_segments :: financial_args where
  "scenario_double_no_segments = scenario_double\<lparr>dayparts := []\<rparr>"

definition scenario_double_no_fixed :: financial_args where
  "scenario_double_no_fixed =
     scenario_double\<lparr>rent_fixed_month := 0, service_charges_month := 0\<rparr>"

text \<open>A small store: one segment of 7 orders a day at a ticket of 8, 30 open days; COGS
  15%, labour 18%, OPEX 20%, marketing 5%, fee 0%; rent 3000 and service charges 500.\<close>

definition small_daypart :: DaypartInput where
  "small_daypart =
     \<lparr>key = ''lunch'', label = ''Lunch'', orders_per_day = 7, ticket_avg = 8,
      start_time = None, end_time = None\<rparr>"

definition scenario_small :: financial_args where
  "scenario_small =
     scenario_args\<lparr>dayparts := [small_daypart],
       cogs_pct := round_double 0.15, labor_pct := round_double 0.18,
       opex_pct := round_double 0.20, marketing_pct := round_double 0.05\<rparr>"

text \<open>The scenario with percent lines of 30%, 30%, 30% and 10%: in decimals the variable
  rate is one.\<close>

definition scenario_all_variable :: financial_args where
  "scenario_all_variable =
     scenario_args\<lparr>cogs_pct := round_double 0.30, labor_pct := round_double 0.30,
       opex_pct := round_double 0.30, marketing_pct := round_double 0.10\<rparr>"

text \<open>Six segments with no orders.\<close>

definition six_idle :: "DaypartInput list" where
  "six_idle = replicate 6 idle_daypart"

text \<open>The same percent lines as decimals, for exact arithmetic.\<close>

definition scenario_all_variable_decimal :: financial_args where
  "scenario_all_variable_decimal =
     scenario_args\<lparr>cogs_pct := 0.30, labor_pct := 0.30, opex_pct := 0.30,
       marketing_pct := 0.10\<rparr>"

section \<open>Properties of the feasibility classifier\<close>

lemma feasibility_status:
  "status (evaluate_feasibility results) =
     (if dict_get results ''ebitda_pct_annual_runrate'' 0 \<ge> 0.15
         \<and> dict_get results ''prime_cost_pct'' 0 \<le> 0.60
         \<and> dict_get results ''occupancy_pct'' 0 \<le> 0.12 then ''GO''
      else if dict_get results ''ebitda_pct_annual_runrate'' 0 \<ge> 0.10 then ''REVIEW''
      else ''NO_GO'')"
  by (simp add: evaluate_feasibility_def Let_def)

lemma feasibility_reasons:
  "\<exists>r1 r2 r3. reasons (evaluate_feasibility results) = [r1, r2, r3]
      \<and> r1 \<in> set ebitda_reasons \<and> r2 \<in> set prime_cost_reasons \<and> r3 \<in> set occupancy_reasons"
  by (simp add: evaluate_feasibility_def Let_def ebitda_reasons_def prime_cost_reasons_def
      occupancy_reasons_def)

lemma feasibility_reason_prefixes:
  "\<forall>r \<in> set ebitda_reasons. take 6 r = ''EBITDA''"
  "\<forall>r \<in> set prime_cost_reasons. take 10 r = ''Prime Cost''"
  "\<forall>r \<in> set occupancy_reasons. take 9 r = ''Occupancy''"
  by (simp_all add: ebitda_reasons_def prime_cost_reasons_def occupancy_reasons_def
      reason_ebitda_lt_8_def reason_ebitda_8_12_def reason_ebitda_12_18_def
      reason_ebitda_ge_18_def reason_prime_le_55_def reason_prime_55_65_def
      reason_prime_gt_65_def reason_occupancy_le_10_def reason_occupancy_10_14_def
      reason_occupancy_gt_14_def)

lemma feasibility_pure:
  assumes "dict_get results' ''ebitda_pct_annual_runrate'' 0
             = dict_get results ''ebitda_pct_annual_runrate'' 0"
    and "dict_get results' ''prime_cost_pct'' 0 = dict_get results ''prime_cost_pct'' 0"
    and "dict_get results' ''occupancy_pct'' 0 = dict_get results ''occupancy_pct'' 0"
  shows "evaluate_feasibility results' = evaluate_feasibility results"
  using assms by (simp add: evaluate_feasibility_def)

text \<open>
  Claim C2. The classifier depends on its dictionary only through the three ratios
  \<open>ebitda_pct_annual_runrate\<close>, \<open>prime_cost_pct\<close> and \<open>occupancy_pct\<close>. Its status is
  \<open>GO\<close> exactly when EBITDA% is at least 0.15, prime cost% at most 0.60 and occupancy% at
  most 0.12; otherwise it is \<open>REVIEW\<close> exactly when EBITDA% is at least 0.10; otherwise
  it is \<open>NO_GO\<close>. Whatever the status, the reasons are exactly three strings: one of the
  EBITDA reasons, then one of the prime-cost reasons, then one of the occupancy reasons.
\<close>

theorem C2_feasibility_classifier:
  fixes results results' :: "string \<rightharpoonup> real"
  shows
  "(status (evaluate_feasibility results) = ''GO'' \<longleftrightarrow>
      dict_get results ''ebitda_pct_annual_runrate'' 0 \<ge> 0.15
      \<and> dict_get results ''prime_cost_pct'' 0 \<le> 0.60
      \<and> dict_get results ''occupancy_pct'' 0 \<le> 0.12)
   \<and> (status (evaluate_feasibility results) = ''REVIEW'' \<longleftrightarrow>
        \<not> (dict_get results ''ebitda_pct_annual_runrate'' 0 \<ge> 0.15
            \<and> dict_get results ''prime_cost_pct'' 0 \<le> 0.60
            \<and> dict_get results ''occupancy_pct'' 0 \<le> 0.12)
        \<and> dict_get results ''ebitda_pct_annual_runrate'' 0 \<ge> 0.10)
   \<and> (status (evaluate_feasibility results) = ''NO_GO'' \<longleftrightarrow>
        \<not> (dict_get results ''ebitda_pct_annual_runrate'' 0 \<ge> 0.15
            \<and> dict_get results ''prime_cost_pct'' 0 \<le> 0.60
            \<and> dict_get results ''occupancy_pct'' 0 \<le> 0.12)
        \<and> \<not> dict_get results ''ebitda_pct_annual_runrate'' 0 \<ge> 0.10)
   \<and> (\<exists>r1 r2 r3. reasons (evaluate_feasibility results) = [r1, r2, r3]
        \<and> r1 \<in> set ebitda_reasons \<and> take 6 r1 = ''EBITDA''
        \<and> r2 \<in> set prime_cost_reasons \<and> take 10 r2 = ''Prime Cost''
        \<and> r3 \<in> set occupancy_reasons \<and> take 9 r3 = ''Occupancy'')
   \<and> (dict_get results' ''ebitda_pct_annual_runrate'' 0
          = dict_get results ''ebitda_pct_annual_runrate'' 0
        \<and> dict_get results' ''prime_cost_pct'' 0 = dict_get results ''prime_cost_pct'' 0
        \<and> dict_get results' ''occupancy_pct'' 0 = dict_get results ''occupancy_pct'' 0
        \<longrightarrow> evaluate_feasibility results' = evaluate_feasibility results)"
proof -
  have st: "status (evaluate_feasibility results) = ''GO'' \<longleftrightarrow>
      dict_get results ''ebitda_pct_annual_runrate'' 0 \<ge> 0.15
      \<and> dict_get results ''prime_cost_pct'' 0 \<le> 0.60
      \<and> dict_get results ''occupancy_pct'' 0 \<le> 0.12"
    by (simp add: feasibility_status)
  have rv: "status (evaluate_feasibility results) = ''REVIEW'' \<longleftrightarrow>
        \<not> (dict_get results ''ebitda_pct_annual_runrate'' 0 \<ge> 0.15
            \<and> dict_get results ''prime_cost_pct'' 0 \<le> 0.60
            \<and> dict_get results ''occupancy_pct'' 0 \<le> 0.12)
        \<and> dict_get results ''ebitda_pct_annual_runrate'' 0 \<ge> 0.10"
    by (simp add: feasibility_status)
  have ng: "status (evaluate_feasibility results) = ''NO_GO'' \<longleftrightarrow>
        \<not> (dict_get results ''ebitda_pct_annual_runrate'' 0 \<ge> 0.15
            \<and> dict_get results ''prime_cost_pct'' 0 \<le> 0.60
            \<and> dict_get results ''occupancy_pct'' 0 \<le> 0.12)
        \<and> \<not> dict_get results ''ebitda_pct_annual_runrate'' 0 \<ge> 0.10"
    by (simp add: feasibility_status)
  obtain r1 r2 r3 where r: "reasons (evaluate_feasibility results) = [r1, r2, r3]"
    "r1 \<in> set ebitda_reasons" "r2 \<in> set prime_cost_reasons" "r3 \<in> set occupancy_reasons"
    using feasibility_reasons by blast
  have rs: "\<exists>r1 r2 r3. reasons (evaluate_feasibility results) = [r1, r2, r3]
        \<and> r1 \<in> set ebitda_reasons \<and> take 6 r1 = ''EBITDA''
        \<and> r2 \<in> set prime_cost_reasons \<and> take 10 r2 = ''Prime Cost''
        \<and> r3 \<in> set occupancy_reasons \<and> take 9 r3 = ''Occupancy''"
    using r feasibility_reason_prefixes by blast
  have pu: "dict_get results' ''ebitda_pct_annual_runrate'' 0
          = dict_get results ''ebitda_pct_annual_runrate'' 0
        \<and> dict_get results' ''prime_cost_pct'' 0 = dict_get results ''prime_cost_pct'' 0
        \<and> dict_get results' ''occupancy_pct'' 0 = dict_get results ''occupancy_pct'' 0
        \<longrightarrow> evaluate_feasibility results' = evaluate_feasibility results"
    using feasibility_pure by blast
  from st rv ng rs pu show ?thesis by blast
qed

lemma ratios_go_get:
  "dict_get ratios_go ''ebitda_pct_annual_runrate'' 0 = 0.20"
  "dict_get ratios_go ''prime_cost_pct'' 0 = 0.55"
  "dict_get ratios_go ''occupancy_pct'' 0 = 0.10"
  "dict_get ratios_go_more ''ebitda_pct_annual_runrate'' 0 = 0.20"
  "dict_get ratios_go_more ''prime_cost_pct'' 0 = 0.55"
  "dict_get ratios_go_more ''occupancy_pct'' 0 = 0.10"
  by (simp_all add: dict_get_def ratios_go_def ratios_go_more_def)

lemma ratios_review_get:
  "dict_get ratios_review ''ebitda_pct_annual_runrate'' 0 = 0.11"
  "dict_get ratios_review ''prime_cost_pct'' 0 = 0.55"
  "dict_get ratios_review ''occupancy_pct'' 0 = 0.10"
  by (simp_all add: dict_get_def ratios_review_def)

lemma ratios_no_go_get:
  "dict_get ratios_no_go ''ebitda_pct_annual_runrate'' 0 = 0.05"
  "dict_get ratios_no_go ''prime_cost_pct'' 0 = 0.55"
  "dict_get ratios_no_go ''occupancy_pct'' 0 = 0.10"
  by (simp_all add: dict_get_def ratios_no_go_def)

theorem C2_feasibility_classifier_witness:
  "status (evaluate_feasibility ratios_go) = ''GO''
   \<and> status (evaluate_feasibility ratios_review) = ''REVIEW''
   \<and> status (evaluate_feasibility ratios_no_go) = ''NO_GO''
   \<and> length (reasons (evaluate_feasibility ratios_go)) = 3
   \<and> evaluate_feasibility ratios_go_more = evaluate_feasibility ratios_go"
proof -
  note go = C2_feasibility_classifier [of ratios_go ratios_go_more]
  note rv = C2_feasibility_classifier [of ratios_review ratios_review]
  note ng = C2_feasibility_classifier [of ratios_no_go ratios_no_go]
  have 1: "status (evaluate_feasibility ratios_go) = ''GO''"
    using go by (simp only: ratios_go_get) simp
  have 2: "status (evaluate_feasibility ratios_review) = ''REVIEW''"
    using rv by (simp only: ratios_review_get) simp
  have 3: "status (evaluate_feasibility ratios_no_go) = ''NO_GO''"
    using ng by (simp only: ratios_no_go_get) simp
  have 4: "length (reasons (evaluate_feasibility ratios_go)) = 3"
    using go by auto
  have 5: "evaluate_feasibility ratios_go_more = evaluate_feasibility ratios_go"
    using go by (simp only: ratios_go_get)
  from 1 2 3 4 5 show ?thesis by blast
qed

section \<open>The fields of the result, one by one\<close>

text \<open>Each field of the returned dictionary, in terms of the arguments and of the fields
  computed before it.\<close>

lemma cf_orders_day:
  "orders_day (calculate_financials a) = (\<Sum>dp\<leftarrow>dayparts a. max 0.0 (orders_per_day dp))"
  by (simp only: calculate_financials_def Let_def financial_results.select_convs)

lemma cf_revenue_day:
  "revenue_day (calculate_financials a) = (\<Sum>dp\<leftarrow>dayparts a. max 0.0 (orders_per_day dp) * max 0.0
      (ticket_avg dp))"
  by (simp only: calculate_financials_def Let_def financial_results.select_convs)

lemma cf_revenue_month:
  "revenue_month (calculate_financials a) = revenue_day (calculate_financials a) * real_of_int
      (open_days_per_month a)"
  by (simp only: calculate_financials_def Let_def financial_results.select_convs)

lemma cf_revenue_annual_runrate:
  "revenue_annual_runrate (calculate_financials a) = revenue_month (calculate_financials a) * 12"
  by (simp only: calculate_financials_def Let_def financial_results.select_convs)

lemma cf_cogs_month:
  "cogs_month (calculate_financials a) = cost_amount (revenue_month (calculate_financials a))
      (cogs_mode a) (cogs_pct a) (cogs_eur a)"
  by (simp only: calculate_financials_def Let_def financial_results.select_convs)

lemma cf_labor_month:
  "labor_month (calculate_financials a) = cost_amount (revenue_month (calculate_financials a))
      (labor_mode a) (labor_pct a) (labor_eur a)"
  by (simp only: calculate_financials_def Let_def financial_results.select_convs)

lemma cf_opex_month:
  "opex_month (calculate_financials a) = cost_amount (revenue_month (calculate_financials a))
      (opex_mode a) (opex_pct a) (opex_eur a)"
  by (simp only: calculate_financials_def Let_def financial_results.select_convs)

lemma cf_marketing_month:
  "marketing_month (calculate_financials a) = cost_amount (revenue_month (calculate_financials
      a)) (marketing_mode a) (marketing_pct a) (marketing_eur a)"
  by (simp only: calculate_financials_def Let_def financial_results.select_convs)

lemma cf_fee_month:
  "fee_month (calculate_financials a) = cost_amount (revenue_month (calculate_financials a))
      (fee_mode a) (fee_pct a) (fee_eur a)"
  by (simp only: calculate_financials_def Let_def financial_results.select_convs)

lemma cf_occupancy_month:
  "occupancy_month (calculate_financials a) = rent_fixed_month a + service_charges_month a"
  by (simp only: calculate_financials_def Let_def financial_results.select_convs)

lemma cf_ebitda_month:
  "ebitda_month (calculate_financials a) = revenue_month (calculate_financials a) - (cogs_month
      (calculate_financials a) + labor_month (calculate_financials a) + opex_month
      (calculate_financials a) + marketing_month (calculate_financials a) + fee_month
      (calculate_financials a) + occupancy_month (calculate_financials a))"
  by (simp only: calculate_financials_def Let_def financial_results.select_convs)

lemma cf_cogs_annual_runrate:
  "cogs_annual_runrate (calculate_financials a) = cogs_month (calculate_financials a) * 12"
  by (simp only: calculate_financials_def Let_def financial_results.select_convs)

lemma cf_labor_annual_runrate:
  "labor_annual_runrate (calculate_financials a) = labor_month (calculate_financials a) * 12"
  by (simp only: calculate_financials_def Let_def financial_results.select_convs)

lemma cf_opex_annual_runrate:
  "opex_annual_runrate (calculate_financials a) = opex_month (calculate_financials a) * 12"
  by (simp only: calculate_financials_def Let_def financial_results.select_convs)

lemma cf_marketing_annual_runrate:
  "marketing_annual_runrate (calculate_financials a) = marketing_month (calculate_financials a)
      * 12"
  by (simp only: calculate_financials_def Let_def financial_results.select_convs)

lemma cf_fee_annual_runrate:
  "fee_annual_runrate (calculate_financials a) = fee_month (calculate_financials a) * 12"
  by (simp only: calculate_financials_def Let_def financial_results.select_convs)

lemma cf_occupancy_annual_runrate:
  "occupancy_annual_runrate (calculate_financials a) = occupancy_month (calculate_financials a)
      * 12"
  by (simp only: calculate_financials_def Let_def financial_results.select_convs)

lemma cf_ebitda_annual_runrate:
  "ebitda_annual_runrate (calculate_financials a) = ebitda_month (calculate_financials a) * 12"
  by (simp only: calculate_financials_def Let_def financial_results.select_convs)





lemma cf_cash_invested:
  "cash_invested (calculate_financials a) = capex a + deposits a + immobilizations a + guarantees a"
  by (simp only: calculate_financials_def Let_def financial_results.select_convs)

lemma cf_roi_annual:
  "roi_annual (calculate_financials a) = (if cash_invested (calculate_financials a) > 0 then
      Some (ebitda_annual_runrate (calculate_financials a) / cash_invested (calculate_financials
      a)) else None)"
  by (simp only: calculate_financials_def Let_def financial_results.select_convs)

lemma cf_payback_months:
  "payback_months (calculate_financials a) = (if cash_invested (calculate_financials a) > 0 \<and>
      ebitda_month (calculate_financials a) > 0 then Some (cash_invested (calculate_financials
      a) / ebitda_month (calculate_financials a)) else None)"
  by (simp only: calculate_financials_def Let_def financial_results.select_convs)

lemma cf_contribution_margin:
  "contribution_margin (calculate_financials a) = 1.0 - fst (fold be_step [(cogs_mode a,
      cogs_pct a, cogs_eur a), (labor_mode a, labor_pct a, labor_eur a), (opex_mode a, opex_pct
      a, opex_eur a), (marketing_mode a, marketing_pct a, marketing_eur a), (fee_mode a, fee_pct
      a, fee_eur a)] (0.0, 0.0))"
  by (simp only: calculate_financials_def Let_def financial_results.select_convs)



lemma cf_break_even_revenue_month:
  "break_even_revenue_month (calculate_financials a) = (if contribution_margin
      (calculate_financials a) > 0 \<and> fixed_costs_month (calculate_financials a) > 0 then Some
      (fixed_costs_month (calculate_financials a) / contribution_margin (calculate_financials
      a)) else None)"
  by (simp only: calculate_financials_def Let_def financial_results.select_convs)


lemma cf_break_even_orders_day:
  "break_even_orders_day (calculate_financials a) = (if break_even_revenue_month
      (calculate_financials a) \<noteq> None \<and> truthy_float (if orders_day (calculate_financials a) > 0
      then Some (revenue_day (calculate_financials a) / orders_day (calculate_financials a))
      else None) \<and> the (if orders_day (calculate_financials a) > 0 then Some (revenue_day
      (calculate_financials a) / orders_day (calculate_financials a)) else None) > 0 \<and>
      open_days_per_month a > 0 then Some (the (break_even_revenue_month (calculate_financials
      a)) / (the (if orders_day (calculate_financials a) > 0 then Some (revenue_day
      (calculate_financials a) / orders_day (calculate_financials a)) else None) * real_of_int
      (open_days_per_month a))) else None)"
  by (simp only: calculate_financials_def Let_def financial_results.select_convs)

lemma cf_ramp_up_months_out:
  "ramp_up_months_out (calculate_financials a) = max 0 (min 12 (ramp_up_months a))"
  by (simp only: calculate_financials_def Let_def financial_results.select_convs)

lemma cf_ramp_up_floor_out:
  "ramp_up_floor_out (calculate_financials a) = max 0.0 (min 1.0 (ramp_up_floor a))"
  by (simp only: calculate_financials_def Let_def financial_results.select_convs)

lemma cf_revenue_annual_y1:
  "revenue_annual_y1 (calculate_financials a) = revenue_annual_runrate (calculate_financials a)
      * sum_list (map (\<lambda>i. month_weights_of (quarter_weights a) ! i * ramp_factors
      (ramp_up_months_out (calculate_financials a)) (ramp_up_floor_out (calculate_financials a))
      ! i) [0..<12])"
  by (simp only: calculate_financials_def Let_def financial_results.select_convs)

lemma cf_cogs_annual_y1:
  "cogs_annual_y1 (calculate_financials a) = annual_cost_y1 (cogs_mode a) (cogs_pct a) (cogs_eur
      a) (revenue_annual_y1 (calculate_financials a))"
  by (simp only: calculate_financials_def Let_def financial_results.select_convs)

lemma cf_labor_annual_y1:
  "labor_annual_y1 (calculate_financials a) = annual_cost_y1 (labor_mode a) (labor_pct a)
      (labor_eur a) (revenue_annual_y1 (calculate_financials a))"
  by (simp only: calculate_financials_def Let_def financial_results.select_convs)

lemma cf_opex_annual_y1:
  "opex_annual_y1 (calculate_financials a) = annual_cost_y1 (opex_mode a) (opex_pct a) (opex_eur
      a) (revenue_annual_y1 (calculate_financials a))"
  by (simp only: calculate_financials_def Let_def financial_results.select_convs)

lemma cf_marketing_annual_y1:
  "marketing_annual_y1 (calculate_financials a) = annual_cost_y1 (marketing_mode a)
      (marketing_pct a) (marketing_eur a) (revenue_annual_y1 (calculate_financials a))"
  by (simp only: calculate_financials_def Let_def financial_results.select_convs)

lemma cf_fee_annual_y1:
  "fee_annual_y1 (calculate_financials a) = annual_cost_y1 (fee_mode a) (fee_pct a) (fee_eur a)
      (revenue_annual_y1 (calculate_financials a))"
  by (simp only: calculate_financials_def Let_def financial_results.select_convs)

lemma cf_occupancy_annual_y1:
  "occupancy_annual_y1 (calculate_financials a) = occupancy_month (calculate_financials a) * 12.0"
  by (simp only: calculate_financials_def Let_def financial_results.select_convs)

lemma cf_ebitda_annual_y1:
  "ebitda_annual_y1 (calculate_financials a) = revenue_annual_y1 (calculate_financials a) -
      (cogs_annual_y1 (calculate_financials a) + labor_annual_y1 (calculate_financials a) +
      opex_annual_y1 (calculate_financials a) + marketing_annual_y1 (calculate_financials a) +
      fee_annual_y1 (calculate_financials a) + occupancy_annual_y1 (calculate_financials a))"
  by (simp only: calculate_financials_def Let_def financial_results.select_convs)

lemma cf_roi_annual_y1:
  "roi_annual_y1 (calculate_financials a) = (if cash_invested (calculate_financials a) > 0 then
      Some (ebitda_annual_y1 (calculate_financials a) / cash_invested (calculate_financials a))
      else None)"
  by (simp only: calculate_financials_def Let_def financial_results.select_convs)

lemma cf_payback_months_y1:
  "payback_months_y1 (calculate_financials a) = (if cash_invested (calculate_financials a) > 0 \<and>
      ebitda_annual_y1 (calculate_financials a) > 0 then Some (cash_invested
      (calculate_financials a) / (ebitda_annual_y1 (calculate_financials a) / 12.0)) else None)"
  by (simp only: calculate_financials_def Let_def financial_results.select_convs)

lemma cf_hours_day_total:
  "hours_day_total (calculate_financials a) = (if fst (fold hours_step (dayparts a) (0.0,
      Map.empty)) > 0 then Some (fst (fold hours_step (dayparts a) (0.0, Map.empty))) else
      None)"
  by (simp only: calculate_financials_def Let_def financial_results.select_convs)

lemma cf_orders_per_hour:
  "orders_per_hour (calculate_financials a) = (if truthy_float (hours_day_total
      (calculate_financials a)) then Some (orders_day (calculate_financials a) / the
      (hours_day_total (calculate_financials a))) else None)"
  by (simp only: calculate_financials_def Let_def financial_results.select_convs)

lemma cf_revenue_per_hour:
  "revenue_per_hour (calculate_financials a) = (if truthy_float (hours_day_total
      (calculate_financials a)) then Some (revenue_day (calculate_financials a) / the
      (hours_day_total (calculate_financials a))) else None)"
  by (simp only: calculate_financials_def Let_def financial_results.select_convs)

lemma cf_hours_by_daypart:
  "hours_by_daypart (calculate_financials a) = snd (fold hours_step (dayparts a) (0.0, Map.empty))"
  by (simp only: calculate_financials_def Let_def financial_results.select_convs)


section \<open>The break-even solver\<close>

lemma be_step_line:
  "be_step (m, p, e) st
     = (if be_variable m then (fst st + p, snd st) else (fst st, snd st + e))"
  by (simp add: be_step_def be_variable_def)

lemma fold_be_step:
  "fold be_step ls st = (fst st + variable_pct_sum ls, snd st + fixed_eur_sum ls)"
proof (induction ls arbitrary: st)
  case Nil
  then show ?case by (simp add: variable_pct_sum_def fixed_eur_sum_def)
next
  case (Cons l ls)
  obtain m p e where l: "l = (m, p, e)" by (cases l) auto
  have "fold be_step (l # ls) st = fold be_step ls (be_step (m, p, e) st)"
    by (simp add: l)
  also have "\<dots> = (fst (be_step (m, p, e) st) + variable_pct_sum ls,
                    snd (be_step (m, p, e) st) + fixed_eur_sum ls)"
    by (rule Cons.IH)
  also have "\<dots> = (fst st + variable_pct_sum (l # ls), snd st + fixed_eur_sum (l # ls))"
    by (simp add: be_step_line l variable_pct_sum_def fixed_eur_sum_def)
  finally show ?case .
qed

lemma cf_contribution_margin_sum:
  "contribution_margin (calculate_financials a) = 1 - variable_pct_sum (cost_lines a)"
  by (simp add: cf_contribution_margin cost_lines_def [symmetric] fold_be_step)



lemma cf_break_even_orders_day_defined:
  "(break_even_orders_day (calculate_financials a) \<noteq> None) =
     (contribution_margin (calculate_financials a) > 0
      \<and> fixed_costs_month (calculate_financials a) > 0
      \<and> orders_day (calculate_financials a) > 0
      \<and> revenue_day (calculate_financials a) > 0
      \<and> open_days_per_month a > 0)"
  by (auto simp add: cf_break_even_orders_day cf_break_even_revenue_month truthy_float_def
      zero_less_divide_iff)

section \<open>The scenario, evaluated\<close>

lemma mode_evals:
  "lower (str_or (Some ''pct'') ''pct'') = ''pct''"
  "lower (str_or (Some ''eur'') ''pct'') = ''eur''"
  "lower (str_or (Some ''fixed'') ''pct'') = ''fixed''"
  "lower (str_or None ''pct'') = ''pct''"
  by (simp_all add: lower_def lower_char_def str_or_def)

lemma scenario_revenue:
  "orders_day (calculate_financials scenario_args) = 100"
  "revenue_day (calculate_financials scenario_args) = 1000"
  "revenue_month (calculate_financials scenario_args) = 30000"
  "revenue_annual_runrate (calculate_financials scenario_args) = 360000"
  by (simp_all add: cf_orders_day cf_revenue_day cf_revenue_month cf_revenue_annual_runrate
      scenario_args_def scenario_daypart_def)

lemma scenario_costs:
  "cogs_month (calculate_financials scenario_args) = 9000"
  "labor_month (calculate_financials scenario_args) = 9000"
  "opex_month (calculate_financials scenario_args) = 3600"
  "marketing_month (calculate_financials scenario_args) = 900"
  "fee_month (calculate_financials scenario_args) = 0"
  "occupancy_month (calculate_financials scenario_args) = 3500"
  by (simp_all add: cf_cogs_month cf_labor_month cf_opex_month cf_marketing_month
      cf_fee_month cf_occupancy_month scenario_revenue cost_amount_def)
     (simp_all add: scenario_args_def mode_evals)

lemma scenario_ebitda:
  "ebitda_month (calculate_financials scenario_args) = 4000"
  "ebitda_annual_runrate (calculate_financials scenario_args) = 48000"
  by (simp_all add: cf_ebitda_month cf_ebitda_annual_runrate scenario_revenue scenario_costs)



section \<open>The profitability engine\<close>



section \<open>The investment return calculator\<close>

text \<open>
  Claim C6. The cash invested is the sum of the four investment amounts. The annual ROI is
  the annual EBITDA over the cash invested when the cash invested is positive, and \<open>None\<close>
  otherwise. The payback is the cash invested over the monthly EBITDA when both are
  positive, and \<open>None\<close> otherwise, so a payback that is defined is positive. The Y1 values
  follow the same rule with the Y1 annual EBITDA, and its twelfth as the monthly EBITDA.
\<close>

theorem C6_roi_and_payback:
  fixes a :: financial_args
  defines "r \<equiv> calculate_financials a"
  shows
  "cash_invested r = capex a + deposits a + immobilizations a + guarantees a
   \<and> roi_annual r
       = (if cash_invested r > 0 then Some (ebitda_annual_runrate r / cash_invested r)
          else None)
   \<and> payback_months r
       = (if cash_invested r > 0 \<and> ebitda_month r > 0
          then Some (cash_invested r / ebitda_month r) else None)
   \<and> (\<forall>p. payback_months r = Some p \<longrightarrow> p > 0)
   \<and> roi_annual_y1 r
       = (if cash_invested r > 0 then Some (ebitda_annual_y1 r / cash_invested r) else None)
   \<and> payback_months_y1 r
       = (if cash_invested r > 0 \<and> ebitda_annual_y1 r > 0
          then Some (cash_invested r / (ebitda_annual_y1 r / 12)) else None)
   \<and> (\<forall>p. payback_months_y1 r = Some p \<longrightarrow> p > 0)"
proof -
  have 1: "cash_invested r = capex a + deposits a + immobilizations a + guarantees a"
    unfolding r_def by (rule cf_cash_invested)
  have 2: "roi_annual r
       = (if cash_invested r > 0 then Some (ebitda_annual_runrate r / cash_invested r)
          else None)"
    unfolding r_def by (rule cf_roi_annual)
  have 3: "payback_months r
       = (if cash_invested r > 0 \<and> ebitda_month r > 0
          then Some (cash_invested r / ebitda_month r) else None)"
    unfolding r_def by (rule cf_payback_months)
  have 4: "\<forall>p. payback_months r = Some p \<longrightarrow> p > 0"
    by (auto simp add: 3 split: if_splits)
  have 5: "roi_annual_y1 r
       = (if cash_invested r > 0 then Some (ebitda_annual_y1 r / cash_invested r) else None)"
    unfolding r_def by (rule cf_roi_annual_y1)
  have 6: "payback_months_y1 r
       = (if cash_invested r > 0 \<and> ebitda_annual_y1 r > 0
          then Some (cash_invested r / (ebitda_annual_y1 r / 12)) else None)"
    unfolding r_def by (subst cf_payback_months_y1) simp
  have 7: "\<forall>p. payback_months_y1 r = Some p \<longrightarrow> p > 0"
    by (auto simp add: 6 split: if_splits)
  from 1 2 3 4 5 6 7 show ?thesis by blast
qed

theorem C6_roi_and_payback_witness:
  "cash_invested (calculate_financials scenario_args) = 40000
   \<and> roi_annual (calculate_financials scenario_args) = Some (6 / 5)
   \<and> payback_months (calculate_financials scenario_args) = Some 10
   \<and> (0::real) < 10"
proof -
  note t = C6_roi_and_payback [of scenario_args]
  have ci: "cash_invested (calculate_financials scenario_args) = 40000"
    using t by (simp add: scenario_args_def)
  have roi: "roi_annual (calculate_financials scenario_args) = Some (6 / 5)"
    using t by (simp add: ci scenario_ebitda)
  have pb: "payback_months (calculate_financials scenario_args) = Some 10"
    using t by (simp add: ci scenario_ebitda)
  from t pb have "(0::real) < 10" by blast
  with ci roi pb show ?thesis by blast
qed

section \<open>Zero revenue, and the break-even outputs under a change of segments\<close>












section \<open>The ramp-up factors\<close>

lemma ramp_step_update:
  "ramp_step n fl m fs
     = fs[m := (if n = 1 then 1
                else fl + (1 - fl) * (real m / real_of_int (n - 1)))]"
  by (simp add: ramp_step_def)

lemma length_fold_ramp_step:
  "length (fold (ramp_step n fl) [0..<k] fs) = length fs"
  by (induction k) (simp_all add: ramp_step_update)

lemma nth_fold_ramp_step:
  "m < length fs \<Longrightarrow>
   fold (ramp_step n fl) [0..<k] fs ! m
     = (if m < k
        then (if n = 1 then 1 else fl + (1 - fl) * (real m / real_of_int (n - 1)))
        else fs ! m)"
proof (induction k)
  case 0
  then show ?case by simp
next
  case (Suc k)
  let ?F = "fold (ramp_step n fl) [0..<k] fs"
  have "fold (ramp_step n fl) [0..<Suc k] fs = ramp_step n fl k ?F"
    by simp
  also have "\<dots> = ?F[k := (if n = 1 then 1
                             else fl + (1 - fl) * (real k / real_of_int (n - 1)))]"
    by (rule ramp_step_update)
  finally have s: "fold (ramp_step n fl) [0..<Suc k] fs
      = ?F[k := (if n = 1 then 1 else fl + (1 - fl) * (real k / real_of_int (n - 1)))]" .
  have len: "length ?F = length fs"
    by (rule length_fold_ramp_step)
  have ih: "?F ! m
     = (if m < k
        then (if n = 1 then 1 else fl + (1 - fl) * (real m / real_of_int (n - 1)))
        else fs ! m)"
    using Suc by blast
  show ?case
    unfolding s using ih len Suc.prems
    by (cases "m = k") (simp_all add: nth_list_update)
qed

lemma length_ramp_factors: "length (ramp_factors n fl) = 12"
  by (simp add: ramp_factors_def Let_def length_fold_ramp_step)

lemma nth_ramp_factors:
  assumes "m < 12"
  shows "ramp_factors n fl ! m
     = (if int m < n
        then (if n = 1 then 1 else fl + (1 - fl) * (real m / real_of_int (n - 1)))
        else 1)"
proof (cases "n > 0")
  case True
  have "ramp_factors n fl ! m = fold (ramp_step n fl) [0..<nat n] (replicate 12 1) ! m"
    using True by (simp add: ramp_factors_def Let_def)
  also have "\<dots> = (if m < nat n
        then (if n = 1 then 1 else fl + (1 - fl) * (real m / real_of_int (n - 1)))
        else replicate 12 1 ! m)"
    using assms by (intro nth_fold_ramp_step) simp
  also have "\<dots> = (if int m < n
        then (if n = 1 then 1 else fl + (1 - fl) * (real m / real_of_int (n - 1)))
        else 1)"
    using assms True by (auto simp add: nat_less_iff)
  finally show ?thesis .
next
  case False
  then show ?thesis using assms by (simp add: ramp_factors_def Let_def)
qed

lemma ramp_interpolation_le_one:
  assumes "2 \<le> n" "int m < n" "0 \<le> fl" "fl \<le> 1"
  shows "fl + (1 - fl) * (real m / real_of_int (n - 1)) \<le> (1::real)"
proof -
  have "real m / real_of_int (n - 1) \<le> 1"
    using assms by (simp add: divide_le_eq_1)
  then have "(1 - fl) * (real m / real_of_int (n - 1)) \<le> (1 - fl) * 1"
    using assms by (intro mult_left_mono) simp_all
  then show ?thesis by simp
qed

lemma ramp_interpolation_mono:
  assumes "2 \<le> n" "i \<le> j" "fl \<le> 1"
  shows "fl + (1 - fl) * (real i / real_of_int (n - 1))
           \<le> fl + (1 - fl) * (real j / real_of_int (n - 1))"
proof -
  have "real i / real_of_int (n - 1) \<le> real j / real_of_int (n - 1)"
    using assms by (intro divide_right_mono) simp_all
  then have "(1 - fl) * (real i / real_of_int (n - 1))
               \<le> (1 - fl) * (real j / real_of_int (n - 1))"
    using assms by (intro mult_left_mono) simp_all
  then show ?thesis by simp
qed

lemma ramp_factors_mono:
  assumes "0 \<le> fl" "fl \<le> 1" "i \<le> j" "j < 12"
  shows "ramp_factors n fl ! i \<le> ramp_factors n fl ! j"
proof -
  have i: "i < 12" using assms by simp
  consider "n = 1" | "n \<le> 0" | "2 \<le> n" "int j < n" | "2 \<le> n" "\<not> int j < n" "int i < n"
    | "2 \<le> n" "\<not> int j < n" "\<not> int i < n"
    by linarith
  then show ?thesis
  proof cases
    case 1
    then show ?thesis using assms i by (simp add: nth_ramp_factors)
  next
    case 2
    then show ?thesis using assms i by (simp add: nth_ramp_factors)
  next
    case 3
    then have "int i < n" using assms by simp
    with 3 show ?thesis
      using assms i ramp_interpolation_mono [of n i j fl]
      by (simp add: nth_ramp_factors)
  next
    case 4
    then show ?thesis
      using assms i ramp_interpolation_le_one [of n i fl]
      by (simp add: nth_ramp_factors)
  next
    case 5
    then show ?thesis using assms i by (simp add: nth_ramp_factors)
  qed
qed

text \<open>
  Claim C5. With \<open>ramp_up_months\<close> in \<open>[0, 12]\<close> and \<open>ramp_up_floor\<close> in \<open>[0, 1]\<close> the
  clamping changes neither, and the Y1 revenue is the run-rate revenue times the sum of
  month weight times ramp factor. There are twelve factors. The factor of a month \<open>m\<close>
  below \<open>ramp_up_months\<close> is the linear interpolation
  \<open>floor + (1 - floor) * m / (ramp_up_months - 1)\<close>, which is the floor at month 0 and 1
  at month \<open>ramp_up_months - 1\<close>, and it is 1 when \<open>ramp_up_months = 1\<close>. The factors are
  non-decreasing over all twelve months, so over the months \<open>0 \<dots> ramp_up_months - 1\<close>,
  and the factor of every month from \<open>ramp_up_months\<close> on is exactly 1.
\<close>

theorem C5_ramp_factors:
  fixes a :: financial_args
  defines "r \<equiv> calculate_financials a"
    and "n \<equiv> ramp_up_months a"
    and "fl \<equiv> ramp_up_floor a"
  assumes "0 \<le> ramp_up_months a" "ramp_up_months a \<le> 12"
    and "0 \<le> ramp_up_floor a" "ramp_up_floor a \<le> 1"
  shows
  "ramp_up_months_out r = n \<and> ramp_up_floor_out r = fl
   \<and> revenue_annual_y1 r
       = revenue_annual_runrate r
           * (\<Sum>i\<leftarrow>[0..<12]. month_weights_of (quarter_weights a) ! i
                                  * ramp_factors n fl ! i)
   \<and> length (ramp_factors n fl) = 12
   \<and> (\<forall>m<12. ramp_factors n fl ! m
         = (if int m < n
            then (if n = 1 then 1 else fl + (1 - fl) * (real m / real_of_int (n - 1)))
            else 1))
   \<and> (2 \<le> n \<longrightarrow> ramp_factors n fl ! 0 = fl \<and> ramp_factors n fl ! nat (n - 1) = 1)
   \<and> (n = 1 \<longrightarrow> ramp_factors n fl ! 0 = 1)
   \<and> (\<forall>i j. i \<le> j \<and> j < 12 \<longrightarrow> ramp_factors n fl ! i \<le> ramp_factors n fl ! j)
   \<and> (\<forall>m. n \<le> int m \<and> m < 12 \<longrightarrow> ramp_factors n fl ! m = 1)"
proof -
  have 1: "ramp_up_months_out r = n"
    using assms(4,5) unfolding r_def n_def by (simp add: cf_ramp_up_months_out)
  have 2: "ramp_up_floor_out r = fl"
    using assms(6,7) unfolding r_def fl_def by (simp add: cf_ramp_up_floor_out)
  have 3: "revenue_annual_y1 r
       = revenue_annual_runrate r
           * (\<Sum>i\<leftarrow>[0..<12]. month_weights_of (quarter_weights a) ! i
                                  * ramp_factors n fl ! i)"
    using 1 2 unfolding r_def by (simp only: cf_revenue_annual_y1)
  have 4: "length (ramp_factors n fl) = 12"
    by (rule length_ramp_factors)
  have 5: "\<forall>m<12. ramp_factors n fl ! m
         = (if int m < n
            then (if n = 1 then 1 else fl + (1 - fl) * (real m / real_of_int (n - 1)))
            else 1)"
    using nth_ramp_factors by blast
  have 6: "2 \<le> n \<longrightarrow> ramp_factors n fl ! 0 = fl \<and> ramp_factors n fl ! nat (n - 1) = 1"
  proof
    assume n2: "2 \<le> n"
    have "n \<le> 12" using assms(5) unfolding n_def .
    with n2 have lt: "nat (n - 1) < 12" "int (nat (n - 1)) < n" by simp_all
    have a0: "ramp_factors n fl ! 0 = fl"
      using n2 by (simp add: nth_ramp_factors)
    have "real (nat (n - 1)) = real_of_int (n - 1)"
      using n2 by simp
    then have "ramp_factors n fl ! nat (n - 1) = 1"
      using n2 lt by (simp add: nth_ramp_factors)
    with a0 show "ramp_factors n fl ! 0 = fl \<and> ramp_factors n fl ! nat (n - 1) = 1"
      by blast
  qed
  have 7: "n = 1 \<longrightarrow> ramp_factors n fl ! 0 = 1"
    by (simp add: nth_ramp_factors)
  have 8: "\<forall>i j. i \<le> j \<and> j < 12 \<longrightarrow> ramp_factors n fl ! i \<le> ramp_factors n fl ! j"
    using ramp_factors_mono assms(6,7) unfolding fl_def by blast
  have 9: "\<forall>m. n \<le> int m \<and> m < 12 \<longrightarrow> ramp_factors n fl ! m = 1"
    by (simp add: nth_ramp_factors)
  from 1 2 3 4 5 6 7 8 9 show ?thesis by blast
qed

theorem C5_ramp_factors_witness:
  "0 \<le> ramp_up_months scenario_ramp \<and> ramp_up_months scenario_ramp \<le> 12
   \<and> 0 \<le> ramp_up_floor scenario_ramp \<and> ramp_up_floor scenario_ramp \<le> 1
   \<and> ramp_factors 3 (1 / 2) ! 0 = 1 / 2
   \<and> ramp_factors 3 (1 / 2) ! 1 = 3 / 4
   \<and> ramp_factors 3 (1 / 2) ! 2 = 1
   \<and> ramp_factors 3 (1 / 2) ! 3 = 1
   \<and> ramp_factors 3 (1 / 2) ! 11 = 1"
proof -
  have h: "0 \<le> ramp_up_months scenario_ramp" "ramp_up_months scenario_ramp \<le> 12"
    "0 \<le> ramp_up_floor scenario_ramp" "ramp_up_floor scenario_ramp \<le> 1"
    by (simp_all add: scenario_ramp_def scenario_args_def)
  have v: "ramp_up_months scenario_ramp = 3" "ramp_up_floor scenario_ramp = 1 / 2"
    by (simp_all add: scenario_ramp_def scenario_args_def)
  note t = C5_ramp_factors [OF h, unfolded v]
  from t have f: "\<forall>m<12. ramp_factors 3 (1 / 2) ! m
         = (if int m < 3
            then (if (3::int) = 1 then 1
                  else 1 / 2 + (1 - 1 / 2) * (real m / real_of_int (3 - 1)))
            else 1)"
    by blast
  have "ramp_factors 3 (1 / 2) ! 0 = 1 / 2" using f [rule_format, of 0] by simp
  moreover have "ramp_factors 3 (1 / 2) ! 1 = 3 / 4" using f [rule_format, of 1] by simp
  moreover have "ramp_factors 3 (1 / 2) ! 2 = 1" using f [rule_format, of 2] by simp
  moreover have "ramp_factors 3 (1 / 2) ! 3 = 1" using f [rule_format, of 3] by simp
  moreover have "ramp_factors 3 (1 / 2) ! 11 = 1" using f [rule_format, of 11] by simp
  ultimately show ?thesis using h by blast
qed

section \<open>Fixed lines and occupancy in the Y1 view\<close>

lemma annual_cost_y1_fixed:
  "\<not> be_variable mode \<Longrightarrow> annual_cost_y1 mode pct eur y = max 0 eur * 12"
  by (simp add: annual_cost_y1_def be_variable_def)

lemma cost_amount_fixed:
  "resolver_fixed mode \<Longrightarrow> cost_amount x mode pct eur = eur"
  by (simp add: cost_amount_def resolver_fixed_def)

text \<open>
  Claim C4 (as amended). Let \<open>r'\<close> be the result under any other seasonality profile
  (quarter weights, ramp-up months, ramp-up floor). For each of the five cost lines, when
  the line is in fixed mode for the Y1 view (its mode does not lowercase to \<open>pct\<close>), its
  Y1 annual amount is \<open>max 0 fixedMonthly * 12\<close>, the same under every seasonality profile;
  it is \<open>fixedMonthly * 12\<close> when \<open>fixedMonthly\<close> is not negative, and then it is the
  run-rate annual amount when the mode lowercases to \<open>eur\<close>. The Y1 occupancy is the monthly
  occupancy times 12, which is the run-rate annual occupancy, under every seasonality
  profile.
\<close>

theorem C4_fixed_lines_in_y1:
  fixes a :: financial_args and qw :: "real list option" and n :: int and fl :: real
  defines "r \<equiv> calculate_financials a"
    and "r' \<equiv> calculate_financials
                 (a\<lparr>quarter_weights := qw, ramp_up_months := n, ramp_up_floor := fl\<rparr>)"
  shows
  "(\<not> be_variable (cogs_mode a) \<longrightarrow>
        cogs_annual_y1 r = max 0 (cogs_eur a) * 12
        \<and> cogs_annual_y1 r' = cogs_annual_y1 r
        \<and> (0 \<le> cogs_eur a \<longrightarrow> cogs_annual_y1 r = cogs_eur a * 12)
        \<and> (0 \<le> cogs_eur a \<and> resolver_fixed (cogs_mode a)
              \<longrightarrow> cogs_annual_y1 r = cogs_annual_runrate r))
   \<and> (\<not> be_variable (labor_mode a) \<longrightarrow>
        labor_annual_y1 r = max 0 (labor_eur a) * 12
        \<and> labor_annual_y1 r' = labor_annual_y1 r
        \<and> (0 \<le> labor_eur a \<longrightarrow> labor_annual_y1 r = labor_eur a * 12)
        \<and> (0 \<le> labor_eur a \<and> resolver_fixed (labor_mode a)
              \<longrightarrow> labor_annual_y1 r = labor_annual_runrate r))
   \<and> (\<not> be_variable (opex_mode a) \<longrightarrow>
        opex_annual_y1 r = max 0 (opex_eur a) * 12
        \<and> opex_annual_y1 r' = opex_annual_y1 r
        \<and> (0 \<le> opex_eur a \<longrightarrow> opex_annual_y1 r = opex_eur a * 12)
        \<and> (0 \<le> opex_eur a \<and> resolver_fixed (opex_mode a)
              \<longrightarrow> opex_annual_y1 r = opex_annual_runrate r))
   \<and> (\<not> be_variable (marketing_mode a) \<longrightarrow>
        marketing_annual_y1 r = max 0 (marketing_eur a) * 12
        \<and> marketing_annual_y1 r' = marketing_annual_y1 r
        \<and> (0 \<le> marketing_eur a \<longrightarrow> marketing_annual_y1 r = marketing_eur a * 12)
        \<and> (0 \<le> marketing_eur a \<and> resolver_fixed (marketing_mode a)
              \<longrightarrow> marketing_annual_y1 r = marketing_annual_runrate r))
   \<and> (\<not> be_variable (fee_mode a) \<longrightarrow>
        fee_annual_y1 r = max 0 (fee_eur a) * 12
        \<and> fee_annual_y1 r' = fee_annual_y1 r
        \<and> (0 \<le> fee_eur a \<longrightarrow> fee_annual_y1 r = fee_eur a * 12)
        \<and> (0 \<le> fee_eur a \<and> resolver_fixed (fee_mode a)
              \<longrightarrow> fee_annual_y1 r = fee_annual_runrate r))
   \<and> occupancy_annual_y1 r = occupancy_month r * 12
   \<and> occupancy_annual_y1 r = occupancy_annual_runrate r
   \<and> occupancy_annual_y1 r' = occupancy_annual_y1 r"
proof -
  have cogs: "(\<not> be_variable (cogs_mode a) \<longrightarrow>
        cogs_annual_y1 r = max 0 (cogs_eur a) * 12
        \<and> cogs_annual_y1 r' = cogs_annual_y1 r
        \<and> (0 \<le> cogs_eur a \<longrightarrow> cogs_annual_y1 r = cogs_eur a * 12)
        \<and> (0 \<le> cogs_eur a \<and> resolver_fixed (cogs_mode a)
              \<longrightarrow> cogs_annual_y1 r = cogs_annual_runrate r))"
    unfolding r_def r'_def
    by (simp add: cf_cogs_annual_y1 cf_cogs_annual_runrate cf_cogs_month annual_cost_y1_fixed
        cost_amount_fixed)
  have labor: "(\<not> be_variable (labor_mode a) \<longrightarrow>
        labor_annual_y1 r = max 0 (labor_eur a) * 12
        \<and> labor_annual_y1 r' = labor_annual_y1 r
        \<and> (0 \<le> labor_eur a \<longrightarrow> labor_annual_y1 r = labor_eur a * 12)
        \<and> (0 \<le> labor_eur a \<and> resolver_fixed (labor_mode a)
              \<longrightarrow> labor_annual_y1 r = labor_annual_runrate r))"
    unfolding r_def r'_def
    by (simp add: cf_labor_annual_y1 cf_labor_annual_runrate cf_labor_month annual_cost_y1_fixed
        cost_amount_fixed)
  have opex: "(\<not> be_variable (opex_mode a) \<longrightarrow>
        opex_annual_y1 r = max 0 (opex_eur a) * 12
        \<and> opex_annual_y1 r' = opex_annual_y1 r
        \<and> (0 \<le> opex_eur a \<longrightarrow> opex_annual_y1 r = opex_eur a * 12)
        \<and> (0 \<le> opex_eur a \<and> resolver_fixed (opex_mode a)
              \<longrightarrow> opex_annual_y1 r = opex_annual_runrate r))"
    unfolding r_def r'_def
    by (simp add: cf_opex_annual_y1 cf_opex_annual_runrate cf_opex_month annual_cost_y1_fixed
        cost_amount_fixed)
  have marketing: "(\<not> be_variable (marketing_mode a) \<longrightarrow>
        marketing_annual_y1 r = max 0 (marketing_eur a) * 12
        \<and> marketing_annual_y1 r' = marketing_annual_y1 r
        \<and> (0 \<le> marketing_eur a \<longrightarrow> marketing_annual_y1 r = marketing_eur a * 12)
        \<and> (0 \<le> marketing_eur a \<and> resolver_fixed (marketing_mode a)
              \<longrightarrow> marketing_annual_y1 r = marketing_annual_runrate r))"
    unfolding r_def r'_def
    by (simp add: cf_marketing_annual_y1 cf_marketing_annual_runrate cf_marketing_month
        annual_cost_y1_fixed
        cost_amount_fixed)
  have fee: "(\<not> be_variable (fee_mode a) \<longrightarrow>
        fee_annual_y1 r = max 0 (fee_eur a) * 12
        \<and> fee_annual_y1 r' = fee_annual_y1 r
        \<and> (0 \<le> fee_eur a \<longrightarrow> fee_annual_y1 r = fee_eur a * 12)
        \<and> (0 \<le> fee_eur a \<and> resolver_fixed (fee_mode a)
              \<longrightarrow> fee_annual_y1 r = fee_annual_runrate r))"
    unfolding r_def r'_def
    by (simp add: cf_fee_annual_y1 cf_fee_annual_runrate cf_fee_month annual_cost_y1_fixed
        cost_amount_fixed)
  have occ: "occupancy_annual_y1 r = occupancy_month r * 12
   \<and> occupancy_annual_y1 r = occupancy_annual_runrate r
   \<and> occupancy_annual_y1 r' = occupancy_annual_y1 r"
    unfolding r_def r'_def
    by (simp add: cf_occupancy_annual_y1 cf_occupancy_annual_runrate cf_occupancy_month)
  from cogs labor opex marketing fee occ show ?thesis by blast
qed

lemma cogs_fixed_mode:
  "\<not> be_variable (cogs_mode scenario_cogs_fixed)"
  "resolver_fixed (cogs_mode scenario_cogs_fixed)"
  "cogs_eur scenario_cogs_fixed = 9000"
  by (simp_all add: scenario_cogs_fixed_def be_variable_def resolver_fixed_def mode_evals)

theorem C4_fixed_lines_in_y1_witness:
  "\<not> be_variable (cogs_mode scenario_cogs_fixed)
   \<and> cogs_annual_y1 (calculate_financials scenario_cogs_fixed) = 108000
   \<and> cogs_annual_y1 (calculate_financials
        (scenario_cogs_fixed\<lparr>quarter_weights := Some [20, 30, 30, 20], ramp_up_months := 3,
           ramp_up_floor := 1 / 2\<rparr>)) = 108000
   \<and> cogs_annual_runrate (calculate_financials scenario_cogs_fixed) = 108000"
  using C4_fixed_lines_in_y1 [where a = scenario_cogs_fixed and qw = "Some [20, 30, 30, 20]"
      and n = 3 and fl = "1 / 2"]
  by (simp add: cogs_fixed_mode)

theorem C4_negative_fixed_counterexample:
  "\<not> be_variable (cogs_mode scenario_negative_fixed)
   \<and> resolver_fixed (cogs_mode scenario_negative_fixed)
   \<and> cogs_eur scenario_negative_fixed * 12 = - 1200
   \<and> cogs_annual_runrate (calculate_financials scenario_negative_fixed) = - 1200
   \<and> cogs_annual_y1 (calculate_financials scenario_negative_fixed) = 0
   \<and> cogs_annual_y1 (calculate_financials scenario_negative_fixed)
        \<noteq> cogs_eur scenario_negative_fixed * 12"
proof -
  have m: "\<not> be_variable (cogs_mode scenario_negative_fixed)"
    "resolver_fixed (cogs_mode scenario_negative_fixed)"
    "cogs_eur scenario_negative_fixed = - 100"
    by (simp_all add: scenario_negative_fixed_def be_variable_def resolver_fixed_def
        mode_evals)
  have y: "cogs_annual_y1 (calculate_financials scenario_negative_fixed) = 0"
    by (simp add: cf_cogs_annual_y1 annual_cost_y1_fixed m)
  have rr: "cogs_annual_runrate (calculate_financials scenario_negative_fixed) = - 1200"
    by (simp add: cf_cogs_annual_runrate cf_cogs_month cost_amount_fixed m)
  from m y rr show ?thesis by simp
qed

section \<open>The two tests on a line's mode\<close>















section \<open>Hours of a segment\<close>

lemma codes_evals:
  "codes ''12:00'' = [49, 50, 58, 48, 48]"
  "codes ''15:30'' = [49, 53, 58, 51, 48]"
  "codes ''22:00'' = [50, 50, 58, 48, 48]"
  "codes ''02:00'' = [48, 50, 58, 48, 48]"
  by (simp_all add: codes_def)

lemma strip_no_space:
  assumes "s \<noteq> []" "\<not> isspace (hd s)" "\<not> isspace (last s)"
  shows "strip s = s"
proof -
  have 1: "dropWhile isspace s = s"
    using assms(1,2) by (cases s) simp_all
  have "rev s \<noteq> []" "\<not> isspace (hd (rev s))"
    using assms(1,3) by (simp_all add: hd_rev)
  then have 2: "dropWhile isspace (rev s) = rev s"
    by (cases "rev s") simp_all
  show ?thesis by (simp add: strip_def 1 2)
qed

lemma digit_not_space: "48 \<le> c \<Longrightarrow> c \<le> 57 \<Longrightarrow> \<not> isspace c \<and> \<not> c_isspace c"
  by (auto simp add: isspace_def c_isspace_def)

lemma py_int_two_digits:
  assumes "48 \<le> a" "a \<le> 57" "48 \<le> b" "b \<le> 57"
  shows "py_int [a, b] = Some (int (10 * (a - 48) + (b - 48)))"
proof -
  have asc: "to_ascii [a, b] = Some [a, b]"
    using assms by (simp add: ascii_of_def)
  have sp: "\<not> c_isspace a" "\<not> c_isspace b"
    using assms digit_not_space by blast+
  have dr: "rev (dropWhile c_isspace (rev (dropWhile c_isspace [a, b]))) = [a, b]"
    using sp by simp
  have sg: "a \<noteq> 45" "a \<noteq> 43" "b \<noteq> 95"
    using assms by simp_all
  have dv: "digit_val a = Some (a - 48)" "digit_val b = Some (b - 48)"
    using assms by (simp_all add: digit_val_def)
  show ?thesis
    unfolding py_int_def asc option.case Let_def dr
    using sg dv by simp
qed

lemma is_hhmm_shape:
  assumes "is_hhmm s"
  shows "s = [s ! 0, s ! 1, 58, s ! 3, s ! 4]"
proof -
  have l: "length s = 5" and c: "s ! 2 = 58"
    using assms by (simp_all add: is_hhmm_def)
  show ?thesis
    by (rule nth_equalityI) (use l c in \<open>auto simp add: nth_Cons' less_Suc_eq numeral_eq_Suc\<close>)
qed

lemma parse_hhmm_is_hhmm:
  assumes "is_hhmm s"
  shows "parse_hhmm s = Some (int (hhmm_hours s), int (hhmm_minutes s))"
proof -
  have sh: "s = [s ! 0, s ! 1, 58, s ! 3, s ! 4]"
    by (rule is_hhmm_shape [OF assms])
  have dg: "48 \<le> s ! 0" "s ! 0 \<le> 57" "48 \<le> s ! 1" "s ! 1 \<le> 57"
    "48 \<le> s ! 3" "s ! 3 \<le> 57" "48 \<le> s ! 4" "s ! 4 \<le> 57"
    using assms by (simp_all add: is_hhmm_def)
  have rg: "hhmm_hours s \<le> 23" "hhmm_minutes s \<le> 59"
    using assms by (simp_all add: is_hhmm_def)
  have l: "length s = 5" "s ! 2 = 58" "s \<noteq> []"
    using assms by (auto simp add: is_hhmm_def)
  have hl: "hd s = s ! 0" "last s = s ! 4"
    using l by (simp_all add: hd_conv_nth last_conv_nth)
  have st: "strip s = s"
    using l(3) hl digit_not_space [OF dg(1,2)] digit_not_space [OF dg(7,8)]
    by (intro strip_no_space) simp_all
  have tk: "take 2 s = [s ! 0, s ! 1]" "drop 3 s = [s ! 3, s ! 4]"
    by (subst sh, simp)+
  have hh: "py_int (take 2 s) = Some (int (hhmm_hours s))"
    unfolding tk hhmm_hours_def using dg by (intro py_int_two_digits)
  have mm: "py_int (drop 3 s) = Some (int (hhmm_minutes s))"
    unfolding tk hhmm_minutes_def using dg by (intro py_int_two_digits)
  show ?thesis
    unfolding parse_hhmm_def Let_def st hh mm using l rg by simp
qed

lemma is_hhmm_evals:
  "is_hhmm [49, 50, 58, 48, 48]" "is_hhmm [49, 53, 58, 51, 48]"
  "is_hhmm [50, 50, 58, 48, 48]" "is_hhmm [48, 50, 58, 48, 48]"
  "is_hhmm [48, 57, 58, 51, 48]"
  by (simp_all add: is_hhmm_def hhmm_hours_def hhmm_minutes_def)

lemma parse_hhmm_evals:
  "parse_hhmm (codes ''12:00'') = Some (12, 0)"
  "parse_hhmm (codes ''15:30'') = Some (15, 30)"
  "parse_hhmm (codes ''22:00'') = Some (22, 0)"
  "parse_hhmm (codes ''02:00'') = Some (2, 0)"
  using parse_hhmm_is_hhmm [OF is_hhmm_evals(1)] parse_hhmm_is_hhmm [OF is_hhmm_evals(2)]
    parse_hhmm_is_hhmm [OF is_hhmm_evals(3)] parse_hhmm_is_hhmm [OF is_hhmm_evals(4)]
  by (simp_all add: codes_evals hhmm_hours_def hhmm_minutes_def)

lemma parse_hhmm_nonempty: "parse_hhmm s = Some p \<Longrightarrow> s \<noteq> []"
  by (auto simp add: parse_hhmm_def)

lemma parse_hhmm_range:
  "parse_hhmm s = Some (h, m) \<Longrightarrow> 0 \<le> h \<and> h \<le> 23 \<and> 0 \<le> m \<and> m \<le> 59"
  by (auto simp add: parse_hhmm_def Let_def split: if_splits option.splits)

lemma hours_between_parsed:
  assumes "parse_hhmm s = Some (sh, sm)" "parse_hhmm e = Some (eh, em)"
  shows "hours_between (Some s) (Some e)
     = (if eh * 60 + em = sh * 60 + sm then None
        else Some (real_of_int
               ((if eh * 60 + em < sh * 60 + sm then eh * 60 + em + 24 * 60
                 else eh * 60 + em) - (sh * 60 + sm)) / 60))"
  using assms parse_hhmm_nonempty [OF assms(1)] parse_hhmm_nonempty [OF assms(2)]
  by (simp add: hours_between_def truthy_str_def Let_def)

lemma hours_between_Some:
  assumes "hours_between st en = Some h"
  shows "\<exists>s e sh sm eh em. st = Some s \<and> en = Some e
      \<and> parse_hhmm s = Some (sh, sm) \<and> parse_hhmm e = Some (eh, em)
      \<and> eh * 60 + em \<noteq> sh * 60 + sm"
  using assms
  by (auto simp add: hours_between_def truthy_str_def Let_def
      split: if_splits option.splits prod.splits)

lemma hours_between_positive:
  assumes "hours_between st en = Some h"
  shows "0 < h \<and> h < 24"
proof -
  obtain s e sh sm eh em where p: "st = Some s" "en = Some e"
    "parse_hhmm s = Some (sh, sm)" "parse_hhmm e = Some (eh, em)"
    "eh * 60 + em \<noteq> sh * 60 + sm"
    using hours_between_Some [OF assms] by blast
  have rs: "0 \<le> sh \<and> sh \<le> 23 \<and> 0 \<le> sm \<and> sm \<le> 59"
    using p(3) by (rule parse_hhmm_range)
  have re: "0 \<le> eh \<and> eh \<le> 23 \<and> 0 \<le> em \<and> em \<le> 59"
    using p(4) by (rule parse_hhmm_range)
  define d where "d = (if eh * 60 + em < sh * 60 + sm then eh * 60 + em + 24 * 60
                 else eh * 60 + em) - (sh * 60 + sm)"
  have h: "h = real_of_int d / 60"
    using assms p hours_between_parsed [OF p(3) p(4)] unfolding d_def by simp
  have "0 < d \<and> d < 1440"
    using rs re p(5) unfolding d_def by auto
  then show ?thesis unfolding h by simp
qed

lemma daypart_hours_positive: "daypart_hours dp = Some h \<Longrightarrow> 0 < h"
  using hours_between_positive [of "start_time dp" "end_time dp" h]
  by (simp add: daypart_hours_def split: if_splits)

lemma daypart_hours_defined:
  "daypart_hours dp \<noteq> None \<longleftrightarrow>
     (\<exists>s e sh sm eh em. start_time dp = Some s \<and> end_time dp = Some e
        \<and> parse_hhmm s = Some (sh, sm) \<and> parse_hhmm e = Some (eh, em)
        \<and> eh * 60 + em \<noteq> sh * 60 + sm)"
proof
  assume "daypart_hours dp \<noteq> None"
  then obtain h where "hours_between (start_time dp) (end_time dp) = Some h"
    by (auto simp add: daypart_hours_def split: if_splits)
  then show "\<exists>s e sh sm eh em. start_time dp = Some s \<and> end_time dp = Some e
        \<and> parse_hhmm s = Some (sh, sm) \<and> parse_hhmm e = Some (eh, em)
        \<and> eh * 60 + em \<noteq> sh * 60 + sm"
    by (rule hours_between_Some)
next
  assume "\<exists>s e sh sm eh em. start_time dp = Some s \<and> end_time dp = Some e
        \<and> parse_hhmm s = Some (sh, sm) \<and> parse_hhmm e = Some (eh, em)
        \<and> eh * 60 + em \<noteq> sh * 60 + sm"
  then obtain s e sh sm eh em where p: "start_time dp = Some s" "end_time dp = Some e"
    "parse_hhmm s = Some (sh, sm)" "parse_hhmm e = Some (eh, em)"
    "eh * 60 + em \<noteq> sh * 60 + sm"
    by blast
  have "s \<noteq> []" "e \<noteq> []"
    using p(3,4) parse_hhmm_nonempty by blast+
  then show "daypart_hours dp \<noteq> None"
    using p hours_between_parsed [OF p(3) p(4)]
    by (simp add: daypart_hours_def truthy_str_def)
qed

lemma daypart_hours_parsed:
  assumes "start_time dp = Some s" "end_time dp = Some e"
    "parse_hhmm s = Some (sh, sm)" "parse_hhmm e = Some (eh, em)"
  shows "daypart_hours dp
     = (if eh * 60 + em = sh * 60 + sm then None
        else Some (real_of_int
               ((if eh * 60 + em < sh * 60 + sm then eh * 60 + em + 24 * 60
                 else eh * 60 + em) - (sh * 60 + sm)) / 60))"
proof -
  have "s \<noteq> []" "e \<noteq> []"
    using assms(3,4) parse_hhmm_nonempty by blast+
  then show ?thesis
    using assms(1,2) hours_between_parsed [OF assms(3) assms(4)]
    by (simp add: daypart_hours_def truthy_str_def)
qed

lemma hours_step_daypart_hours:
  "hours_step dp st
     = (case daypart_hours dp of
          None \<Rightarrow> st
        | Some hv \<Rightarrow> (fst st + hv, (snd st)(key dp \<mapsto> hv)))"
  using daypart_hours_positive [of dp]
  by (auto simp add: hours_step_def daypart_hours_def Let_def split: option.splits)

lemma fst_fold_hours_step:
  "fst (fold hours_step dps st) = fst st + sum_list (List.map_filter daypart_hours dps)"
proof (induction dps arbitrary: st)
  case Nil
  then show ?case by (simp add: List.map_filter_simps)
next
  case (Cons dp dps)
  have "fst (fold hours_step (dp # dps) st) = fst (fold hours_step dps (hours_step dp st))"
    by simp
  also have "\<dots> = fst (hours_step dp st) + sum_list (List.map_filter daypart_hours dps)"
    by (rule Cons.IH)
  also have "\<dots> = fst st + sum_list (List.map_filter daypart_hours (dp # dps))"
    by (cases "daypart_hours dp")
       (simp_all add: hours_step_daypart_hours List.map_filter_simps)
  finally show ?case .
qed

lemma cf_hours_day_total_sum:
  "hours_day_total (calculate_financials a)
     = (if sum_list (List.map_filter daypart_hours (dayparts a)) > 0
        then Some (sum_list (List.map_filter daypart_hours (dayparts a))) else None)"
  by (simp add: cf_hours_day_total fst_fold_hours_step)

lemma cf_per_hour_sum:
  "orders_per_hour (calculate_financials a)
     = (if sum_list (List.map_filter daypart_hours (dayparts a)) > 0
        then Some (orders_day (calculate_financials a)
                     / sum_list (List.map_filter daypart_hours (dayparts a)))
        else None)"
  "revenue_per_hour (calculate_financials a)
     = (if sum_list (List.map_filter daypart_hours (dayparts a)) > 0
        then Some (revenue_day (calculate_financials a)
                     / sum_list (List.map_filter daypart_hours (dayparts a)))
        else None)"
  by (simp_all add: cf_orders_per_hour cf_revenue_per_hour cf_hours_day_total_sum
      truthy_float_def)

text \<open>
  Claim C8. For a segment whose start and end times are both present and of the form
  \<open>HH:MM\<close> (two digits, a colon, two digits, hours at most 23, minutes at most 59), the
  parser reads the hours and the minutes written, and the duration in hours is end minus
  start in minutes over 60, with 24 hours added when the end is before the start, and no
  duration at all when the two are equal. The same holds for every pair of times the parser
  accepts. A segment has a duration exactly when both times are present, both are accepted
  and they differ, and a duration is always positive. The total hours are the sum of the
  durations of the segments that have one; a segment without one adds nothing to it. When
  the total is positive, the orders per hour and the revenue per hour are the orders per day
  and the revenue per day over the total; otherwise both are \<open>None\<close>. The orders and the
  revenue per day sum over all segments, with or without times.
\<close>

theorem C8_hourly_analytics:
  fixes a :: financial_args and dp :: DaypartInput and dps :: "DaypartInput list"
    and s e :: "nat list" and sh sm eh em :: int
  defines "r \<equiv> calculate_financials a"
    and "total_hours \<equiv> sum_list (List.map_filter daypart_hours (dayparts a))"
  shows
  "(start_time dp = Some s \<and> end_time dp = Some e \<and> is_hhmm s \<and> is_hhmm e \<longrightarrow>
      parse_hhmm s = Some (int (hhmm_hours s), int (hhmm_minutes s))
      \<and> parse_hhmm e = Some (int (hhmm_hours e), int (hhmm_minutes e))
      \<and> daypart_hours dp
        = (if hhmm_minute_of_day e = hhmm_minute_of_day s then None
           else Some (real_of_int
                  ((if hhmm_minute_of_day e < hhmm_minute_of_day s
                    then hhmm_minute_of_day e + 24 * 60
                    else hhmm_minute_of_day e) - hhmm_minute_of_day s) / 60)))
   \<and> (start_time dp = Some s \<and> end_time dp = Some e
      \<and> parse_hhmm s = Some (sh, sm) \<and> parse_hhmm e = Some (eh, em) \<longrightarrow>
      daypart_hours dp
        = (if eh * 60 + em = sh * 60 + sm then None
           else Some (real_of_int
                  ((if eh * 60 + em < sh * 60 + sm then eh * 60 + em + 24 * 60
                    else eh * 60 + em) - (sh * 60 + sm)) / 60)))
   \<and> (daypart_hours dp \<noteq> None \<longleftrightarrow>
        (\<exists>s e sh sm eh em. start_time dp = Some s \<and> end_time dp = Some e
           \<and> parse_hhmm s = Some (sh, sm) \<and> parse_hhmm e = Some (eh, em)
           \<and> eh * 60 + em \<noteq> sh * 60 + sm))
   \<and> (\<forall>h. daypart_hours dp = Some h \<longrightarrow> 0 < h)
   \<and> (daypart_hours dp = None \<longrightarrow>
        sum_list (List.map_filter daypart_hours (dp # dps))
          = sum_list (List.map_filter daypart_hours dps))
   \<and> (\<forall>h. daypart_hours dp = Some h \<longrightarrow>
        sum_list (List.map_filter daypart_hours (dp # dps))
          = h + sum_list (List.map_filter daypart_hours dps))
   \<and> hours_day_total r = (if total_hours > 0 then Some total_hours else None)
   \<and> orders_per_hour r
       = (if total_hours > 0 then Some (orders_day r / total_hours) else None)
   \<and> revenue_per_hour r
       = (if total_hours > 0 then Some (revenue_day r / total_hours) else None)
   \<and> orders_day r = (\<Sum>dp\<leftarrow>dayparts a. max 0 (orders_per_day dp))
   \<and> revenue_day r
       = (\<Sum>dp\<leftarrow>dayparts a. max 0 (orders_per_day dp) * max 0 (ticket_avg dp))"
proof -
  have 0: "start_time dp = Some s \<and> end_time dp = Some e \<and> is_hhmm s \<and> is_hhmm e \<longrightarrow>
      parse_hhmm s = Some (int (hhmm_hours s), int (hhmm_minutes s))
      \<and> parse_hhmm e = Some (int (hhmm_hours e), int (hhmm_minutes e))
      \<and> daypart_hours dp
        = (if hhmm_minute_of_day e = hhmm_minute_of_day s then None
           else Some (real_of_int
                  ((if hhmm_minute_of_day e < hhmm_minute_of_day s
                    then hhmm_minute_of_day e + 24 * 60
                    else hhmm_minute_of_day e) - hhmm_minute_of_day s) / 60))"
  proof
    assume h: "start_time dp = Some s \<and> end_time dp = Some e \<and> is_hhmm s \<and> is_hhmm e"
    then have ps: "parse_hhmm s = Some (int (hhmm_hours s), int (hhmm_minutes s))"
      and pe: "parse_hhmm e = Some (int (hhmm_hours e), int (hhmm_minutes e))"
      using parse_hhmm_is_hhmm by blast+
    from h have st: "start_time dp = Some s" and en: "end_time dp = Some e"
      by blast+
    show "parse_hhmm s = Some (int (hhmm_hours s), int (hhmm_minutes s))
      \<and> parse_hhmm e = Some (int (hhmm_hours e), int (hhmm_minutes e))
      \<and> daypart_hours dp
        = (if hhmm_minute_of_day e = hhmm_minute_of_day s then None
           else Some (real_of_int
                  ((if hhmm_minute_of_day e < hhmm_minute_of_day s
                    then hhmm_minute_of_day e + 24 * 60
                    else hhmm_minute_of_day e) - hhmm_minute_of_day s) / 60))"
      using ps pe daypart_hours_parsed [OF st en ps pe]
      unfolding hhmm_minute_of_day_def by blast
  qed
  have 1: "start_time dp = Some s \<and> end_time dp = Some e
      \<and> parse_hhmm s = Some (sh, sm) \<and> parse_hhmm e = Some (eh, em) \<longrightarrow>
      daypart_hours dp
        = (if eh * 60 + em = sh * 60 + sm then None
           else Some (real_of_int
                  ((if eh * 60 + em < sh * 60 + sm then eh * 60 + em + 24 * 60
                    else eh * 60 + em) - (sh * 60 + sm)) / 60))"
    using daypart_hours_parsed by blast
  have 2: "daypart_hours dp \<noteq> None \<longleftrightarrow>
        (\<exists>s e sh sm eh em. start_time dp = Some s \<and> end_time dp = Some e
           \<and> parse_hhmm s = Some (sh, sm) \<and> parse_hhmm e = Some (eh, em)
           \<and> eh * 60 + em \<noteq> sh * 60 + sm)"
    by (rule daypart_hours_defined)
  have 3: "\<forall>h. daypart_hours dp = Some h \<longrightarrow> 0 < h"
    using daypart_hours_positive by blast
  have 4: "daypart_hours dp = None \<longrightarrow>
        sum_list (List.map_filter daypart_hours (dp # dps))
          = sum_list (List.map_filter daypart_hours dps)"
    by (simp add: List.map_filter_simps)
  have 5: "\<forall>h. daypart_hours dp = Some h \<longrightarrow>
        sum_list (List.map_filter daypart_hours (dp # dps))
          = h + sum_list (List.map_filter daypart_hours dps)"
    by (simp add: List.map_filter_simps)
  have 6: "hours_day_total r = (if total_hours > 0 then Some total_hours else None)"
    unfolding r_def total_hours_def by (rule cf_hours_day_total_sum)
  have 7: "orders_per_hour r
       = (if total_hours > 0 then Some (orders_day r / total_hours) else None)"
    unfolding r_def total_hours_def by (rule cf_per_hour_sum)
  have 8: "revenue_per_hour r
       = (if total_hours > 0 then Some (revenue_day r / total_hours) else None)"
    unfolding r_def total_hours_def by (rule cf_per_hour_sum)
  have 9: "orders_day r = (\<Sum>dp\<leftarrow>dayparts a. max 0 (orders_per_day dp))"
    unfolding r_def by (simp add: cf_orders_day)
  have 10: "revenue_day r
       = (\<Sum>dp\<leftarrow>dayparts a. max 0 (orders_per_day dp) * max 0 (ticket_avg dp))"
    unfolding r_def by (simp add: cf_revenue_day)
  from 0 1 2 3 4 5 6 7 8 9 10 show ?thesis by blast
qed

lemma scenario_hours_dayparts:
  "dayparts scenario_hours = [scenario_daypart, night_daypart, untimed_daypart]"
  by (simp add: scenario_hours_def)

lemma scenario_hours_times:
  "start_time night_daypart = Some (codes ''22:00'')" "end_time night_daypart = Some (codes ''02:00'')"
  "start_time scenario_daypart = Some (codes ''12:00'')" "end_time scenario_daypart = Some (codes ''15:30'')"
  "start_time untimed_daypart = None"
  by (simp_all add: night_daypart_def scenario_daypart_def untimed_daypart_def)

lemma scenario_daypart_hours:
  "daypart_hours scenario_daypart = Some (7 / 2)"
  "daypart_hours night_daypart = Some 4"
  "daypart_hours untimed_daypart = None"
proof -
  show "daypart_hours scenario_daypart = Some (7 / 2)"
    using daypart_hours_parsed [OF scenario_hours_times(3,4) parse_hhmm_evals(1,2)]
    by simp
  show "daypart_hours night_daypart = Some 4"
    using daypart_hours_parsed [OF scenario_hours_times(1,2) parse_hhmm_evals(3,4)]
    by simp
  show "daypart_hours untimed_daypart = None"
    by (simp add: daypart_hours_def scenario_hours_times truthy_str_def)
qed

lemma scenario_hours_total:
  "sum_list (List.map_filter daypart_hours (dayparts scenario_hours)) = 15 / 2"
  by (simp add: scenario_hours_dayparts List.map_filter_simps scenario_daypart_hours)

lemma scenario_hours_sums:
  "(\<Sum>dp\<leftarrow>dayparts scenario_hours. max 0 (orders_per_day dp)) = 150"
  "(\<Sum>dp\<leftarrow>dayparts scenario_hours. max 0 (orders_per_day dp) * max 0 (ticket_avg dp))
     = 1450"
  by (simp_all add: scenario_hours_dayparts night_daypart_def scenario_daypart_def
      untimed_daypart_def)

lemma night_times_hhmm:
  "is_hhmm (codes ''22:00'')" "is_hhmm (codes ''02:00'')"
  "hhmm_minute_of_day (codes ''22:00'') = 1320" "hhmm_minute_of_day (codes ''02:00'') = 120"
  by (simp_all add: codes_evals is_hhmm_def hhmm_minute_of_day_def hhmm_hours_def
      hhmm_minutes_def)

theorem C8_hourly_analytics_witness:
  "start_time night_daypart = Some (codes ''22:00'')
   \<and> end_time night_daypart = Some (codes ''02:00'')
   \<and> is_hhmm (codes ''22:00'') \<and> is_hhmm (codes ''02:00'')
   \<and> parse_hhmm (codes ''22:00'') = Some (22, 0) \<and> parse_hhmm (codes ''02:00'') = Some (2, 0)
   \<and> daypart_hours night_daypart = Some 4
   \<and> daypart_hours untimed_daypart = None
   \<and> hours_day_total (calculate_financials scenario_hours) = Some (15 / 2)
   \<and> orders_per_hour (calculate_financials scenario_hours) = Some 20
   \<and> revenue_per_hour (calculate_financials scenario_hours) = Some (580 / 3)
   \<and> revenue_day (calculate_financials scenario_hours) = 1450"
proof -
  note t = C8_hourly_analytics [where a = scenario_hours and dp = night_daypart
      and s = "codes ''22:00''" and e = "codes ''02:00''" and sh = 22 and sm = 0
      and eh = 2 and em = 0]
  have h: "start_time night_daypart = Some (codes ''22:00'')"
    "end_time night_daypart = Some (codes ''02:00'')"
    "is_hhmm (codes ''22:00'')" "is_hhmm (codes ''02:00'')"
    by (simp_all add: scenario_hours_times night_times_hhmm)
  have p: "parse_hhmm (codes ''22:00'') = Some (22, 0)"
    "parse_hhmm (codes ''02:00'') = Some (2, 0)"
    by (simp_all add: parse_hhmm_evals)
  from t h have n: "daypart_hours night_daypart
        = (if hhmm_minute_of_day (codes ''02:00'') = hhmm_minute_of_day (codes ''22:00'')
           then None
           else Some (real_of_int
                  ((if hhmm_minute_of_day (codes ''02:00'')
                        < hhmm_minute_of_day (codes ''22:00'')
                    then hhmm_minute_of_day (codes ''02:00'') + 24 * 60
                    else hhmm_minute_of_day (codes ''02:00''))
                   - hhmm_minute_of_day (codes ''22:00'')) / 60))"
    by blast
  have n4: "daypart_hours night_daypart = Some 4"
    unfolding n night_times_hhmm by simp
  have od: "orders_day (calculate_financials scenario_hours) = 150"
    using t by (simp only: scenario_hours_sums)
  have rd: "revenue_day (calculate_financials scenario_hours) = 1450"
    using t by (simp only: scenario_hours_sums)
  have ht: "hours_day_total (calculate_financials scenario_hours) = Some (15 / 2)"
    using t by (simp add: scenario_hours_total)
  have oh: "orders_per_hour (calculate_financials scenario_hours) = Some 20"
    using t by (simp add: scenario_hours_total od)
  have rh: "revenue_per_hour (calculate_financials scenario_hours) = Some (580 / 3)"
    using t by (simp add: scenario_hours_total rd)
  from h p n4 scenario_daypart_hours(3) ht oh rh rd show ?thesis by blast
qed

section \<open>The staffing allocation\<close>















section \<open>The rounding of binary64\<close>

lemma ilog2_bounds:
  assumes "0 < x"
  shows "2 powi (ilog2 x) \<le> x \<and> x < 2 powi (ilog2 x + 1)"
proof (cases "1 \<le> x")
  case True
  define n where "n = \<lfloor>x\<rfloor>"
  have n: "0 < n" "of_int n \<le> x" "x < of_int n + 1"
    using True unfolding n_def by linarith+
  have b1: "1 \<le> bitlen n"
    using n(1) by (simp add: bitlen_alt_def)
  have bb: "2 ^ nat (bitlen n - 1) \<le> n" "n < 2 ^ nat (bitlen n)"
    using bitlen_bounds [OF n(1)] by blast+
  have il: "ilog2 x = bitlen n - 1"
    using True by (simp add: ilog2_def n_def)
  have lo: "(2::real) powi (bitlen n - 1) \<le> of_int n"
  proof -
    have "(2::real) powi (bitlen n - 1) = 2 ^ nat (bitlen n - 1)"
      using b1 by (simp add: power_int_def)
    also have "\<dots> \<le> of_int n" using bb(1) by simp
    finally show ?thesis .
  qed
  have hi: "of_int n + 1 \<le> (2::real) powi (bitlen n)"
  proof -
    have "n + 1 \<le> 2 ^ nat (bitlen n)" using bb(2) by simp
    then have "real_of_int (n + 1) \<le> 2 ^ nat (bitlen n)"
      by (simp only: of_int_le_numeral_power_cancel_iff)
    moreover have "(2::real) powi (bitlen n) = 2 ^ nat (bitlen n)"
      using b1 by (simp add: power_int_def)
    ultimately show ?thesis by simp
  qed
  have "x < 2 powi (bitlen n - 1 + 1)"
    using hi n(3) by simp
  then show ?thesis
    unfolding il using lo n(2) by simp
next
  case False
  define y where "y = 1 / x"
  define c where "c = \<lceil>y\<rceil>"
  have y1: "1 < y" using False assms unfolding y_def by simp
  have c: "2 \<le> c" "y \<le> of_int c" "of_int c - 1 < y"
    using y1 unfolding c_def by linarith+
  define k where "k = bitlen (c - 1)"
  have cp: "0 < c - 1" using c(1) by simp
  have k1: "1 \<le> k" unfolding k_def using cp by (simp add: bitlen_alt_def)
  have bb: "2 ^ nat (k - 1) \<le> c - 1" "c - 1 < 2 ^ nat k"
    using bitlen_bounds [OF cp] unfolding k_def by blast+
  have il: "ilog2 x = - k"
    using False unfolding ilog2_def k_def c_def y_def by simp
  have pk: "(2::real) powi k = 2 ^ nat k" "(2::real) powi (k - 1) = 2 ^ nat (k - 1)"
    using k1 by (simp_all add: power_int_def)
  have "c \<le> 2 ^ nat k" using bb(2) by simp
  then have "real_of_int c \<le> 2 ^ nat k" by simp
  then have yk: "y \<le> 2 powi k" using c(2) pk by linarith
  have "(2::real) ^ nat (k - 1) \<le> of_int (c - 1)"
    using bb(1) by (simp only: numeral_power_le_of_int_cancel_iff)
  then have yk1: "2 powi (k - 1) < y" using c(3) pk by simp
  have xy: "x = 1 / y" unfolding y_def using assms by simp
  have ypos: "0 < y" using y1 by simp
  have lo: "2 powi (- k) \<le> x"
  proof -
    have "1 / (2 powi k) \<le> 1 / y"
      using yk ypos by (intro divide_left_mono) simp_all
    then show ?thesis unfolding xy by (simp add: power_int_minus_divide)
  qed
  have hi: "x < 2 powi (- k + 1)"
  proof -
    have "1 / y < 1 / (2 powi (k - 1))"
      using yk1 ypos by (intro divide_strict_left_mono mult_pos_pos) simp_all
    moreover have "1 / ((2::real) powi (k - 1)) = 2 powi (- k + 1)"
      using power_int_minus_divide [of "2::real" "k - 1"] by simp
    ultimately show ?thesis unfolding xy by simp
  qed
  show ?thesis unfolding il using lo hi by simp
qed

lemma ilog2_unique:
  assumes "0 < x" "2 powi k \<le> x" "x < 2 powi (k + 1)"
  shows "ilog2 x = k"
proof -
  have b: "2 powi (ilog2 x) \<le> x" "x < 2 powi (ilog2 x + 1)"
    using ilog2_bounds [OF assms(1)] by blast+
  have 1: "k < ilog2 x + 1"
  proof (rule ccontr)
    assume "\<not> k < ilog2 x + 1"
    then have "(2::real) powi (ilog2 x + 1) \<le> 2 powi k"
      by (intro power_int_increasing) simp_all
    with assms(2) b(2) show False by linarith
  qed
  have 2: "ilog2 x < k + 1"
  proof (rule ccontr)
    assume "\<not> ilog2 x < k + 1"
    then have "(2::real) powi (k + 1) \<le> 2 powi (ilog2 x)"
      by (intro power_int_increasing) simp_all
    with assms(3) b(1) show False by linarith
  qed
  from 1 2 show ?thesis by simp
qed

lemma round_half_even_unique:
  assumes "\<bar>y - of_int m\<bar> < 1 / 2"
  shows "round_half_even y = m"
proof (cases "of_int m \<le> y")
  case True
  then have "\<lfloor>y\<rfloor> = m" using assms by linarith
  then show ?thesis using assms True by (simp add: round_half_even_def Let_def)
next
  case False
  then have f: "\<lfloor>y\<rfloor> = m - 1" using assms by linarith
  have "\<not> y - of_int (m - 1) < 1 / 2" "y - of_int (m - 1) > 1 / 2"
    using assms False by simp_all
  then show ?thesis unfolding round_half_even_def Let_def f by simp
qed

lemma round_half_even_error: "\<bar>of_int (round_half_even y) - y\<bar> \<le> 1 / 2"
proof -
  have "of_int \<lfloor>y\<rfloor> \<le> y" "y < of_int \<lfloor>y\<rfloor> + 1" by linarith+
  then show ?thesis
    by (auto simp add: round_half_even_def Let_def)
qed

lemma round_double_zero: "round_double 0 = 0"
  by (simp add: round_double_def)

lemma round_double_error: "\<bar>round_double x - x\<bar> \<le> \<bar>x\<bar> / 2 ^ 53"
proof (cases "x = 0")
  case True
  then show ?thesis by (simp add: round_double_def)
next
  case False
  define e where "e = ilog2 \<bar>x\<bar> - 52"
  define p :: real where "p = 2 powi e"
  have pp: "0 < p" unfolding p_def by simp
  have rd: "round_double x = of_int (round_half_even (x / p)) * p"
    using False by (simp add: round_double_def Let_def e_def p_def)
  have "round_double x - x = (of_int (round_half_even (x / p)) - x / p) * p"
    unfolding rd using pp by (simp add: field_simps)
  then have "\<bar>round_double x - x\<bar> = \<bar>of_int (round_half_even (x / p)) - x / p\<bar> * p"
    using pp by (simp add: abs_mult)
  also have "\<dots> \<le> 1 / 2 * p"
    using round_half_even_error [of "x / p"] pp by (intro mult_right_mono) simp_all
  finally have 1: "\<bar>round_double x - x\<bar> \<le> p / 2" by simp
  have "2 powi (ilog2 \<bar>x\<bar>) \<le> \<bar>x\<bar>"
    using ilog2_bounds [of "\<bar>x\<bar>"] False by simp
  moreover have "(2::real) powi (ilog2 \<bar>x\<bar>) = p * 2 ^ 52"
    unfolding p_def e_def by (simp add: power_int_diff)
  ultimately have "p * 2 ^ 52 \<le> \<bar>x\<bar>" by simp
  then have "p / 2 \<le> \<bar>x\<bar> / 2 ^ 53" by simp
  with 1 show ?thesis by linarith
qed

lemma round_double_eqI:
  assumes "p = 2 powi e" "p * 2 ^ 52 \<le> \<bar>x\<bar>" "\<bar>x\<bar> < p * 2 ^ 53"
    and "\<bar>x / p - of_int m\<bar> < 1 / 2" "y = of_int m * p"
  shows "round_double x = y"
proof -
  have pp: "0 < p" using assms(1) by simp
  have x0: "x \<noteq> 0" using assms(2) pp by auto
  have "(2::real) powi (e + 52) = p * 2 ^ 52" "(2::real) powi (e + 52 + 1) = p * 2 ^ 53"
    unfolding assms(1) by (simp_all add: power_int_add)
  then have "ilog2 \<bar>x\<bar> = e + 52"
    using assms(2,3) x0 by (intro ilog2_unique) simp_all
  then have "round_double x = of_int (round_half_even (x / p)) * p"
    using x0 by (simp add: round_double_def Let_def assms(1))
  also have "round_half_even (x / p) = m"
    by (rule round_half_even_unique [OF assms(4)])
  finally show ?thesis using assms(5) by simp
qed

lemma round_half_even_tie:
  assumes "y = of_int m + 1 / 2"
  shows "round_half_even y = (if even m then m else m + 1)"
proof -
  have "\<lfloor>y\<rfloor> = m" using assms by linarith
  then show ?thesis using assms by (simp add: round_half_even_def Let_def)
qed

lemma round_double_tieI:
  assumes "p = 2 powi e" "p * 2 ^ 52 \<le> \<bar>x\<bar>" "\<bar>x\<bar> < p * 2 ^ 53"
    and "x / p = of_int m + 1 / 2" "y = of_int (if even m then m else m + 1) * p"
  shows "round_double x = y"
proof -
  have pp: "0 < p" using assms(1) by simp
  have x0: "x \<noteq> 0" using assms(2) pp by auto
  have "(2::real) powi (e + 52) = p * 2 ^ 52" "(2::real) powi (e + 52 + 1) = p * 2 ^ 53"
    unfolding assms(1) by (simp_all add: power_int_add)
  then have "ilog2 \<bar>x\<bar> = e + 52"
    using assms(2,3) x0 by (intro ilog2_unique) simp_all
  then have "round_double x = of_int (round_half_even (x / p)) * p"
    using x0 by (simp add: round_double_def Let_def assms(1))
  also have "round_half_even (x / p) = (if even m then m else m + 1)"
    by (rule round_half_even_tie [OF assms(4)])
  finally show ?thesis using assms(5) by simp
qed

lemma round_half_even_of_int: "round_half_even (of_int m) = m"
  by (rule round_half_even_unique) simp

text \<open>A number with a significand of at most 53 bits is its own rounding.\<close>

lemma round_double_exact:
  assumes "x = of_int m * 2 powi e" "\<bar>m\<bar> < 2 ^ 53"
  shows "round_double x = x"
proof (cases "m = 0")
  case True
  then show ?thesis using assms(1) by (simp add: round_double_def)
next
  case False
  have x0: "x \<noteq> 0" using False assms(1) by simp
  define k where "k = ilog2 \<bar>x\<bar>"
  have ax: "\<bar>x\<bar> = of_int \<bar>m\<bar> * 2 powi e"
    unfolding assms(1) by (simp add: abs_mult)
  have "2 powi k \<le> \<bar>x\<bar>"
    unfolding k_def using ilog2_bounds [of "\<bar>x\<bar>"] x0 by simp
  also have "\<bar>x\<bar> < 2 ^ 53 * 2 powi e"
  proof -
    have "real_of_int \<bar>m\<bar> < 2 ^ 53" using assms(2) by simp
    then show ?thesis unfolding ax by (intro mult_strict_right_mono) simp_all
  qed
  also have "(2::real) ^ 53 * 2 powi e = 2 powi (53 + e)"
    by (simp add: power_int_add)
  finally have "(2::real) powi k < 2 powi (53 + e)" .
  then have "k < 53 + e"
    using power_int_increasing [of "53 + e" k "2::real"] by (cases "k < 53 + e") simp_all
  define d where "d = nat (e - (k - 52))"
  have d: "e = (k - 52) + int d" using \<open>k < 53 + e\<close> by (simp add: d_def)
  have "2 powi e = (2::real) powi (k - 52) * 2 ^ d"
    by (subst d) (simp add: power_int_add)
  then have xs: "x = of_int (m * 2 ^ d) * 2 powi (k - 52)"
    unfolding assms(1) by simp
  have "x / 2 powi (k - 52) = of_int (m * 2 ^ d)"
    by (subst xs) simp
  then have "round_half_even (x / 2 powi (k - 52)) = m * 2 ^ d"
    by (simp only: round_half_even_of_int)
  then have "round_double x = of_int (m * 2 ^ d) * 2 powi (k - 52)"
    using x0 by (simp add: round_double_def Let_def k_def)
  with xs show ?thesis by simp
qed

lemma round_double_of_int: "\<bar>m\<bar> < 2 ^ 53 \<Longrightarrow> round_double (of_int m) = of_int m"
  by (rule round_double_exact [where m = m and e = 0]) simp_all

lemma round_double_numeral [simp]:
  "numeral k < (9007199254740992::int) \<Longrightarrow> round_double (numeral k) = numeral k"
  "numeral k < (9007199254740992::int) \<Longrightarrow> round_double (- numeral k) = - numeral k"
  using round_double_of_int [of "numeral k"] round_double_of_int [of "- numeral k"]
  by simp_all

lemma round_double_one [simp]: "round_double 1 = 1"
  using round_double_of_int [of 1] by simp

text \<open>The rounding of binary64 follows the standard model, with the unit roundoff
  \<open>1 / 2 ^ 53\<close>.\<close>

lemma standard_model_round_double: "standard_model round_double unit_roundoff"
  unfolding standard_model_def unit_roundoff_def
  using round_double_error by (simp add: field_simps)

text \<open>What the standard model gives: a rounding without error is the identity, zero is
  rounded to zero, and the sign is kept when the unit roundoff is below one.\<close>

lemma standard_model_exact: "standard_model rd 0 \<Longrightarrow> rd x = x"
  by (simp add: standard_model_def)

lemma standard_model_zero: "standard_model rd u \<Longrightarrow> rd 0 = 0"
  unfolding standard_model_def by (metis abs_le_zero_iff abs_zero mult_zero_right right_minus_eq)

lemma standard_model_error: "standard_model rd u \<Longrightarrow> \<bar>rd x - x\<bar> \<le> u * \<bar>x\<bar>"
  by (simp add: standard_model_def)

lemma standard_model_pos:
  assumes "standard_model rd u" "u < 1" "0 < x"
  shows "0 < rd x"
proof -
  have "\<bar>rd x - x\<bar> \<le> u * x"
    using standard_model_error [OF assms(1), of x] assms(3) by simp
  moreover have "u * x < x" using assms(2,3) by simp
  ultimately show ?thesis by linarith
qed

lemma round_double_zero_simp [simp]: "round_double 0 = 0"
  by (rule round_double_zero)

section \<open>The fields of the result in floating point\<close>

lemma cfl_orders_day:
  "orders_day (calculate_financials_fl rd su a) = su (map (\<lambda>dp. max 0.0 (orders_per_day
    dp)) (dayparts a))"
  by (simp only: calculate_financials_fl_def Let_def financial_results.select_convs)

lemma cfl_revenue_day:
  "revenue_day (calculate_financials_fl rd su a) = su (map (\<lambda>dp. rd (max 0.0
    (orders_per_day dp) * max 0.0 (ticket_avg dp))) (dayparts a))"
  by (simp only: calculate_financials_fl_def Let_def financial_results.select_convs)

lemma cfl_revenue_month:
  "revenue_month (calculate_financials_fl rd su a) = rd ((revenue_day (calculate_financials_fl
    rd su a)) * rd (real_of_int (open_days_per_month a)))"
  by (simp only: calculate_financials_fl_def Let_def financial_results.select_convs)

lemma cfl_revenue_annual_runrate:
  "revenue_annual_runrate (calculate_financials_fl rd su a) = rd ((revenue_month
    (calculate_financials_fl rd su a)) * 12)"
  by (simp only: calculate_financials_fl_def Let_def financial_results.select_convs)

lemma cfl_cogs_month:
  "cogs_month (calculate_financials_fl rd su a) = cost_amount_fl rd (revenue_month
    (calculate_financials_fl rd su a)) (cogs_mode a) (cogs_pct a) (cogs_eur a)"
  by (simp only: calculate_financials_fl_def Let_def financial_results.select_convs)

lemma cfl_labor_month:
  "labor_month (calculate_financials_fl rd su a) = cost_amount_fl rd (revenue_month
    (calculate_financials_fl rd su a)) (labor_mode a) (labor_pct a) (labor_eur a)"
  by (simp only: calculate_financials_fl_def Let_def financial_results.select_convs)

lemma cfl_opex_month:
  "opex_month (calculate_financials_fl rd su a) = cost_amount_fl rd (revenue_month
    (calculate_financials_fl rd su a)) (opex_mode a) (opex_pct a) (opex_eur a)"
  by (simp only: calculate_financials_fl_def Let_def financial_results.select_convs)

lemma cfl_marketing_month:
  "marketing_month (calculate_financials_fl rd su a) = cost_amount_fl rd (revenue_month
    (calculate_financials_fl rd su a)) (marketing_mode a) (marketing_pct a) (marketing_eur a)"
  by (simp only: calculate_financials_fl_def Let_def financial_results.select_convs)

lemma cfl_fee_month:
  "fee_month (calculate_financials_fl rd su a) = cost_amount_fl rd (revenue_month
    (calculate_financials_fl rd su a)) (fee_mode a) (fee_pct a) (fee_eur a)"
  by (simp only: calculate_financials_fl_def Let_def financial_results.select_convs)

lemma cfl_occupancy_month:
  "occupancy_month (calculate_financials_fl rd su a) = rd (rent_fixed_month a +
    service_charges_month a)"
  by (simp only: calculate_financials_fl_def Let_def financial_results.select_convs)

lemma cfl_ebitda_month:
  "ebitda_month (calculate_financials_fl rd su a) = rd ((revenue_month (calculate_financials_fl
    rd su a)) - rd (rd (rd (rd (rd ((cogs_month (calculate_financials_fl rd su a)) + (labor_month
    (calculate_financials_fl rd su a))) + (opex_month (calculate_financials_fl rd su a))) +
    (marketing_month (calculate_financials_fl rd su a))) + (fee_month (calculate_financials_fl rd
    su a))) + (occupancy_month (calculate_financials_fl rd su a))))"
  by (simp only: calculate_financials_fl_def Let_def financial_results.select_convs)

lemma cfl_contribution_margin:
  "contribution_margin (calculate_financials_fl rd su a) = rd (1.0 - (fst (fold (be_step_fl rd)
    [(cogs_mode a, cogs_pct a, cogs_eur a), (labor_mode a, labor_pct a, labor_eur a), (opex_mode
    a, opex_pct a, opex_eur a), (marketing_mode a, marketing_pct a, marketing_eur a), (fee_mode a,
    fee_pct a, fee_eur a)] (0.0, 0.0))))"
  by (simp only: calculate_financials_fl_def Let_def financial_results.select_convs)

lemma cfl_fixed_costs_month:
  "fixed_costs_month (calculate_financials_fl rd su a) = rd ((occupancy_month
    (calculate_financials_fl rd su a)) + (snd (fold (be_step_fl rd) [(cogs_mode a, cogs_pct a,
    cogs_eur a), (labor_mode a, labor_pct a, labor_eur a), (opex_mode a, opex_pct a, opex_eur a),
    (marketing_mode a, marketing_pct a, marketing_eur a), (fee_mode a, fee_pct a, fee_eur a)]
    (0.0, 0.0))))"
  by (simp only: calculate_financials_fl_def Let_def financial_results.select_convs)

lemma cfl_variable_rate:
  "variable_rate (calculate_financials_fl rd su a) = Some (rd (1.0 - (contribution_margin
    (calculate_financials_fl rd su a))))"
  by (simp only: calculate_financials_fl_def Let_def financial_results.select_convs)

lemma cfl_break_even_revenue_month:
  "break_even_revenue_month (calculate_financials_fl rd su a) = (if (contribution_margin
    (calculate_financials_fl rd su a)) > 0 \<and> (fixed_costs_month (calculate_financials_fl rd
    su a)) > 0 then Some (rd ((fixed_costs_month (calculate_financials_fl rd su a)) /
    (contribution_margin (calculate_financials_fl rd su a)))) else None)"
  by (simp only: calculate_financials_fl_def Let_def financial_results.select_convs)

lemma cfl_break_even_revenue_annual:
  "break_even_revenue_annual (calculate_financials_fl rd su a) = (if (contribution_margin
    (calculate_financials_fl rd su a)) > 0 \<and> (fixed_costs_month (calculate_financials_fl rd
    su a)) > 0 then Some (rd (the (break_even_revenue_month (calculate_financials_fl rd su a)) *
    12)) else None)"
  by (simp only: calculate_financials_fl_def Let_def financial_results.select_convs)

lemma cfl_break_even_orders_day:
  "break_even_orders_day (calculate_financials_fl rd su a) = (if (break_even_revenue_month
    (calculate_financials_fl rd su a)) \<noteq> None \<and> truthy_float ((if (orders_day
    (calculate_financials_fl rd su a)) > 0 then Some (rd ((revenue_day (calculate_financials_fl rd
    su a)) / (orders_day (calculate_financials_fl rd su a)))) else None)) \<and> the ((if
    (orders_day (calculate_financials_fl rd su a)) > 0 then Some (rd ((revenue_day
    (calculate_financials_fl rd su a)) / (orders_day (calculate_financials_fl rd su a)))) else
    None)) > 0 \<and> (open_days_per_month a) > 0 then Some (rd (the (break_even_revenue_month
    (calculate_financials_fl rd su a)) / rd (the ((if (orders_day (calculate_financials_fl rd su
    a)) > 0 then Some (rd ((revenue_day (calculate_financials_fl rd su a)) / (orders_day
    (calculate_financials_fl rd su a)))) else None)) * rd (real_of_int (open_days_per_month a)))))
    else None)"
  by (simp only: calculate_financials_fl_def Let_def financial_results.select_convs)

lemma cfl_break_even_curve_defined:
  "(break_even_curve (calculate_financials_fl rd su a) \<noteq> None) =
     (contribution_margin (calculate_financials_fl rd su a) > 0
      \<and> fixed_costs_month (calculate_financials_fl rd su a) > 0)"
  by (simp only: calculate_financials_fl_def Let_def financial_results.select_convs
      if_distrib [of "\<lambda>x. x \<noteq> None"] option.distinct not_False_eq_True not_not if_True
      if_False simp_thms if_bool_eq_conj)

section \<open>The break-even solver in floating point\<close>

lemma be_step_fl_line:
  "be_step_fl rd (m, p, e) st
     = (if be_variable m then (rd (fst st + p), snd st) else (fst st, rd (snd st + e)))"
  by (simp add: be_step_fl_def be_variable_def)

lemma fold_be_step_fl:
  "fold (be_step_fl rd) ls st
     = (foldl (\<lambda>s x. rd (s + x)) (fst st) (variable_pcts ls),
        foldl (\<lambda>s x. rd (s + x)) (snd st) (fixed_eurs ls))"
proof (induction ls arbitrary: st)
  case Nil
  then show ?case by (simp add: variable_pcts_def fixed_eurs_def)
next
  case (Cons l ls)
  obtain m p e where l: "l = (m, p, e)" by (cases l) auto
  have "fold (be_step_fl rd) (l # ls) st = fold (be_step_fl rd) ls (be_step_fl rd (m, p, e) st)"
    by (simp add: l)
  also have "\<dots> = (foldl (\<lambda>s x. rd (s + x)) (fst (be_step_fl rd (m, p, e) st)) (variable_pcts ls),
        foldl (\<lambda>s x. rd (s + x)) (snd (be_step_fl rd (m, p, e) st)) (fixed_eurs ls))"
    by (rule Cons.IH)
  also have "\<dots> = (foldl (\<lambda>s x. rd (s + x)) (fst st) (variable_pcts (l # ls)),
        foldl (\<lambda>s x. rd (s + x)) (snd st) (fixed_eurs (l # ls)))"
    by (simp add: be_step_fl_line l variable_pcts_def fixed_eurs_def)
  finally show ?case .
qed

lemma cfl_contribution_margin_sum:
  "contribution_margin (calculate_financials_fl rd su a)
     = rd (1 - add_sum rd (variable_pcts (cost_lines a)))"
  by (simp add: cfl_contribution_margin cost_lines_def [symmetric] fold_be_step_fl add_sum_def)

lemma cfl_fixed_costs_month_sum:
  "fixed_costs_month (calculate_financials_fl rd su a)
     = rd (occupancy_month (calculate_financials_fl rd su a)
            + add_sum rd (fixed_eurs (cost_lines a)))"
  by (simp add: cfl_fixed_costs_month cost_lines_def [symmetric] fold_be_step_fl add_sum_def)

lemma cfl_break_even_orders_day_defined:
  "(break_even_orders_day (calculate_financials_fl rd su a) \<noteq> None) =
     (contribution_margin (calculate_financials_fl rd su a) > 0
      \<and> fixed_costs_month (calculate_financials_fl rd su a) > 0
      \<and> orders_day (calculate_financials_fl rd su a) > 0
      \<and> rd (revenue_day (calculate_financials_fl rd su a)
             / orders_day (calculate_financials_fl rd su a)) > 0
      \<and> open_days_per_month a > 0)"
  by (auto simp add: cfl_break_even_orders_day cfl_break_even_revenue_month truthy_float_def)

lemma quotient_times_divisor:
  fixes fc cm u b :: real
  assumes "\<bar>b - fc / cm\<bar> \<le> u * \<bar>fc / cm\<bar>" "0 < cm" "0 < fc"
  shows "\<bar>b * cm - fc\<bar> \<le> u * fc"
proof -
  have "b * cm - fc = (b - fc / cm) * cm" using assms(2) by (simp add: field_simps)
  then have "\<bar>b * cm - fc\<bar> = \<bar>b - fc / cm\<bar> * cm"
    using assms(2) by (simp add: abs_mult)
  also have "\<dots> \<le> u * \<bar>fc / cm\<bar> * cm"
    using assms(1,2) by (intro mult_right_mono) simp_all
  also have "\<dots> = u * fc" using assms(2,3) by simp
  finally show ?thesis .
qed

section \<open>Roundings of binary64, one by one\<close>

text \<open>Each rounding the scenarios need, with the exponent and the significand that
  certify it.\<close>

lemma rnd_1: "round_double (3 / 10) = 5404319552844595 / 18014398509481984"
  by (rule round_double_eqI [where e = "-54" and p = "1 / 18014398509481984" and m = "5404319552844595"])
     (simp_all add: power_int_minus_divide)

lemma rnd_2: "round_double (3 / 25) = 1080863910568919 / 9007199254740992"
  by (rule round_double_eqI [where e = "-56" and p = "1 / 72057594037927936" and m = "8646911284551352"])
     (simp_all add: power_int_minus_divide)

lemma rnd_3: "round_double (3 / 100) = 1080863910568919 / 36028797018963968"
  by (rule round_double_eqI [where e = "-58" and p = "1 / 288230376151711744" and m = "8646911284551352"])
     (simp_all add: power_int_minus_divide)

lemma rnd_4: "round_double (3 / 20) = 5404319552844595 / 36028797018963968"
  by (rule round_double_eqI [where e = "-55" and p = "1 / 36028797018963968" and m = "5404319552844595"])
     (simp_all add: power_int_minus_divide)

lemma rnd_5: "round_double (9 / 50) = 3242591731706757 / 18014398509481984"
  by (rule round_double_eqI [where e = "-55" and p = "1 / 36028797018963968" and m = "6485183463413514"])
     (simp_all add: power_int_minus_divide)

lemma rnd_6: "round_double (1 / 5) = 3602879701896397 / 18014398509481984"
  by (rule round_double_eqI [where e = "-55" and p = "1 / 36028797018963968" and m = "7205759403792794"])
     (simp_all add: power_int_minus_divide)

lemma rnd_7: "round_double (1 / 20) = 3602879701896397 / 72057594037927936"
  by (rule round_double_eqI [where e = "-57" and p = "1 / 144115188075855872" and m = "7205759403792794"])
     (simp_all add: power_int_minus_divide)

lemma rnd_8: "round_double (1 / 10) = 3602879701896397 / 36028797018963968"
  by (rule round_double_eqI [where e = "-56" and p = "1 / 72057594037927936" and m = "7205759403792794"])
     (simp_all add: power_int_minus_divide)

lemma rnd_9: "round_double (13 / 20) = 5854679515581645 / 9007199254740992"
  by (rule round_double_eqI [where e = "-53" and p = "1 / 9007199254740992" and m = "5854679515581645"])
     (simp_all add: power_int_minus_divide)

lemma rnd_10: "round_double (10133099161583615625 / 1125899906842624) = 9000"
  by (rule round_double_eqI [where e = "-39" and p = "1 / 549755813888" and m = "4947802324992000"])
     (simp_all add: power_int_minus_divide)

lemma rnd_11: "round_double (2026619832316723125 / 562949953421312) = 3600"
  by (rule round_double_eqI [where e = "-41" and p = "1 / 2199023255552" and m = "7916483719987200"])
     (simp_all add: power_int_minus_divide)

lemma rnd_12: "round_double (2026619832316723125 / 2251799813685248) = 900"
  by (rule round_double_eqI [where e = "-43" and p = "1 / 8796093022208" and m = "7916483719987200"])
     (simp_all add: power_int_minus_divide)

lemma rnd_13: "round_double (5404319552844595 / 18014398509481984) = 5404319552844595 / 18014398509481984"
  by (rule round_double_exact [where m = "5404319552844595" and e = "-54"])
     (simp_all add: power_int_minus_divide)

lemma rnd_14: "round_double (5404319552844595 / 9007199254740992) = 5404319552844595 / 9007199254740992"
  by (rule round_double_exact [where m = "5404319552844595" and e = "-53"])
     (simp_all add: power_int_minus_divide)

lemma rnd_15: "round_double (3242591731706757 / 4503599627370496) = 3242591731706757 / 4503599627370496"
  by (rule round_double_exact [where m = "3242591731706757" and e = "-52"])
     (simp_all add: power_int_minus_divide)

lemma rnd_16: "round_double (27021597764222975 / 36028797018963968) = 3 / 4"
  by (rule round_double_eqI [where e = "-53" and p = "1 / 9007199254740992" and m = "6755399441055744"])
     (simp_all add: power_int_minus_divide)

lemma rnd_17: "round_double (3 / 4) = 3 / 4"
  by (rule round_double_exact [where m = "3" and e = "-2"])
     (simp_all add: power_int_minus_divide)

lemma rnd_18: "round_double (1 / 4) = 1 / 4"
  by (rule round_double_exact [where m = "1" and e = "-2"])
     (simp_all add: power_int_minus_divide)

lemma rnd_19: "round_double (140 / 3) = 6567749456581973 / 140737488355328"
  by (rule round_double_eqI [where e = "-47" and p = "1 / 140737488355328" and m = "6567749456581973"])
     (simp_all add: power_int_minus_divide)

lemma rnd_20: "round_double (567453553048682475 / 2251799813685248) = 252"
  by (rule round_double_eqI [where e = "-45" and p = "1 / 35184372088832" and m = "8866461766385664"])
     (simp_all add: power_int_minus_divide)

lemma rnd_21: "round_double (340472131829209485 / 1125899906842624) = 2659938529915699 / 8796093022208"
  by (rule round_double_eqI [where e = "-44" and p = "1 / 17592186044416" and m = "5319877059831398"])
     (simp_all add: power_int_minus_divide)

lemma rnd_22: "round_double (378302368699121685 / 1125899906842624) = 336"
  by (rule round_double_eqI [where e = "-44" and p = "1 / 17592186044416" and m = "5910974510923776"])
     (simp_all add: power_int_minus_divide)

lemma rnd_23: "round_double (378302368699121685 / 4503599627370496) = 84"
  by (rule round_double_eqI [where e = "-46" and p = "1 / 70368744177664" and m = "5910974510923776"])
     (simp_all add: power_int_minus_divide)

lemma rnd_24: "round_double (4876553971512115 / 8796093022208) = 4876553971512115 / 8796093022208"
  by (rule round_double_exact [where m = "4876553971512115" and e = "-43"])
     (simp_all add: power_int_minus_divide)

lemma rnd_25: "round_double (7832041226974003 / 8796093022208) = 7832041226974003 / 8796093022208"
  by (rule round_double_exact [where m = "7832041226974003" and e = "-43"])
     (simp_all add: power_int_minus_divide)

lemma rnd_26: "round_double (8570913040839475 / 8796093022208) = 8570913040839475 / 8796093022208"
  by (rule round_double_exact [where m = "8570913040839475" and e = "-43"])
     (simp_all add: power_int_minus_divide)

lemma rnd_27: "round_double (39357238618567475 / 8796093022208) = 2459827413660467 / 549755813888"
  by (rule round_double_eqI [where e = "-40" and p = "1 / 1099511627776" and m = "4919654827320934"])
     (simp_all add: power_int_minus_divide)

lemma rnd_28: "round_double (- (1536237646328627 / 549755813888)) = - (1536237646328627 / 549755813888)"
  by (rule round_double_exact [where m = "-1536237646328627" and e = "-39"])
     (simp_all add: power_int_minus_divide)

lemma rnd_29: "round_double (5404319552844595 / 36028797018963968) = 5404319552844595 / 36028797018963968"
  by (rule round_double_exact [where m = "5404319552844595" and e = "-55"])
     (simp_all add: power_int_minus_divide)

lemma rnd_30: "round_double (11889503016258109 / 36028797018963968) = 2972375754064527 / 9007199254740992"
  by (rule round_double_tieI [where e = "-54" and p = "1 / 18014398509481984" and m = "5944751508129054"])
     (simp_all add: power_int_minus_divide)

lemma rnd_31: "round_double (9547631210025451 / 18014398509481984) = 2386907802506363 / 4503599627370496"
  by (rule round_double_tieI [where e = "-53" and p = "1 / 9007199254740992" and m = "4773815605012725"])
     (simp_all add: power_int_minus_divide)

lemma rnd_32: "round_double (41793404541998205 / 72057594037927936) = 326510972984361 / 562949953421312"
  by (rule round_double_eqI [where e = "-53" and p = "1 / 9007199254740992" and m = "5224175567749776"])
     (simp_all add: power_int_minus_divide)

lemma rnd_33: "round_double (326510972984361 / 562949953421312) = 326510972984361 / 562949953421312"
  by (rule round_double_exact [where m = "326510972984361" and e = "-49"])
     (simp_all add: power_int_minus_divide)

lemma rnd_34: "round_double (236438980436951 / 562949953421312) = 236438980436951 / 562949953421312"
  by (rule round_double_exact [where m = "236438980436951" and e = "-49"])
     (simp_all add: power_int_minus_divide)

lemma rnd_35: "round_double (1970324836974592000 / 236438980436951) = 4581298449066667 / 549755813888"
  by (rule round_double_eqI [where e = "-39" and p = "1 / 549755813888" and m = "4581298449066667"])
     (simp_all add: power_int_minus_divide)

lemma rnd_36: "round_double (13743895347200001 / 137438953472) = 100000"
  by (rule round_double_tieI [where e = "-36" and p = "1 / 68719476736" and m = "6871947673600000"])
     (simp_all add: power_int_minus_divide)

lemma rnd_37: "round_double (4581298449066667 / 131941395333120) = 4886718345671111 / 140737488355328"
  by (rule round_double_eqI [where e = "-47" and p = "1 / 140737488355328" and m = "4886718345671111"])
     (simp_all add: power_int_minus_divide)

lemma rnd_38: "round_double (6755399441055744375 / 2251799813685248) = 3000"
  by (rule round_double_eqI [where e = "-41" and p = "1 / 2199023255552" and m = "6597069766656000"])
     (simp_all add: power_int_minus_divide)

lemma rnd_39: "round_double (16212958658533785 / 18014398509481984) = 2026619832316723 / 2251799813685248"
  by (rule round_double_tieI [where e = "-53" and p = "1 / 9007199254740992" and m = "8106479329266892"])
     (simp_all add: power_int_minus_divide)

lemma rnd_40: "round_double (36028797018963965 / 36028797018963968) = 9007199254740991 / 9007199254740992"
  by (rule round_double_eqI [where e = "-53" and p = "1 / 9007199254740992" and m = "9007199254740991"])
     (simp_all add: power_int_minus_divide)

lemma rnd_41: "round_double (9007199254740991 / 9007199254740992) = 9007199254740991 / 9007199254740992"
  by (rule round_double_exact [where m = "9007199254740991" and e = "-53"])
     (simp_all add: power_int_minus_divide)

lemma rnd_42: "round_double (1 / 9007199254740992) = 1 / 9007199254740992"
  by (rule round_double_exact [where m = "1" and e = "-53"])
     (simp_all add: power_int_minus_divide)

lemma rnd_43: "round_double 31525197391593472000 = 31525197391593472000"
  by (rule round_double_exact [where m = "875" and e = "55"])
     (simp_all add: power_int_minus_divide)

lemma rnd_44: "round_double 378302368699121664000 = 378302368699121664000"
  by (rule round_double_exact [where m = "2625" and e = "57"])
     (simp_all add: power_int_minus_divide)

lemma rnd_45: "round_double (315251973915934720 / 3) = 105083991305311568"
  by (rule round_double_eqI [where e = "4" and p = "16" and m = "6567749456581973"])
     (simp_all add: power_int_minus_divide)

lemma rnd_46: "round_double (1083197534374707636097789212317 / 309485009821345068724781056) = 7696581394431999 / 2199023255552"
  by (rule round_double_eqI [where e = "-41" and p = "1 / 2199023255552" and m = "7696581394431999"])
     (simp_all add: power_int_minus_divide)

lemma rnd_47: "round_double (- (1397699181228851 / 549755813888)) = - (1397699181228851 / 549755813888)"
  by (rule round_double_exact [where m = "-1397699181228851" and e = "-39"])
     (simp_all add: power_int_minus_divide)

lemma rnd_48: "round_double (- (19703248369745917 / 8796093022208)) = - (4925812092436479 / 2199023255552)"
  by (rule round_double_eqI [where e = "-41" and p = "1 / 2199023255552" and m = "-4925812092436479"])
     (simp_all add: power_int_minus_divide)

lemma rnd_49: "round_double (- (4186940278571007 / 2199023255552)) = - (4186940278571007 / 2199023255552)"
  by (rule round_double_exact [where m = "-4186940278571007" and e = "-41"])
     (simp_all add: power_int_minus_divide)

lemma rnd_50: "round_double (- (4002222325104639 / 2199023255552)) = - (4002222325104639 / 2199023255552)"
  by (rule round_double_exact [where m = "-4002222325104639" and e = "-41"])
     (simp_all add: power_int_minus_divide)

lemma rnd_51: "round_double (3694359069327361 / 2199023255552) = 3694359069327361 / 2199023255552"
  by (rule round_double_exact [where m = "3694359069327361" and e = "-41"])
     (simp_all add: power_int_minus_divide)

lemma rnd_52: "round_double (- (16008889300418557 / 8796093022208)) = - (4002222325104639 / 2199023255552)"
  by (rule round_double_tieI [where e = "-42" and p = "1 / 4398046511104" and m = "-8004444650209279"])
     (simp_all add: power_int_minus_divide)

lemmas roundings = rnd_1 rnd_2 rnd_3 rnd_4 rnd_5 rnd_6 rnd_7 rnd_8 rnd_9 rnd_10 rnd_11
  rnd_12 rnd_13 rnd_14 rnd_15 rnd_16 rnd_17 rnd_18 rnd_19 rnd_20 rnd_21 rnd_22 rnd_23 rnd_24
  rnd_25 rnd_26 rnd_27 rnd_28 rnd_29 rnd_30 rnd_31 rnd_32 rnd_33 rnd_34 rnd_35 rnd_36 rnd_37
  rnd_38 rnd_39 rnd_40 rnd_41 rnd_42 rnd_43 rnd_44 rnd_45 rnd_46 rnd_47 rnd_48 rnd_49 rnd_50
  rnd_51 rnd_52

(* prod 7696581394431999 / 2199023255552 s6 3694359069327361 / 2199023255552 t2 3694359069327361 / 2199023255552 *)

section \<open>The scenarios, evaluated in binary64\<close>

lemma double_revenue:
  "orders_day (calculate_financials_fl round_double (add_sum round_double) scenario_double)
     = 100"
  "revenue_day (calculate_financials_fl round_double (add_sum round_double) scenario_double)
     = 1000"
  "revenue_month (calculate_financials_fl round_double (add_sum round_double) scenario_double)
     = 30000"
  by (simp_all add: cfl_orders_day cfl_revenue_day cfl_revenue_month add_sum_def
      scenario_double_def scenario_args_def scenario_daypart_def)

lemma double_costs:
  "cogs_month (calculate_financials_fl round_double (add_sum round_double) scenario_double)
     = 9000"
  "labor_month (calculate_financials_fl round_double (add_sum round_double) scenario_double)
     = 9000"
  "opex_month (calculate_financials_fl round_double (add_sum round_double) scenario_double)
     = 3600"
  "marketing_month (calculate_financials_fl round_double (add_sum round_double) scenario_double)
     = 900"
  "fee_month (calculate_financials_fl round_double (add_sum round_double) scenario_double) = 0"
  "occupancy_month (calculate_financials_fl round_double (add_sum round_double) scenario_double)
     = 3500"
  by (simp_all add: cfl_cogs_month cfl_labor_month cfl_opex_month cfl_marketing_month
      cfl_fee_month cfl_occupancy_month double_revenue cost_amount_fl_def)
     (simp_all add: scenario_double_def scenario_args_def scenario_daypart_def mode_evals
      roundings)

lemma double_ebitda:
  "ebitda_month (calculate_financials_fl round_double (add_sum round_double) scenario_double)
     = 4000"
  by (simp add: cfl_ebitda_month double_revenue double_costs roundings)

lemma double_break_even:
  "contribution_margin (calculate_financials_fl round_double (add_sum round_double) scenario_double)
     = 1 / 4"
  "fixed_costs_month (calculate_financials_fl round_double (add_sum round_double) scenario_double)
     = 3500"
  "break_even_revenue_month (calculate_financials_fl round_double (add_sum round_double) scenario_double)
     = Some 14000"
  "break_even_revenue_annual (calculate_financials_fl round_double (add_sum round_double) scenario_double)
     = Some 168000"
proof -
  show cm: "contribution_margin (calculate_financials_fl round_double (add_sum round_double) scenario_double)
      = 1 / 4"
    by (simp add: cfl_contribution_margin_sum cost_lines_def variable_pcts_def be_variable_def)
       (simp add: scenario_double_def scenario_args_def scenario_daypart_def mode_evals
        add_sum_def roundings)
  show fc: "fixed_costs_month (calculate_financials_fl round_double (add_sum round_double) scenario_double)
      = 3500"
    by (simp add: cfl_fixed_costs_month_sum cfl_occupancy_month cost_lines_def fixed_eurs_def
        be_variable_def)
       (simp add: scenario_double_def scenario_args_def scenario_daypart_def mode_evals
        add_sum_def roundings)
  show bm: "break_even_revenue_month (calculate_financials_fl round_double (add_sum round_double) scenario_double)
      = Some 14000"
    by (simp add: cfl_break_even_revenue_month cm fc roundings)
  show "break_even_revenue_annual (calculate_financials_fl round_double (add_sum round_double) scenario_double)
      = Some 168000"
    by (simp add: cfl_break_even_revenue_annual cm fc bm roundings)
qed

lemma double_no_segments_revenue:
  "orders_day (calculate_financials_fl round_double (add_sum round_double) scenario_double_no_segments)
     = 0"
  "revenue_day (calculate_financials_fl round_double (add_sum round_double) scenario_double_no_segments)
     = 0"
  "revenue_month (calculate_financials_fl round_double (add_sum round_double) scenario_double_no_segments)
     = 0"
  by (simp_all add: cfl_orders_day cfl_revenue_day cfl_revenue_month add_sum_def
      scenario_double_no_segments_def scenario_double_def scenario_args_def)

lemma double_no_segments_break_even:
  "contribution_margin (calculate_financials_fl round_double (add_sum round_double) scenario_double_no_segments)
     = 1 / 4"
  "fixed_costs_month (calculate_financials_fl round_double (add_sum round_double) scenario_double_no_segments)
     = 3500"
  "break_even_revenue_month (calculate_financials_fl round_double (add_sum round_double) scenario_double_no_segments)
     = Some 14000"
  "break_even_revenue_annual (calculate_financials_fl round_double (add_sum round_double) scenario_double_no_segments)
     = Some 168000"
proof -
  show cm: "contribution_margin (calculate_financials_fl round_double (add_sum round_double) scenario_double_no_segments)
      = 1 / 4"
    by (simp add: cfl_contribution_margin_sum cost_lines_def variable_pcts_def be_variable_def)
       (simp add: scenario_double_no_segments_def scenario_double_def scenario_args_def mode_evals
        add_sum_def roundings)
  show fc: "fixed_costs_month (calculate_financials_fl round_double (add_sum round_double) scenario_double_no_segments)
      = 3500"
    by (simp add: cfl_fixed_costs_month_sum cfl_occupancy_month cost_lines_def fixed_eurs_def
        be_variable_def)
       (simp add: scenario_double_no_segments_def scenario_double_def scenario_args_def mode_evals
        add_sum_def roundings)
  show bm: "break_even_revenue_month (calculate_financials_fl round_double (add_sum round_double) scenario_double_no_segments)
      = Some 14000"
    by (simp add: cfl_break_even_revenue_month cm fc roundings)
  show "break_even_revenue_annual (calculate_financials_fl round_double (add_sum round_double) scenario_double_no_segments)
      = Some 168000"
    by (simp add: cfl_break_even_revenue_annual cm fc bm roundings)
qed

lemma double_no_fixed_break_even:
  "contribution_margin (calculate_financials_fl round_double (add_sum round_double) scenario_double_no_fixed)
     = 1 / 4"
  "fixed_costs_month (calculate_financials_fl round_double (add_sum round_double) scenario_double_no_fixed)
     = 0"
  "break_even_revenue_month (calculate_financials_fl round_double (add_sum round_double) scenario_double_no_fixed)
     = None"
  "break_even_revenue_annual (calculate_financials_fl round_double (add_sum round_double) scenario_double_no_fixed)
     = None"
proof -
  show cm: "contribution_margin (calculate_financials_fl round_double (add_sum round_double) scenario_double_no_fixed)
      = 1 / 4"
    by (simp add: cfl_contribution_margin_sum cost_lines_def variable_pcts_def be_variable_def)
       (simp add: scenario_double_no_fixed_def scenario_double_def scenario_args_def
      scenario_daypart_def mode_evals
        add_sum_def roundings)
  show fc: "fixed_costs_month (calculate_financials_fl round_double (add_sum round_double) scenario_double_no_fixed)
      = 0"
    by (simp add: cfl_fixed_costs_month_sum cfl_occupancy_month cost_lines_def fixed_eurs_def
        be_variable_def)
       (simp add: scenario_double_no_fixed_def scenario_double_def scenario_args_def
      scenario_daypart_def mode_evals
        add_sum_def roundings)
  show bm: "break_even_revenue_month (calculate_financials_fl round_double (add_sum round_double) scenario_double_no_fixed)
      = None"
    by (simp add: cfl_break_even_revenue_month cm fc roundings)
  show "break_even_revenue_annual (calculate_financials_fl round_double (add_sum round_double) scenario_double_no_fixed)
      = None"
    by (simp add: cfl_break_even_revenue_annual cm fc bm roundings)
qed

lemma small_revenue:
  "orders_day (calculate_financials_fl round_double (add_sum round_double) scenario_small) = 7"
  "revenue_day (calculate_financials_fl round_double (add_sum round_double) scenario_small)
     = 56"
  "revenue_month (calculate_financials_fl round_double (add_sum round_double) scenario_small)
     = 1680"
  by (simp_all add: cfl_orders_day cfl_revenue_day cfl_revenue_month add_sum_def
      scenario_small_def scenario_args_def small_daypart_def)

lemma small_costs:
  "cogs_month (calculate_financials_fl round_double (add_sum round_double) scenario_small)
     = 252"
  "labor_month (calculate_financials_fl round_double (add_sum round_double) scenario_small)
     = 2659938529915699 / 8796093022208"
  "opex_month (calculate_financials_fl round_double (add_sum round_double) scenario_small)
     = 336"
  "marketing_month (calculate_financials_fl round_double (add_sum round_double) scenario_small)
     = 84"
  "fee_month (calculate_financials_fl round_double (add_sum round_double) scenario_small) = 0"
  "occupancy_month (calculate_financials_fl round_double (add_sum round_double) scenario_small)
     = 3500"
  by (simp_all add: cfl_cogs_month cfl_labor_month cfl_opex_month cfl_marketing_month
      cfl_fee_month cfl_occupancy_month small_revenue cost_amount_fl_def)
     (simp_all add: scenario_small_def scenario_args_def small_daypart_def mode_evals
      roundings)

lemma small_ebitda:
  "ebitda_month (calculate_financials_fl round_double (add_sum round_double) scenario_small)
     = - (1536237646328627 / 549755813888)"
  by (simp add: cfl_ebitda_month small_revenue small_costs roundings)

lemma small_break_even:
  "contribution_margin (calculate_financials_fl round_double (add_sum round_double) scenario_small)
     = 236438980436951 / 562949953421312"
  "fixed_costs_month (calculate_financials_fl round_double (add_sum round_double) scenario_small)
     = 3500"
  "break_even_revenue_month (calculate_financials_fl round_double (add_sum round_double) scenario_small)
     = Some (4581298449066667 / 549755813888)"
  "break_even_revenue_annual (calculate_financials_fl round_double (add_sum round_double) scenario_small)
     = Some 100000"
proof -
  show cm: "contribution_margin (calculate_financials_fl round_double (add_sum round_double) scenario_small)
      = 236438980436951 / 562949953421312"
    by (simp add: cfl_contribution_margin_sum cost_lines_def variable_pcts_def be_variable_def)
       (simp add: scenario_small_def scenario_args_def small_daypart_def mode_evals
        add_sum_def roundings)
  show fc: "fixed_costs_month (calculate_financials_fl round_double (add_sum round_double) scenario_small)
      = 3500"
    by (simp add: cfl_fixed_costs_month_sum cfl_occupancy_month cost_lines_def fixed_eurs_def
        be_variable_def)
       (simp add: scenario_small_def scenario_args_def small_daypart_def mode_evals
        add_sum_def roundings)
  show bm: "break_even_revenue_month (calculate_financials_fl round_double (add_sum round_double) scenario_small)
      = Some (4581298449066667 / 549755813888)"
    by (simp add: cfl_break_even_revenue_month cm fc roundings)
  show "break_even_revenue_annual (calculate_financials_fl round_double (add_sum round_double) scenario_small)
      = Some 100000"
    by (simp add: cfl_break_even_revenue_annual cm fc bm roundings)
qed

lemma all_variable_break_even:
  "contribution_margin (calculate_financials_fl round_double (add_sum round_double) scenario_all_variable)
     = 1 / 9007199254740992"
  "fixed_costs_month (calculate_financials_fl round_double (add_sum round_double) scenario_all_variable)
     = 3500"
  "break_even_revenue_month (calculate_financials_fl round_double (add_sum round_double) scenario_all_variable)
     = Some 31525197391593472000"
  "break_even_revenue_annual (calculate_financials_fl round_double (add_sum round_double) scenario_all_variable)
     = Some 378302368699121664000"
proof -
  show cm: "contribution_margin (calculate_financials_fl round_double (add_sum round_double) scenario_all_variable)
      = 1 / 9007199254740992"
    by (simp add: cfl_contribution_margin_sum cost_lines_def variable_pcts_def be_variable_def)
       (simp add: scenario_all_variable_def scenario_args_def scenario_daypart_def mode_evals
        add_sum_def roundings)
  show fc: "fixed_costs_month (calculate_financials_fl round_double (add_sum round_double) scenario_all_variable)
      = 3500"
    by (simp add: cfl_fixed_costs_month_sum cfl_occupancy_month cost_lines_def fixed_eurs_def
        be_variable_def)
       (simp add: scenario_all_variable_def scenario_args_def scenario_daypart_def mode_evals
        add_sum_def roundings)
  show bm: "break_even_revenue_month (calculate_financials_fl round_double (add_sum round_double) scenario_all_variable)
      = Some 31525197391593472000"
    by (simp add: cfl_break_even_revenue_month cm fc roundings)
  show "break_even_revenue_annual (calculate_financials_fl round_double (add_sum round_double) scenario_all_variable)
      = Some 378302368699121664000"
    by (simp add: cfl_break_even_revenue_annual cm fc bm roundings)
qed

lemma standard_model_nonneg: "standard_model rd u \<Longrightarrow> 0 \<le> u"
  unfolding standard_model_def
  by (metis abs_ge_zero abs_one mult.right_neutral order_trans)

lemma add_sum_exact: "add_sum (\<lambda>x. x) xs = sum_list xs"
proof -
  have "foldl (\<lambda>s x. s + x) s xs = s + sum_list xs" for s :: real
    by (induction xs arbitrary: s) simp_all
  then show ?thesis by (simp add: add_sum_def)
qed

lemma add_sum_standard_model_exact:
  assumes "standard_model rd 0"
  shows "add_sum rd xs = sum_list xs"
proof -
  have "rd = (\<lambda>x. x)" using standard_model_exact [OF assms] by auto
  then show ?thesis by (simp add: add_sum_exact)
qed

lemma rounded_product_bound:
  fixes fc u y :: real
  assumes "standard_model rd u" "\<bar>y - fc\<bar> \<le> u * fc" "0 < fc"
  shows "\<bar>rd y - fc\<bar> \<le> (2 * u + u\<^sup>2) * fc"
proof -
  have u: "0 \<le> u" by (rule standard_model_nonneg [OF assms(1)])
  have "\<bar>y\<bar> \<le> fc + u * fc" using assms(2,3) by linarith
  then have "u * \<bar>y\<bar> \<le> u * (fc + u * fc)" using u by (rule mult_left_mono)
  moreover have "\<bar>rd y - y\<bar> \<le> u * \<bar>y\<bar>" by (rule standard_model_error [OF assms(1)])
  ultimately have "\<bar>rd y - fc\<bar> \<le> u * (fc + u * fc) + u * fc"
    using assms(2) by linarith
  also have "\<dots> = (2 * u + u\<^sup>2) * fc" by (simp add: algebra_simps power2_eq_square)
  finally show ?thesis .
qed

text \<open>
  Claim C1 (as amended). The contribution margin is the rounded difference of one and the
  sum, added up from left to right with a rounding per addition, of the percent values of
  the percent-mode lines; the monthly fixed costs are the rounded sum of the occupancy and
  of the fixed monthly values of the other lines, added up the same way; the variable rate
  that is reported is the rounded difference of one and the contribution margin. The
  monthly and annual break-even revenue and the break-even curve are defined exactly when
  the contribution margin and the monthly fixed costs, as computed, are both positive; the
  break-even orders per day are defined exactly when, in addition, the orders per day, the
  blended ticket and the open days per month are positive. When defined, the monthly
  break-even revenue is the rounded quotient of the fixed costs by the contribution margin
  and the annual one is the rounded product of the monthly one by twelve. Under the
  standard model with unit roundoff \<open>u\<close>, the monthly break-even revenue times the
  contribution margin is the monthly fixed costs up to the relative error \<open>u\<close>, and up
  to \<open>2 u + u\<^sup>2\<close> when the product is rounded as well; the annual value is twelve times the
  monthly one up to the relative error \<open>u\<close>; and both are positive when \<open>u < 1\<close>. In exact
  arithmetic (\<open>u = 0\<close>) the sums are the exact sums and the two equations hold exactly.
  When the contribution margin and the fixed costs are not both positive, all four outputs
  are \<open>None\<close>.
\<close>

theorem C1_break_even_defined:
  fixes rd :: "real \<Rightarrow> real" and su :: "real list \<Rightarrow> real" and a :: financial_args
    and u :: real
  defines "r \<equiv> calculate_financials_fl rd su a"
  shows
  "contribution_margin r = rd (1 - add_sum rd (variable_pcts (cost_lines a)))
   \<and> fixed_costs_month r
       = rd (occupancy_month r + add_sum rd (fixed_eurs (cost_lines a)))
   \<and> occupancy_month r = rd (rent_fixed_month a + service_charges_month a)
   \<and> variable_rate r = Some (rd (1 - contribution_margin r))
   \<and> (break_even_revenue_month r \<noteq> None
        \<longleftrightarrow> contribution_margin r > 0 \<and> fixed_costs_month r > 0)
   \<and> (break_even_revenue_annual r \<noteq> None
        \<longleftrightarrow> contribution_margin r > 0 \<and> fixed_costs_month r > 0)
   \<and> (break_even_curve r \<noteq> None
        \<longleftrightarrow> contribution_margin r > 0 \<and> fixed_costs_month r > 0)
   \<and> (break_even_orders_day r \<noteq> None
        \<longleftrightarrow> contribution_margin r > 0 \<and> fixed_costs_month r > 0
            \<and> orders_day r > 0 \<and> rd (revenue_day r / orders_day r) > 0
            \<and> open_days_per_month a > 0)
   \<and> (contribution_margin r > 0 \<and> fixed_costs_month r > 0 \<longrightarrow>
        break_even_revenue_month r = Some (rd (fixed_costs_month r / contribution_margin r))
        \<and> break_even_revenue_annual r
            = Some (rd (rd (fixed_costs_month r / contribution_margin r) * 12)))
   \<and> (standard_model rd u \<and> contribution_margin r > 0 \<and> fixed_costs_month r > 0 \<longrightarrow>
        \<bar>the (break_even_revenue_month r) * contribution_margin r - fixed_costs_month r\<bar>
          \<le> u * fixed_costs_month r
        \<and> \<bar>rd (the (break_even_revenue_month r) * contribution_margin r)
             - fixed_costs_month r\<bar>
          \<le> (2 * u + u\<^sup>2) * fixed_costs_month r
        \<and> \<bar>the (break_even_revenue_annual r) - the (break_even_revenue_month r) * 12\<bar>
          \<le> u * \<bar>the (break_even_revenue_month r) * 12\<bar>
        \<and> (u < 1 \<longrightarrow>
              the (break_even_revenue_month r) > 0 \<and> the (break_even_revenue_annual r) > 0))
   \<and> (standard_model rd 0 \<longrightarrow>
        contribution_margin r = 1 - sum_list (variable_pcts (cost_lines a))
        \<and> fixed_costs_month r
            = rent_fixed_month a + service_charges_month a
                + sum_list (fixed_eurs (cost_lines a))
        \<and> (contribution_margin r > 0 \<and> fixed_costs_month r > 0 \<longrightarrow>
              the (break_even_revenue_month r) * contribution_margin r = fixed_costs_month r
              \<and> the (break_even_revenue_annual r) = the (break_even_revenue_month r) * 12))
   \<and> (\<not> (contribution_margin r > 0 \<and> fixed_costs_month r > 0) \<longrightarrow>
        break_even_revenue_month r = None \<and> break_even_revenue_annual r = None
        \<and> break_even_orders_day r = None \<and> break_even_curve r = None)"
proof -
  let ?cm = "contribution_margin r" and ?fc = "fixed_costs_month r"
  have 1: "?cm = rd (1 - add_sum rd (variable_pcts (cost_lines a)))"
    unfolding r_def by (rule cfl_contribution_margin_sum)
  have 2: "?fc = rd (occupancy_month r + add_sum rd (fixed_eurs (cost_lines a)))"
    unfolding r_def by (rule cfl_fixed_costs_month_sum)
  have 3: "occupancy_month r = rd (rent_fixed_month a + service_charges_month a)"
    unfolding r_def by (rule cfl_occupancy_month)
  have 4: "variable_rate r = Some (rd (1 - ?cm))"
    unfolding r_def by (simp add: cfl_variable_rate)
  have 5: "break_even_revenue_month r \<noteq> None \<longleftrightarrow> ?cm > 0 \<and> ?fc > 0"
    unfolding r_def by (simp add: cfl_break_even_revenue_month)
  have 6: "break_even_revenue_annual r \<noteq> None \<longleftrightarrow> ?cm > 0 \<and> ?fc > 0"
    unfolding r_def by (simp add: cfl_break_even_revenue_annual)
  have 7: "break_even_curve r \<noteq> None \<longleftrightarrow> ?cm > 0 \<and> ?fc > 0"
    unfolding r_def by (rule cfl_break_even_curve_defined)
  have 8: "break_even_orders_day r \<noteq> None
        \<longleftrightarrow> ?cm > 0 \<and> ?fc > 0
            \<and> orders_day r > 0 \<and> rd (revenue_day r / orders_day r) > 0
            \<and> open_days_per_month a > 0"
    unfolding r_def by (rule cfl_break_even_orders_day_defined)
  have 9: "?cm > 0 \<and> ?fc > 0 \<longrightarrow>
        break_even_revenue_month r = Some (rd (?fc / ?cm))
        \<and> break_even_revenue_annual r = Some (rd (rd (?fc / ?cm) * 12))"
    unfolding r_def
    by (simp add: cfl_break_even_revenue_month cfl_break_even_revenue_annual)
  have 10: "standard_model rd u \<and> ?cm > 0 \<and> ?fc > 0 \<longrightarrow>
        \<bar>the (break_even_revenue_month r) * ?cm - ?fc\<bar> \<le> u * ?fc
        \<and> \<bar>rd (the (break_even_revenue_month r) * ?cm) - ?fc\<bar> \<le> (2 * u + u\<^sup>2) * ?fc
        \<and> \<bar>the (break_even_revenue_annual r) - the (break_even_revenue_month r) * 12\<bar>
          \<le> u * \<bar>the (break_even_revenue_month r) * 12\<bar>
        \<and> (u < 1 \<longrightarrow>
              the (break_even_revenue_month r) > 0 \<and> the (break_even_revenue_annual r) > 0)"
  proof (intro impI)
    assume h: "standard_model rd u \<and> ?cm > 0 \<and> ?fc > 0"
    then have sm: "standard_model rd u" and cm: "?cm > 0" and fc: "?fc > 0" by blast+
    define b where "b = rd (?fc / ?cm)"
    have bm: "the (break_even_revenue_month r) = b"
      and ba: "the (break_even_revenue_annual r) = rd (b * 12)"
      using 9 cm fc by (simp_all add: b_def)
    have e1: "\<bar>b - ?fc / ?cm\<bar> \<le> u * \<bar>?fc / ?cm\<bar>"
      unfolding b_def by (rule standard_model_error [OF sm])
    have p1: "\<bar>b * ?cm - ?fc\<bar> \<le> u * ?fc"
      by (rule quotient_times_divisor [OF e1 cm fc])
    have p2: "\<bar>rd (b * ?cm) - ?fc\<bar> \<le> (2 * u + u\<^sup>2) * ?fc"
      by (rule rounded_product_bound [OF sm p1 fc])
    have p3: "\<bar>rd (b * 12) - b * 12\<bar> \<le> u * \<bar>b * 12\<bar>"
      by (rule standard_model_error [OF sm])
    have p4: "u < 1 \<longrightarrow> b > 0 \<and> rd (b * 12) > 0"
    proof
      assume u1: "u < 1"
      have "0 < ?fc / ?cm" using cm fc by simp
      then have "0 < b" unfolding b_def by (rule standard_model_pos [OF sm u1])
      moreover from this have "0 < rd (b * 12)"
        by (intro standard_model_pos [OF sm u1]) simp
      ultimately show "b > 0 \<and> rd (b * 12) > 0" by blast
    qed
    from p1 p2 p3 p4 show "\<bar>the (break_even_revenue_month r) * ?cm - ?fc\<bar> \<le> u * ?fc
        \<and> \<bar>rd (the (break_even_revenue_month r) * ?cm) - ?fc\<bar> \<le> (2 * u + u\<^sup>2) * ?fc
        \<and> \<bar>the (break_even_revenue_annual r) - the (break_even_revenue_month r) * 12\<bar>
          \<le> u * \<bar>the (break_even_revenue_month r) * 12\<bar>
        \<and> (u < 1 \<longrightarrow>
              the (break_even_revenue_month r) > 0 \<and> the (break_even_revenue_annual r) > 0)"
      unfolding bm ba by blast
  qed
  have 11: "standard_model rd 0 \<longrightarrow>
        ?cm = 1 - sum_list (variable_pcts (cost_lines a))
        \<and> ?fc = rent_fixed_month a + service_charges_month a
                + sum_list (fixed_eurs (cost_lines a))
        \<and> (?cm > 0 \<and> ?fc > 0 \<longrightarrow>
              the (break_even_revenue_month r) * ?cm = ?fc
              \<and> the (break_even_revenue_annual r) = the (break_even_revenue_month r) * 12)"
  proof
    assume sm: "standard_model rd 0"
    note ex = standard_model_exact [OF sm] add_sum_standard_model_exact [OF sm]
    have a: "?cm = 1 - sum_list (variable_pcts (cost_lines a))"
      using 1 by (simp add: ex)
    have b: "?fc = rent_fixed_month a + service_charges_month a
                + sum_list (fixed_eurs (cost_lines a))"
      using 2 3 by (simp add: ex)
    have c: "?cm > 0 \<and> ?fc > 0 \<longrightarrow>
              the (break_even_revenue_month r) * ?cm = ?fc
              \<and> the (break_even_revenue_annual r) = the (break_even_revenue_month r) * 12"
      using 9 by (auto simp add: ex)
    from a b c show "?cm = 1 - sum_list (variable_pcts (cost_lines a))
        \<and> ?fc = rent_fixed_month a + service_charges_month a
                + sum_list (fixed_eurs (cost_lines a))
        \<and> (?cm > 0 \<and> ?fc > 0 \<longrightarrow>
              the (break_even_revenue_month r) * ?cm = ?fc
              \<and> the (break_even_revenue_annual r) = the (break_even_revenue_month r) * 12)"
      by blast
  qed
  have 12: "\<not> (?cm > 0 \<and> ?fc > 0) \<longrightarrow>
        break_even_revenue_month r = None \<and> break_even_revenue_annual r = None
        \<and> break_even_orders_day r = None \<and> break_even_curve r = None"
    using 5 6 7 8 by blast
  from 1 2 3 4 5 6 7 8 9 10 11 12 show ?thesis by blast
qed

section \<open>The break-even solver on the scenarios\<close>

lemma standard_model_identity: "standard_model (\<lambda>x. x) 0"
  by (simp add: standard_model_def)

lemma unit_roundoff_less_one: "unit_roundoff < 1"
  by (simp add: unit_roundoff_def)

lemma scenario_lines_exact:
  "sum_list (variable_pcts (cost_lines scenario_args)) = 3 / 4"
  "sum_list (fixed_eurs (cost_lines scenario_args)) = 0"
  "rent_fixed_month scenario_args + service_charges_month scenario_args = 3500"
  by (simp_all add: cost_lines_def variable_pcts_def fixed_eurs_def be_variable_def)
     (simp_all add: scenario_args_def mode_evals)

theorem C1_break_even_defined_witness:
  "standard_model round_double unit_roundoff
   \<and> contribution_margin
        (calculate_financials_fl round_double (add_sum round_double) scenario_double) = 1 / 4
   \<and> fixed_costs_month
        (calculate_financials_fl round_double (add_sum round_double) scenario_double) = 3500
   \<and> break_even_revenue_month
        (calculate_financials_fl round_double (add_sum round_double) scenario_double)
       = Some 14000
   \<and> break_even_revenue_annual
        (calculate_financials_fl round_double (add_sum round_double) scenario_double)
       = Some 168000
   \<and> break_even_orders_day
        (calculate_financials_fl round_double (add_sum round_double) scenario_double) \<noteq> None
   \<and> break_even_curve
        (calculate_financials_fl round_double (add_sum round_double) scenario_double) \<noteq> None
   \<and> \<bar>the (break_even_revenue_month
          (calculate_financials_fl round_double (add_sum round_double) scenario_small))
        * contribution_margin
            (calculate_financials_fl round_double (add_sum round_double) scenario_small)
        - 3500\<bar> \<le> unit_roundoff * 3500
   \<and> the (break_even_revenue_month
          (calculate_financials_fl round_double (add_sum round_double) scenario_small)) > 0
   \<and> fixed_costs_month
        (calculate_financials_fl round_double (add_sum round_double) scenario_double_no_fixed)
       = 0
   \<and> break_even_revenue_month
        (calculate_financials_fl round_double (add_sum round_double) scenario_double_no_fixed)
       = None
   \<and> break_even_revenue_annual
        (calculate_financials_fl round_double (add_sum round_double) scenario_double_no_fixed)
       = None
   \<and> break_even_orders_day
        (calculate_financials_fl round_double (add_sum round_double) scenario_double_no_fixed)
       = None
   \<and> break_even_curve
        (calculate_financials_fl round_double (add_sum round_double) scenario_double_no_fixed)
       = None
   \<and> contribution_margin (calculate_financials_fl (\<lambda>x. x) sum_list scenario_args) = 1 / 4
   \<and> fixed_costs_month (calculate_financials_fl (\<lambda>x. x) sum_list scenario_args) = 3500
   \<and> the (break_even_revenue_month (calculate_financials_fl (\<lambda>x. x) sum_list scenario_args))
        * (1 / 4) = 3500"
proof -
  note sm = standard_model_round_double
  note t = C1_break_even_defined [where rd = round_double and su = "add_sum round_double"
      and a = scenario_double and u = unit_roundoff]
  note s = C1_break_even_defined [where rd = round_double and su = "add_sum round_double"
      and a = scenario_small and u = unit_roundoff]
  note n = C1_break_even_defined [where rd = round_double and su = "add_sum round_double"
      and a = scenario_double_no_fixed and u = unit_roundoff]
  note x = C1_break_even_defined [where rd = "\<lambda>x. x" and su = sum_list
      and a = scenario_args and u = 0]
  have od: "open_days_per_month scenario_double > 0"
    by (simp add: scenario_double_def scenario_args_def)
  have pos: "contribution_margin
        (calculate_financials_fl round_double (add_sum round_double) scenario_double) > 0"
    "fixed_costs_month
        (calculate_financials_fl round_double (add_sum round_double) scenario_double) > 0"
    "orders_day
        (calculate_financials_fl round_double (add_sum round_double) scenario_double) > 0"
    "round_double
       (revenue_day
          (calculate_financials_fl round_double (add_sum round_double) scenario_double)
        / orders_day
            (calculate_financials_fl round_double (add_sum round_double) scenario_double))
      > 0"
    by (simp_all add: double_break_even double_revenue)
  from t od pos have d: "break_even_orders_day
        (calculate_financials_fl round_double (add_sum round_double) scenario_double) \<noteq> None"
    "break_even_curve
        (calculate_financials_fl round_double (add_sum round_double) scenario_double) \<noteq> None"
    by blast+
  have spos: "contribution_margin
        (calculate_financials_fl round_double (add_sum round_double) scenario_small) > 0"
    "fixed_costs_month
        (calculate_financials_fl round_double (add_sum round_double) scenario_small) > 0"
    by (simp_all add: small_break_even)
  from s sm spos unit_roundoff_less_one have
    "\<bar>the (break_even_revenue_month
          (calculate_financials_fl round_double (add_sum round_double) scenario_small))
        * contribution_margin
            (calculate_financials_fl round_double (add_sum round_double) scenario_small)
        - fixed_costs_month
            (calculate_financials_fl round_double (add_sum round_double) scenario_small)\<bar>
      \<le> unit_roundoff
          * fixed_costs_month
              (calculate_financials_fl round_double (add_sum round_double) scenario_small)"
    "the (break_even_revenue_month
          (calculate_financials_fl round_double (add_sum round_double) scenario_small)) > 0"
    by blast+
  then have e: "\<bar>the (break_even_revenue_month
          (calculate_financials_fl round_double (add_sum round_double) scenario_small))
        * contribution_margin
            (calculate_financials_fl round_double (add_sum round_double) scenario_small)
        - 3500\<bar> \<le> unit_roundoff * 3500"
    "the (break_even_revenue_month
          (calculate_financials_fl round_double (add_sum round_double) scenario_small)) > 0"
    by (simp_all only: small_break_even(2))
  have "\<not> (contribution_margin
        (calculate_financials_fl round_double (add_sum round_double) scenario_double_no_fixed)
          > 0
      \<and> fixed_costs_month
        (calculate_financials_fl round_double (add_sum round_double) scenario_double_no_fixed)
          > 0)"
    by (simp add: double_no_fixed_break_even)
  with n have f: "break_even_revenue_month
        (calculate_financials_fl round_double (add_sum round_double) scenario_double_no_fixed)
       = None"
    "break_even_revenue_annual
        (calculate_financials_fl round_double (add_sum round_double) scenario_double_no_fixed)
       = None"
    "break_even_orders_day
        (calculate_financials_fl round_double (add_sum round_double) scenario_double_no_fixed)
       = None"
    "break_even_curve
        (calculate_financials_fl round_double (add_sum round_double) scenario_double_no_fixed)
       = None"
    by blast+
  from x standard_model_identity have
    xc: "contribution_margin (calculate_financials_fl (\<lambda>x. x) sum_list scenario_args)
        = 1 - sum_list (variable_pcts (cost_lines scenario_args))"
    and xf: "fixed_costs_month (calculate_financials_fl (\<lambda>x. x) sum_list scenario_args)
        = rent_fixed_month scenario_args + service_charges_month scenario_args
            + sum_list (fixed_eurs (cost_lines scenario_args))"
    by blast+
  have g: "contribution_margin (calculate_financials_fl (\<lambda>x. x) sum_list scenario_args) = 1 / 4"
    "fixed_costs_month (calculate_financials_fl (\<lambda>x. x) sum_list scenario_args) = 3500"
    by (simp_all add: xc xf scenario_lines_exact)
  then have "contribution_margin (calculate_financials_fl (\<lambda>x. x) sum_list scenario_args) > 0
      \<and> fixed_costs_month (calculate_financials_fl (\<lambda>x. x) sum_list scenario_args) > 0"
    by simp
  with x standard_model_identity have
    "the (break_even_revenue_month (calculate_financials_fl (\<lambda>x. x) sum_list scenario_args))
        * contribution_margin (calculate_financials_fl (\<lambda>x. x) sum_list scenario_args)
      = fixed_costs_month (calculate_financials_fl (\<lambda>x. x) sum_list scenario_args)"
    by blast
  then have h: "the (break_even_revenue_month
          (calculate_financials_fl (\<lambda>x. x) sum_list scenario_args)) * (1 / 4) = 3500"
    by (simp only: g)
  from sm d e f g h show ?thesis
    by (simp add: double_break_even double_no_fixed_break_even)
qed

lemma all_variable_decimal_exact:
  "1 - sum_list (variable_pcts (cost_lines scenario_all_variable_decimal)) = 0"
  "break_even_revenue_month (calculate_financials scenario_all_variable_decimal) = None"
proof -
  show 1: "1 - sum_list (variable_pcts (cost_lines scenario_all_variable_decimal)) = 0"
    by (simp add: cost_lines_def variable_pcts_def be_variable_def)
       (simp add: scenario_all_variable_decimal_def scenario_args_def mode_evals)
  have "contribution_margin (calculate_financials scenario_all_variable_decimal) = 0"
    by (simp add: cf_contribution_margin_sum cost_lines_def variable_pct_sum_def
        be_variable_def)
       (simp add: scenario_all_variable_decimal_def scenario_args_def mode_evals)
  then show "break_even_revenue_month (calculate_financials scenario_all_variable_decimal)
      = None"
    by (simp add: cf_break_even_revenue_month)
qed

theorem C1_break_even_counterexample:
  "contribution_margin
      (calculate_financials_fl round_double (add_sum round_double) scenario_double_no_segments)
     = 1 / 4
   \<and> fixed_costs_month
      (calculate_financials_fl round_double (add_sum round_double) scenario_double_no_segments)
     = 3500
   \<and> break_even_orders_day
      (calculate_financials_fl round_double (add_sum round_double) scenario_double_no_segments)
     = None
   \<and> break_even_revenue_month
      (calculate_financials_fl round_double (add_sum round_double) scenario_small)
     = Some (4581298449066667 / 549755813888)
   \<and> contribution_margin
      (calculate_financials_fl round_double (add_sum round_double) scenario_small)
     = 236438980436951 / 562949953421312
   \<and> fixed_costs_month
      (calculate_financials_fl round_double (add_sum round_double) scenario_small) = 3500
   \<and> 4581298449066667 / 549755813888 * (236438980436951 / 562949953421312) \<noteq> (3500::real)
   \<and> round_double (4581298449066667 / 549755813888 * (236438980436951 / 562949953421312))
       = 7696581394431999 / 2199023255552
   \<and> 7696581394431999 / 2199023255552 \<noteq> (3500::real)
   \<and> 1 - sum_list (variable_pcts (cost_lines scenario_all_variable_decimal)) = 0
   \<and> break_even_revenue_month (calculate_financials scenario_all_variable_decimal) = None
   \<and> contribution_margin
      (calculate_financials_fl round_double (add_sum round_double) scenario_all_variable)
     = 1 / 9007199254740992
   \<and> break_even_revenue_month
      (calculate_financials_fl round_double (add_sum round_double) scenario_all_variable)
     = Some 31525197391593472000"
proof -
  have "break_even_orders_day
      (calculate_financials_fl round_double (add_sum round_double) scenario_double_no_segments)
     = None"
    using cfl_break_even_orders_day_defined [of round_double "add_sum round_double"
        scenario_double_no_segments]
    by (simp add: double_no_segments_revenue)
  moreover have
    "round_double (4581298449066667 / 549755813888 * (236438980436951 / 562949953421312))
       = 7696581394431999 / 2199023255552"
    by (simp add: roundings)
  ultimately show ?thesis
    by (simp add: double_no_segments_break_even small_break_even all_variable_break_even
        all_variable_decimal_exact)
qed

end
